theory Spec2Isabelle
  imports Complex_Main "HOL-Library.Word"
begin

section \<open>PDF3DSceneProcessor: from a U3D node graph to a Qt3D scene\<close>

text \<open>
  A shallow embedding of \<^verbatim>\<open>pdf3dsceneprocessor.cpp\<close>. The coordinates of vectors are
  C++ \<^verbatim>\<open>float\<close> values: a number, an infinity or NaN, compared as C++ compares them.
  The channels of a \<^verbatim>\<open>QColor\<close> and the \<^verbatim>\<open>qreal\<close> settings are real numbers.
  \<^verbatim>\<open>uint\<close> and \<^verbatim>\<open>uint32_t\<close> values are 32-bit words, so that every count the code
  computes wraps as it does in C++.
\<close>

subsection \<open>Vectors, colours, images\<close>

text \<open>
  The values of a \<^verbatim>\<open>float\<close> that are not NaN, in their order: the two infinities and the
  finite numbers. Rounding plays no part in what follows: coordinates are compared and copied,
  never computed with. The two zeros, which compare equal, are one number.
\<close>

datatype number = MinusInfinity | Finite real | PlusInfinity

instantiation number :: linorder
begin

fun less_eq_number :: "number \<Rightarrow> number \<Rightarrow> bool" where
  "less_eq_number MinusInfinity b = True"
| "less_eq_number (Finite x) MinusInfinity = False"
| "less_eq_number (Finite x) (Finite y) = (x \<le> y)"
| "less_eq_number (Finite x) PlusInfinity = True"
| "less_eq_number PlusInfinity MinusInfinity = False"
| "less_eq_number PlusInfinity (Finite y) = False"
| "less_eq_number PlusInfinity PlusInfinity = True"

definition less_number :: "number \<Rightarrow> number \<Rightarrow> bool" where
  "less_number a b = (a \<le> b \<and> \<not> b \<le> a)"

instance
proof
  fix a b c :: number
  show "(a < b) = (a \<le> b \<and> \<not> b \<le> a)" by (simp add: less_number_def)
  show "a \<le> a" by (cases a) simp_all
  show "a \<le> b \<Longrightarrow> b \<le> c \<Longrightarrow> a \<le> c" by (cases a; cases b; cases c) simp_all
  show "a \<le> b \<Longrightarrow> b \<le> a \<Longrightarrow> a = b" by (cases a; cases b) simp_all
  show "a \<le> b \<or> b \<le> a" by (cases a; cases b) auto
qed

end

datatype float = NaN | Number (number_of: number)

text \<open>\<^verbatim>\<open>a < b\<close> on two floats: false as soon as one of them is NaN.\<close>

fun float_less :: "float \<Rightarrow> float \<Rightarrow> bool" where
  "float_less (Number a) (Number b) = (a < b)"
| "float_less NaN b = False"
| "float_less (Number a) NaN = False"

definition fl :: "real \<Rightarrow> float" where
  "fl r = Number (Finite r)"

type_synonym QVector3D = "float \<times> float \<times> float"
type_synonym QVector4D = "float \<times> float \<times> float \<times> float"
type_synonym QMatrix4x4 = "real list"
type_synonym uint = "32 word"

fun vx :: "QVector3D \<Rightarrow> float" where "vx (a, b, c) = a"
fun vy :: "QVector3D \<Rightarrow> float" where "vy (a, b, c) = b"
fun vz :: "QVector3D \<Rightarrow> float" where "vz (a, b, c) = c"

fun toVector3D :: "QVector4D \<Rightarrow> QVector3D" where
  "toVector3D (a, b, c, d) = (a, b, c)"

text \<open>\<^verbatim>\<open>qMin(a, b)\<close> is \<^verbatim>\<open>(a < b) ? a : b\<close> and \<^verbatim>\<open>qMax(a, b)\<close> is
  \<^verbatim>\<open>(a < b) ? b : a\<close>.\<close>

definition qMin :: "float \<Rightarrow> float \<Rightarrow> float" where
  "qMin a b = (if float_less a b then a else b)"

definition qMax :: "float \<Rightarrow> float \<Rightarrow> float" where
  "qMax a b = (if float_less a b then b else a)"

text \<open>A \<^verbatim>\<open>QColor\<close> is read and written through its four floating-point channels.\<close>

record QColor =
  redF :: real
  greenF :: real
  blueF :: real
  alphaF :: real

definition transparent :: QColor where
  "transparent = \<lparr>redF = 0, greenF = 0, blueF = 0, alphaF = 0\<rparr>"

record QImage =
  img_width :: int
  img_height :: int
  img_pixels :: "nat list"

subsection \<open>The bounding box\<close>

text \<open>
  Modelled from the spec: the declaration of class \<^verbatim>\<open>PDF3DBoundingBox\<close> (its default
  constructor, \<^verbatim>\<open>isEmpty\<close>, \<^verbatim>\<open>getMin\<close>, \<^verbatim>\<open>getMax\<close>) is in a header that is not
  part of the sources at hand. The spec describes the type as "min and max corner (empty iff
  no input points)": a default-constructed box is the empty one, a box constructed from two
  corners is not.
\<close>

record PDF3DBoundingBox =
  bb_isEmpty :: bool
  bb_getMin :: QVector3D
  bb_getMax :: QVector3D

definition PDF3DBoundingBox_default :: PDF3DBoundingBox where
  "PDF3DBoundingBox_default =
     \<lparr>bb_isEmpty = True, bb_getMin = (fl 0, fl 0, fl 0), bb_getMax = (fl 0, fl 0, fl 0)\<rparr>"

definition PDF3DBoundingBox_new :: "QVector3D \<Rightarrow> QVector3D \<Rightarrow> PDF3DBoundingBox" where
  "PDF3DBoundingBox_new mn mx = \<lparr>bb_isEmpty = False, bb_getMin = mn, bb_getMax = mx\<rparr>"

text \<open>The body of the range-for loop of \<^verbatim>\<open>getBoundingBox\<close>: one point folded into the
  running pair (min, max).\<close>

fun bb_step :: "QVector3D \<times> QVector3D \<Rightarrow> QVector3D \<Rightarrow> QVector3D \<times> QVector3D" where
  "bb_step ((mnx, mny, mnz), (mxx, mxy, mxz)) (px, py, pz) =
     ((qMin mnx px, qMin mny py, qMin mnz pz), (qMax mxx px, qMax mxy py, qMax mxz pz))"

fun bb_loop :: "QVector3D \<times> QVector3D \<Rightarrow> QVector3D list \<Rightarrow> QVector3D \<times> QVector3D" where
  "bb_loop acc [] = acc"
| "bb_loop acc (pt # pts) = bb_loop (bb_step acc pt) pts"

definition getBoundingBox :: "QVector3D list \<Rightarrow> PDF3DBoundingBox" where
  "getBoundingBox points =
     (case points of
        [] \<Rightarrow> PDF3DBoundingBox_default
      | front # _ \<Rightarrow>
          (case bb_loop (front, front) points of (mn, mx) \<Rightarrow> PDF3DBoundingBox_new mn mx))"

subsection \<open>The model-data source\<close>

text \<open>
  The classes of \<^verbatim>\<open>pdf3d_u3d.h\<close> are declared outside the sources at hand; the
  processor uses them only through accessors. Data members that the processor iterates over
  are record fields holding the data; every other accessor is a record field holding the
  accessor's result, so that nothing is assumed about how it is computed.
\<close>

datatype NodeType = Unknown | Group | Model | Light | View

record PDF3D_U3D_Node =
  getType :: NodeType
  getNodeName :: string
  getChildren :: "string list"
  getResourceName :: string
  hasChildTransform :: bool
  hasConstantChildTransform :: bool
  getConstantChildTransform :: QMatrix4x4
  getChildTransform :: "string \<Rightarrow> QMatrix4x4"

record Vertex =
  positionIndex :: uint
  normalIndex :: uint
  diffuseColorIndex :: uint
  textureCoordIndex :: uint

text \<open>\<^verbatim>\<open>vertices\<close> is a \<^verbatim>\<open>std::array\<close> of exactly three vertices.\<close>

record Triangle =
  vertices :: "Vertex \<times> Vertex \<times> Vertex"
  hasTexture :: bool
  hasDiffuse :: bool
  hasSpecular :: bool

record PDF3D_U3D_MeshGeometry =
  mesh_isEmpty :: bool
  mesh_getPositions :: "QVector3D list"
  mesh_getTriangles :: "Triangle list"
  mesh_getPosition :: "uint \<Rightarrow> QVector3D"
  mesh_getNormal :: "uint \<Rightarrow> QVector3D"
  mesh_getDiffuseColor :: "uint \<Rightarrow> QVector4D"
  mesh_getTextureCoordinate :: "uint \<Rightarrow> QVector4D"
  mesh_getShaderName :: "uint \<Rightarrow> string"

text \<open>
  Modelled from the spec: \<^verbatim>\<open>getTriangleCount\<close> is declared in the absent header; the
  spec's "mesh with T triangles" is the length of the triangle list.
\<close>

definition mesh_getTriangleCount :: "PDF3D_U3D_MeshGeometry \<Rightarrow> nat" where
  "mesh_getTriangleCount m = length (mesh_getTriangles m)"

record Point =
  pt_position :: uint
  pt_diffuseColor :: uint

record PDF3D_U3D_PointSetGeometry =
  ps_isEmpty :: bool
  ps_getPositions :: "QVector3D list"
  ps_queryPointsByVertexIndex :: "nat \<Rightarrow> Point list"
  ps_getDiffuseColor :: "uint \<Rightarrow> QVector4D"

record Line =
  position1 :: uint
  position2 :: uint
  diffuseColor1 :: uint
  diffuseColor2 :: uint
  shadingId :: uint

record PDF3D_U3D_LineSetGeometry =
  ls_isEmpty :: bool
  ls_getPositions :: "QVector3D list"
  ls_getLines :: "Line list"
  ls_getPosition :: "uint \<Rightarrow> QVector3D"
  ls_getDiffuseColor :: "uint \<Rightarrow> QVector4D"
  ls_queryLinesByVertexIndex :: "nat \<Rightarrow> Line list"
  ls_getShaderName :: "uint \<Rightarrow> string"

text \<open>
  Modelled from the spec: \<^verbatim>\<open>getLineCount\<close> and \<^verbatim>\<open>getLine\<close> are declared in the
  absent header; they are the length of, and the indexing into, the line list. The processor
  calls \<^verbatim>\<open>getLine(i)\<close> only with \<^verbatim>\<open>i < getLineCount()\<close>.
\<close>

definition ls_getLineCount :: "PDF3D_U3D_LineSetGeometry \<Rightarrow> nat" where
  "ls_getLineCount g = length (ls_getLines g)"

definition ls_getLine :: "PDF3D_U3D_LineSetGeometry \<Rightarrow> nat \<Rightarrow> Line" where
  "ls_getLine g i = ls_getLines g ! i"

text \<open>
  \<^verbatim>\<open>getGeometry\<close> returns a pointer to a polymorphic geometry; \<^verbatim>\<open>asMeshGeometry\<close>,
  \<^verbatim>\<open>asPointSetGeometry\<close> and \<^verbatim>\<open>asLineSetGeometry\<close> each return null unless the
  geometry is of that kind. \<open>OtherGeometry\<close> is a geometry for which all three are null.
\<close>

datatype PDF3D_U3D_Geometry =
    MeshGeometry PDF3D_U3D_MeshGeometry
  | PointSetGeometry PDF3D_U3D_PointSetGeometry
  | LineSetGeometry PDF3D_U3D_LineSetGeometry
  | OtherGeometry

datatype LightType = Ambient | Directional | Point | Spot

record PDF3D_U3D_Light =
  light_getType :: LightType
  light_getColor :: QColor
  light_getIntensity :: real
  light_getAttenuation :: "real \<times> real \<times> real"
  light_getSpotAngle :: real

datatype AlphaTestFunction = NEVER | LESS | GREATER | EQUAL | NOT_EQUAL | LEQUAL | GEQUAL | ALWAYS

record PDF_U3D_TextureInfo =
  textureName :: string
  textureSlot :: nat

record PDF3D_U3D_Shader =
  getTextureInfos :: "PDF_U3D_TextureInfo list"
  isUseVertexColor :: bool
  isAlphaTestEnabled :: bool
  getAlphaTestFunction :: AlphaTestFunction
  getAlphaTestReference :: real
  getMaterialName :: string

record PDF3D_U3D_Material =
  getAmbientColor :: QColor
  getDiffuseColor :: QColor
  getSpecularColor :: QColor

text \<open>
  \<^verbatim>\<open>getNode\<close> returns a reference and \<^verbatim>\<open>getTexture\<close> a value, so both are total;
  the other look-ups return a pointer that is null when the name is unknown.
\<close>

record PDF3D_U3D =
  getNode :: "string \<Rightarrow> PDF3D_U3D_Node"
  getGeometry :: "string \<Rightarrow> PDF3D_U3D_Geometry option"
  getLight :: "string \<Rightarrow> PDF3D_U3D_Light option"
  getShader :: "string \<Rightarrow> PDF3D_U3D_Shader option"
  getMaterial :: "string \<Rightarrow> PDF3D_U3D_Material option"
  getTexture :: "string \<Rightarrow> QImage"

subsection \<open>The scene that is built\<close>

datatype BufferType = VertexBuffer | IndexBuffer

text \<open>
  A \<^verbatim>\<open>QByteArray\<close> is resized to a byte count and then filled through a typed pointer
  that advances by one element per write. \<open>ba_size\<close> is the size of the array in bytes after
  \<^verbatim>\<open>resize\<close>; \<open>ba_floats\<close> and \<open>ba_uints\<close> are the values written, in the order of the
  writes (one of them is empty, by the type of the pointer).
\<close>

record QByteArray =
  ba_size :: nat
  ba_floats :: "float list"
  ba_uints :: "uint list"

record QBuffer =
  buf_type :: BufferType
  buf_data :: QByteArray

datatype AttributeType = VertexAttribute | IndexAttribute
datatype VertexBaseType = Float | UnsignedInt

record QAttribute =
  attr_name :: string
  attr_attributeType :: AttributeType
  attr_vertexBaseType :: VertexBaseType
  attr_vertexSize :: uint
  attr_buffer :: QBuffer
  attr_byteOffset :: uint
  attr_byteStride :: uint
  attr_count :: uint

datatype PrimitiveType = Points | Lines | Triangles

record QGeometryRenderer =
  gr_geometry :: "QAttribute list"
  gr_primitiveRestartEnabled :: bool
  gr_primitiveType :: PrimitiveType

record QTexture2D =
  tex_width :: int
  tex_height :: int
  tex_image :: QImage

datatype QVariant = ColorValue QColor | TextureValue QTexture2D

datatype AlphaFunction = Never | Less | Equal | LessOrEqual | Greater | NotEqual | GreaterOrEqual | Always

datatype QRenderState =
    QPointSize real
  | QCullFace_NoCulling
  | QAlphaTest AlphaFunction real

text \<open>
  The two material classes the processor instantiates. A render state added to every render
  pass of every technique of the material's effect is kept in \<open>mat_renderStates\<close>.
\<close>

datatype MaterialKind =
    QPerVertexColorMaterial
  | QDiffuseSpecularMaterial QColor QVariant QColor bool

record QMaterial =
  mat_kind :: MaterialKind
  mat_renderStates :: "QRenderState list"

datatype QComponent =
    QTransform QMatrix4x4
  | GeometryRendererC QGeometryRenderer
  | MaterialC QMaterial
  | QDirectionalLight QColor real
  | QPointLight QColor real real real real
  | QSpotLight QColor real real real real real

text \<open>A \<^verbatim>\<open>Qt3DCore::QNode\<close> has an object name and child nodes; a
  \<^verbatim>\<open>Qt3DCore::QEntity\<close> is a node that also has components.\<close>

datatype QNode =
    QNode string "QNode list"
  | QEntity string "QComponent list" "QNode list"

fun setObjectName :: "string \<Rightarrow> QNode \<Rightarrow> QNode" where
  "setObjectName n (QNode _ cs) = QNode n cs"
| "setObjectName n (QEntity _ comps cs) = QEntity n comps cs"

text \<open>\<^verbatim>\<open>child->setParent(parent)\<close> appends the child to the parent's child nodes.\<close>

fun addChild :: "QNode \<Rightarrow> QNode \<Rightarrow> QNode" where
  "addChild (QNode n cs) c = QNode n (cs @ [c])"
| "addChild (QEntity n comps cs) c = QEntity n comps (cs @ [c])"

subsection \<open>The processor, its settings and its failures\<close>

datatype SceneMode =
    Solid | SolidWireframe | Transparent | TransparentWireframe
  | BoundingBox | TransparentBoundingBox | TransparentBoundingBoxOutline
  | Wireframe | ShadedWireframe | HiddenWireframe
  | Vertices | ShadedVertices | Illustration | SolidOutline | ShadedIllustration

record PDF3DSceneProcessor =
  m_mode :: SceneMode
  m_auxiliaryColor :: QColor
  m_faceColor :: QColor
  m_opacity :: real
  m_creaseAngle :: real
  m_pointSize :: real
  m_sceneRoot :: string
  m_globalAmbientColor :: QColor
  m_processedNodes :: "string list"
  m_sceneData :: PDF3D_U3D

definition getMode :: "PDF3DSceneProcessor \<Rightarrow> SceneMode" where
  "getMode p = m_mode p"

definition setMode :: "SceneMode \<Rightarrow> PDF3DSceneProcessor \<Rightarrow> PDF3DSceneProcessor" where
  "setMode newMode p = p\<lparr>m_mode := newMode\<rparr>"

definition getAuxiliaryColor :: "PDF3DSceneProcessor \<Rightarrow> QColor" where
  "getAuxiliaryColor p = m_auxiliaryColor p"

definition setAuxiliaryColor :: "QColor \<Rightarrow> PDF3DSceneProcessor \<Rightarrow> PDF3DSceneProcessor" where
  "setAuxiliaryColor newAuxiliaryColor p = p\<lparr>m_auxiliaryColor := newAuxiliaryColor\<rparr>"

definition getFaceColor :: "PDF3DSceneProcessor \<Rightarrow> QColor" where
  "getFaceColor p = m_faceColor p"

definition setFaceColor :: "QColor \<Rightarrow> PDF3DSceneProcessor \<Rightarrow> PDF3DSceneProcessor" where
  "setFaceColor newFaceColor p = p\<lparr>m_faceColor := newFaceColor\<rparr>"

definition getOpacity :: "PDF3DSceneProcessor \<Rightarrow> real" where
  "getOpacity p = m_opacity p"

definition setOpacity :: "real \<Rightarrow> PDF3DSceneProcessor \<Rightarrow> PDF3DSceneProcessor" where
  "setOpacity newOpacity p = p\<lparr>m_opacity := newOpacity\<rparr>"

definition getCreaseAngle :: "PDF3DSceneProcessor \<Rightarrow> real" where
  "getCreaseAngle p = m_creaseAngle p"

definition setCreaseAngle :: "real \<Rightarrow> PDF3DSceneProcessor \<Rightarrow> PDF3DSceneProcessor" where
  "setCreaseAngle newCreaseAngle p = p\<lparr>m_creaseAngle := newCreaseAngle\<rparr>"

definition getSceneRoot :: "PDF3DSceneProcessor \<Rightarrow> string" where
  "getSceneRoot p = m_sceneRoot p"

definition setSceneRoot :: "string \<Rightarrow> PDF3DSceneProcessor \<Rightarrow> PDF3DSceneProcessor" where
  "setSceneRoot newSceneRoot p = p\<lparr>m_sceneRoot := newSceneRoot\<rparr>"

definition getPointSize :: "PDF3DSceneProcessor \<Rightarrow> real" where
  "getPointSize p = m_pointSize p"

definition setPointSize :: "real \<Rightarrow> PDF3DSceneProcessor \<Rightarrow> PDF3DSceneProcessor" where
  "setPointSize newPointSize p = p\<lparr>m_pointSize := newPointSize\<rparr>"

text \<open>
  What stops a build. \<open>AssertionFailed\<close> is a \<^verbatim>\<open>Q_ASSERT\<close> whose condition is false in
  a build with assertions; \<open>NullPointerDereference\<close> is a member access through a null
  pointer returned by a look-up; \<open>BufferOverrun\<close> is a write through a raw pointer past the
  end of the byte array it points into. The last two are undefined behaviour in C++.
\<close>

datatype error = AssertionFailed | NullPointerDereference | BufferOverrun

text \<open>
  \<^verbatim>\<open>Q_ASSERT(cond)\<close> is a macro of Qt: it stops the program when \<open>cond\<close> is false, and it
  expands to nothing when \<^verbatim>\<open>QT_NO_DEBUG\<close> is defined, as in a release build. \<open>dbg\<close> says
  whether assertions are compiled in.
\<close>

definition Q_ASSERT :: "bool \<Rightarrow> bool \<Rightarrow> error + unit" where
  "Q_ASSERT dbg cond = (if dbg \<and> \<not> cond then Inl AssertionFailed else Inr ())"

definition bindE :: "error + 'a \<Rightarrow> ('a \<Rightarrow> error + 'b) \<Rightarrow> error + 'b" where
  "bindE m f = (case m of Inl e \<Rightarrow> Inl e | Inr v \<Rightarrow> f v)"

text \<open>
  The code is written for Qt 5 (\<^verbatim>\<open>Qt3DRender::QBuffer\<close>, \<^verbatim>\<open>QAttribute::setDataType\<close>),
  where the size of a byte array is an \<^verbatim>\<open>int\<close>: \<^verbatim>\<open>QByteArray::resize(int size)\<close>. The
  value \<open>sz\<close> of the size expression, of type \<^verbatim>\<open>unsigned int\<close> or \<^verbatim>\<open>size_t\<close>, is
  narrowed to its low 32 bits read as a signed number, and \<^verbatim>\<open>resize\<close> takes a negative
  size for 0.
\<close>

definition resize :: "nat \<Rightarrow> nat" where
  "resize sz = (let size = sint (of_nat sz :: 32 word) in if size < 0 then 0 else nat size)"

text \<open>
  A byte array resized with the size expression \<open>sz\<close> and filled with 4-byte values
  through a pointer holds the values written if they fit; writing more is an overrun.
\<close>

definition fill_floats :: "nat \<Rightarrow> float list \<Rightarrow> error + QByteArray" where
  "fill_floats sz xs =
     (if 4 * length xs \<le> resize sz
      then Inr \<lparr>ba_size = resize sz, ba_floats = xs, ba_uints = []\<rparr>
      else Inl BufferOverrun)"

definition fill_uints :: "nat \<Rightarrow> uint list \<Rightarrow> error + QByteArray" where
  "fill_uints sz xs =
     (if 4 * length xs \<le> resize sz
      then Inr \<lparr>ba_size = resize sz, ba_floats = [], ba_uints = xs\<rparr>
      else Inl BufferOverrun)"

subsection \<open>Attributes\<close>

definition vec3_floats :: "QVector3D \<Rightarrow> float list" where
  "vec3_floats v = [vx v, vy v, vz v]"

text \<open>The names returned by \<^verbatim>\<open>QAttribute::default...AttributeName()\<close>.\<close>

definition defaultPositionAttributeName :: string where
  "defaultPositionAttributeName = ''vertexPosition''"

definition defaultNormalAttributeName :: string where
  "defaultNormalAttributeName = ''vertexNormal''"

definition defaultColorAttributeName :: string where
  "defaultColorAttributeName = ''vertexColor''"

definition defaultTextureCoordinateAttributeName :: string where
  "defaultTextureCoordinateAttributeName = ''vertexTexCoord''"

text \<open>
  \<^verbatim>\<open>positionCount * 3 * sizeof(float)\<close>: the product \<^verbatim>\<open>positionCount * 3\<close> is computed
  in \<^verbatim>\<open>unsigned int\<close> and wraps; the multiplication by \<^verbatim>\<open>sizeof\<close> is in
  \<^verbatim>\<open>size_t\<close>. The loop reads \<^verbatim>\<open>values[i]\<close> for \<open>i\<close> below \<^verbatim>\<open>positionCount\<close>, which
  is at most the length of \<open>values\<close>.
\<close>

definition createGenericAttribute :: "QVector3D list \<Rightarrow> error + QAttribute" where
  "createGenericAttribute values =
     (let positionCount = (of_nat (length values) :: uint) in
      bindE (fill_floats (unat (positionCount * 3) * 4)
               (concat (map (\<lambda>i. vec3_floats (values ! i)) [0..<unat positionCount])))
        (\<lambda>vertexBufferData.
           Inr \<lparr>attr_name = [],
                attr_attributeType = VertexAttribute,
                attr_vertexBaseType = Float,
                attr_vertexSize = 3,
                attr_buffer = \<lparr>buf_type = VertexBuffer, buf_data = vertexBufferData\<rparr>,
                attr_byteOffset = 0,
                attr_byteStride = 12,
                attr_count = positionCount\<rparr>))"

definition createPositionAttribute :: "QVector3D list \<Rightarrow> error + QAttribute" where
  "createPositionAttribute positions =
     bindE (createGenericAttribute positions)
       (\<lambda>attribute. Inr (attribute\<lparr>attr_name := defaultPositionAttributeName\<rparr>))"

definition createNormalAttribute :: "QVector3D list \<Rightarrow> error + QAttribute" where
  "createNormalAttribute normals =
     bindE (createGenericAttribute normals)
       (\<lambda>attribute. Inr (attribute\<lparr>attr_name := defaultNormalAttributeName\<rparr>))"

definition createColorAttribute :: "QVector3D list \<Rightarrow> error + QAttribute" where
  "createColorAttribute colors =
     bindE (createGenericAttribute colors)
       (\<lambda>attribute. Inr (attribute\<lparr>attr_name := defaultColorAttributeName\<rparr>))"

text \<open>
  An index attribute as the processor sets it up: attribute type, base type, buffer and count
  are set, the other properties keep the defaults of \<^verbatim>\<open>QAttribute\<close> (no name, vertex
  size 1, offset and stride 0).
\<close>

definition indexAttribute_of :: "QByteArray \<Rightarrow> uint \<Rightarrow> QAttribute" where
  "indexAttribute_of indexBufferData n =
     \<lparr>attr_name = [],
      attr_attributeType = IndexAttribute,
      attr_vertexBaseType = UnsignedInt,
      attr_vertexSize = 1,
      attr_buffer = \<lparr>buf_type = IndexBuffer, buf_data = indexBufferData\<rparr>,
      attr_byteOffset = 0,
      attr_byteStride = 0,
      attr_count = n\<rparr>"

text \<open>
  The material of edges, points and vertices: a \<^verbatim>\<open>QDiffuseSpecularMaterial\<close> whose ambient
  colour is the auxiliary colour and whose diffuse and specular colours are transparent; alpha
  blending keeps its default, off.
\<close>

definition auxiliaryMaterial :: "PDF3DSceneProcessor \<Rightarrow> QRenderState list \<Rightarrow> QMaterial" where
  "auxiliaryMaterial p states =
     \<lparr>mat_kind = QDiffuseSpecularMaterial (getAuxiliaryColor p) (ColorValue transparent) transparent False,
      mat_renderStates = states\<rparr>"

definition renderer :: "QAttribute list \<Rightarrow> PrimitiveType \<Rightarrow> QComponent" where
  "renderer attributes primitiveType =
     GeometryRendererC \<lparr>gr_geometry = attributes, gr_primitiveRestartEnabled = False,
                        gr_primitiveType = primitiveType\<rparr>"

definition createVertexGeometry :: "PDF3DSceneProcessor \<Rightarrow> QVector3D list \<Rightarrow> error + QNode" where
  "createVertexGeometry p positions =
     bindE (createPositionAttribute positions)
       (\<lambda>positionAttribute.
          Inr (QEntity [] [renderer [positionAttribute] Points,
                           MaterialC (auxiliaryMaterial p [QPointSize (m_pointSize p)])] []))"

subsection \<open>Bounding-box geometry\<close>

definition box_positions :: "PDF3DBoundingBox \<Rightarrow> QVector3D list" where
  "box_positions boundingBox =
     (let mn = bb_getMin boundingBox; mx = bb_getMax boundingBox in
      [(vx mn, vy mn, vz mn), (vx mx, vy mn, vz mn), (vx mx, vy mx, vz mn), (vx mn, vy mx, vz mn),
       (vx mn, vy mn, vz mx), (vx mx, vy mn, vz mx), (vx mx, vy mx, vz mx), (vx mn, vy mx, vz mx)])"

definition wire_indices :: "uint list" where
  "wire_indices = [0, 1, 1, 2, 2, 3, 3, 0, 4, 5, 5, 6, 6, 7, 7, 4, 0, 4, 1, 5, 2, 6, 3, 7]"

definition solid_indices :: "uint list" where
  "solid_indices = [0, 1, 2, 2, 3, 0, 4, 5, 6, 6, 7, 4, 0, 1, 5, 0, 4, 5,
                    1, 2, 6, 1, 5, 6, 2, 3, 7, 2, 6, 7, 3, 0, 4, 3, 7, 4]"

text \<open>The position attribute both bounding-box functions build by hand over the 8 corners.\<close>

definition box_positionAttribute :: "QVector3D list \<Rightarrow> error + QAttribute" where
  "box_positionAttribute positions =
     (let positionCount = (of_nat (length positions) :: uint) in
      bindE (fill_floats (unat (positionCount * 3) * 4)
               (concat (map (\<lambda>i. vec3_floats (positions ! i)) [0..<unat positionCount])))
        (\<lambda>vertexBufferData.
           Inr \<lparr>attr_name = defaultPositionAttributeName,
                attr_attributeType = VertexAttribute,
                attr_vertexBaseType = Float,
                attr_vertexSize = 3,
                attr_buffer = \<lparr>buf_type = VertexBuffer, buf_data = vertexBufferData\<rparr>,
                attr_byteOffset = 0,
                attr_byteStride = 12,
                attr_count = positionCount\<rparr>))"

definition createBoundingBoxWireGeometry :: "PDF3DSceneProcessor \<Rightarrow> PDF3DBoundingBox \<Rightarrow> error + QNode" where
  "createBoundingBoxWireGeometry p boundingBox =
     bindE (box_positionAttribute (box_positions boundingBox))
       (\<lambda>positionAttribute.
          let lineCount = (of_nat (length wire_indices) :: uint) div 2 in
          bindE (fill_uints (unat (lineCount * 2) * 4) wire_indices)
            (\<lambda>indexBufferData.
               Inr (QEntity []
                      [renderer [positionAttribute, indexAttribute_of indexBufferData (2 * lineCount)] Lines,
                       MaterialC (auxiliaryMaterial p [])] [])))"

definition createBoundingBoxTransparentGeometry ::
    "PDF3DSceneProcessor \<Rightarrow> PDF3DBoundingBox \<Rightarrow> error + QNode" where
  "createBoundingBoxTransparentGeometry p boundingBox =
     bindE (box_positionAttribute (box_positions boundingBox))
       (\<lambda>positionAttribute.
          let triangleCount = (of_nat (length solid_indices) :: uint) div 3 in
          bindE (fill_uints (unat (triangleCount * 3) * 4) solid_indices)
            (\<lambda>indexBufferData.
               let color = (getAuxiliaryColor p)\<lparr>alphaF := getOpacity p\<rparr> in
               Inr (QEntity []
                      [renderer [positionAttribute, indexAttribute_of indexBufferData (3 * triangleCount)] Triangles,
                       MaterialC \<lparr>mat_kind = QDiffuseSpecularMaterial transparent (ColorValue color) transparent True,
                                  mat_renderStates = [QCullFace_NoCulling]\<rparr>] [])))"

text \<open>
  The cases \<^verbatim>\<open>BoundingBox\<close>, \<^verbatim>\<open>TransparentBoundingBox\<close> and
  \<^verbatim>\<open>TransparentBoundingBoxOutline\<close> are the same code in the three geometry functions,
  over the positions of the geometry. When the box is empty the case breaks out of the switch
  and the function returns null. The two \<^verbatim>\<open>Q_ASSERT\<close>s of the outline case check pointers
  that were just returned by \<^verbatim>\<open>new\<close>.
\<close>

definition case_BoundingBox :: "PDF3DSceneProcessor \<Rightarrow> QVector3D list \<Rightarrow> error + QNode option" where
  "case_BoundingBox p positions =
     (let boundingBox = getBoundingBox positions in
      if \<not> bb_isEmpty boundingBox
      then bindE (createBoundingBoxWireGeometry p boundingBox) (\<lambda>n. Inr (Some n))
      else Inr None)"

definition case_TransparentBoundingBox ::
    "PDF3DSceneProcessor \<Rightarrow> QVector3D list \<Rightarrow> error + QNode option" where
  "case_TransparentBoundingBox p positions =
     (let boundingBox = getBoundingBox positions in
      if \<not> bb_isEmpty boundingBox
      then bindE (createBoundingBoxTransparentGeometry p boundingBox) (\<lambda>n. Inr (Some n))
      else Inr None)"

definition case_TransparentBoundingBoxOutline ::
    "PDF3DSceneProcessor \<Rightarrow> QVector3D list \<Rightarrow> error + QNode option" where
  "case_TransparentBoundingBoxOutline p positions =
     (let boundingBox = getBoundingBox positions in
      if \<not> bb_isEmpty boundingBox
      then bindE (createBoundingBoxWireGeometry p boundingBox)
             (\<lambda>wireGeometry.
                bindE (createBoundingBoxTransparentGeometry p boundingBox)
                  (\<lambda>transparentGeometry. Inr (Some (QNode [] [wireGeometry, transparentGeometry]))))
      else Inr None)"

subsection \<open>Materials\<close>

fun alphaFunction_of :: "AlphaTestFunction \<Rightarrow> AlphaFunction" where
  "alphaFunction_of NEVER = Never"
| "alphaFunction_of LESS = Less"
| "alphaFunction_of GREATER = Greater"
| "alphaFunction_of EQUAL = Equal"
| "alphaFunction_of NOT_EQUAL = NotEqual"
| "alphaFunction_of LEQUAL = LessOrEqual"
| "alphaFunction_of GEQUAL = GreaterOrEqual"
| "alphaFunction_of ALWAYS = Always"

text \<open>
  The shader pointer is dereferenced without a null check, and so is the material pointer in
  the flat branch. In the textured branch \<^verbatim>\<open>front()\<close> is called on a list that is not
  empty there.
\<close>

definition createMaterialFromShader ::
    "PDF3DSceneProcessor \<Rightarrow> string \<Rightarrow> bool \<Rightarrow> error + QMaterial" where
  "createMaterialFromShader p shaderName forceUseVertexColors =
     (case getShader (m_sceneData p) shaderName of
        None \<Rightarrow> Inl NullPointerDereference
      | Some shader \<Rightarrow>
          bindE
            (if getTextureInfos shader = []
             then (if isUseVertexColor shader \<or> forceUseVertexColors
                   then Inr QPerVertexColorMaterial
                   else (case getMaterial (m_sceneData p) (getMaterialName shader) of
                           None \<Rightarrow> Inl NullPointerDereference
                         | Some u3dMaterial \<Rightarrow>
                             Inr (QDiffuseSpecularMaterial
                                    (getAmbientColor u3dMaterial)
                                    (ColorValue (getDiffuseColor u3dMaterial))
                                    (getSpecularColor u3dMaterial)
                                    (isAlphaTestEnabled shader))))
             else (let textureInfo = hd (getTextureInfos shader);
                       image = getTexture (m_sceneData p) (textureName textureInfo);
                       texture = \<lparr>tex_width = img_width image, tex_height = img_height image,
                                  tex_image = image\<rparr>
                   in Inr (QDiffuseSpecularMaterial transparent (TextureValue texture) transparent
                             (isAlphaTestEnabled shader))))
            (\<lambda>material.
               Inr \<lparr>mat_kind = material,
                    mat_renderStates =
                      (if isAlphaTestEnabled shader
                       then [QAlphaTest (alphaFunction_of (getAlphaTestFunction shader))
                                        (getAlphaTestReference shader)]
                       else [])\<rparr>))"

subsection \<open>Lights\<close>

text \<open>
  An ambient light updates the three colour channels of \<^verbatim>\<open>m_globalAmbientColor\<close> one
  after the other and returns null; the other lights return an entity with one light
  component. The light types are exactly the four of the enumeration.
\<close>

definition createLightNode ::
    "bool \<Rightarrow> PDF3DSceneProcessor \<Rightarrow> PDF3D_U3D_Node \<Rightarrow> error + (QNode option \<times> PDF3DSceneProcessor)" where
  "createLightNode dbg p node =
     bindE (Q_ASSERT dbg (getType node = Light))
       (\<lambda>_. case getLight (m_sceneData p) (getResourceName node) of
               None \<Rightarrow> Inr (None, p)
             | Some light \<Rightarrow>
                 (case light_getType light of
                    Ambient \<Rightarrow>
                      (let c1 = (m_globalAmbientColor p)
                                  \<lparr>redF := redF (m_globalAmbientColor p)
                                            + redF (light_getColor light) * light_getIntensity light\<rparr>;
                           c2 = c1\<lparr>greenF := greenF c1
                                            + greenF (light_getColor light) * light_getIntensity light\<rparr>;
                           c3 = c2\<lparr>blueF := blueF c2
                                            + blueF (light_getColor light) * light_getIntensity light\<rparr>
                       in Inr (None, p\<lparr>m_globalAmbientColor := c3\<rparr>))
                  | Directional \<Rightarrow>
                      Inr (Some (QEntity []
                                   [QDirectionalLight (light_getColor light) (light_getIntensity light)] []), p)
                  | Point \<Rightarrow>
                      (case light_getAttenuation light of (a0, a1, a2) \<Rightarrow>
                         Inr (Some (QEntity []
                                      [QPointLight (light_getColor light) (light_getIntensity light)
                                         a0 a1 a2] []), p))
                  | Spot \<Rightarrow>
                      (case light_getAttenuation light of (a0, a1, a2) \<Rightarrow>
                         Inr (Some (QEntity []
                                      [QSpotLight (light_getColor light) (light_getIntensity light)
                                         a0 a1 a2 (light_getSpotAngle light)] []), p))))"

subsection \<open>Mesh geometry\<close>

text \<open>The six index writes of the wireframe loop for one triangle.\<close>

definition triangle_edges :: "Triangle \<Rightarrow> uint list" where
  "triangle_edges triangle =
     (case vertices triangle of (v0, v1, v2) \<Rightarrow>
        [positionIndex v0, positionIndex v1,
         positionIndex v1, positionIndex v2,
         positionIndex v2, positionIndex v0])"

fun wireframe_fill :: "Triangle list \<Rightarrow> uint list \<Rightarrow> uint list" where
  "wireframe_fill [] written = written"
| "wireframe_fill (triangle # rest) written = wireframe_fill rest (written @ triangle_edges triangle)"

definition createMeshGeometry_Wireframe ::
    "PDF3DSceneProcessor \<Rightarrow> PDF3D_U3D_MeshGeometry \<Rightarrow> error + QNode option" where
  "createMeshGeometry_Wireframe p meshGeometry =
     bindE (createPositionAttribute (mesh_getPositions meshGeometry))
       (\<lambda>positionAttribute.
          let lineCount = (of_nat (mesh_getTriangleCount meshGeometry) :: uint) * 3 in
          bindE (fill_uints (unat (lineCount * 2) * 4)
                   (wireframe_fill (mesh_getTriangles meshGeometry) []))
            (\<lambda>indexBufferData.
               Inr (Some (QEntity []
                            [renderer [positionAttribute, indexAttribute_of indexBufferData (2 * lineCount)] Lines,
                             MaterialC (auxiliaryMaterial p [])] []))))"

text \<open>The twelve float writes of the solid loop for one vertex of a triangle.\<close>

definition vertex_floats :: "PDF3D_U3D_MeshGeometry \<Rightarrow> Vertex \<Rightarrow> float list" where
  "vertex_floats meshGeometry vertex =
     (case mesh_getPosition meshGeometry (positionIndex vertex) of (p0, p1, p2) \<Rightarrow>
      case mesh_getNormal meshGeometry (normalIndex vertex) of (n0, n1, n2) \<Rightarrow>
      case mesh_getDiffuseColor meshGeometry (diffuseColorIndex vertex) of (d0, d1, d2, d3) \<Rightarrow>
      case mesh_getTextureCoordinate meshGeometry (textureCoordIndex vertex) of (t0, t1, t2, t3) \<Rightarrow>
        [p0, p1, p2, n0, n1, n2, d0, d1, d2, d3, t0, t1])"

text \<open>
  The solid loop over the triangles and, inside, over the three vertices of each. The flags
  \<^verbatim>\<open>hasTextures\<close>, \<^verbatim>\<open>hasDiffuse\<close> and \<^verbatim>\<open>hasSpecular\<close> that the loop also computes are
  never read afterwards.
\<close>

fun solid_fill :: "PDF3D_U3D_MeshGeometry \<Rightarrow> Triangle list \<Rightarrow> float list \<Rightarrow> float list" where
  "solid_fill meshGeometry [] written = written"
| "solid_fill meshGeometry (triangle # rest) written =
     (case vertices triangle of (v0, v1, v2) \<Rightarrow>
        solid_fill meshGeometry rest
          (written @ vertex_floats meshGeometry v0 @ vertex_floats meshGeometry v1
                   @ vertex_floats meshGeometry v2))"

definition solid_attribute :: "string \<Rightarrow> uint \<Rightarrow> QBuffer \<Rightarrow> uint \<Rightarrow> uint \<Rightarrow> uint \<Rightarrow> QAttribute" where
  "solid_attribute name dataSize vertexBuffer byteOffset stride n =
     \<lparr>attr_name = name,
      attr_attributeType = VertexAttribute,
      attr_vertexBaseType = Float,
      attr_vertexSize = dataSize,
      attr_buffer = vertexBuffer,
      attr_byteOffset = byteOffset,
      attr_byteStride = stride,
      attr_count = n\<rparr>"

text \<open>
  All of \<^verbatim>\<open>triangleCount * 3 * stride\<close> is computed in 32 bits. The \<^verbatim>\<open>Q_ASSERT\<close> after
  the writes of each vertex says that the write pointer has not passed the end of the array;
  when it has, the writes before it were already an overrun.
\<close>

definition createMeshGeometry_Solid ::
    "PDF3DSceneProcessor \<Rightarrow> PDF3D_U3D_MeshGeometry \<Rightarrow> error + QNode option" where
  "createMeshGeometry_Solid p meshGeometry =
     (let positionVertexSize = (3 :: uint);
          normalVertexSize = (3 :: uint);
          colorVertexSize = (4 :: uint);
          textureVertexSize = (2 :: uint);
          triangleCount = (of_nat (mesh_getTriangleCount meshGeometry) :: uint);
          stride = (positionVertexSize + normalVertexSize + colorVertexSize + textureVertexSize) * 4;
          positionVertexByteOffset = (0 :: uint);
          normalVertexByteOffset = positionVertexByteOffset + positionVertexSize * 4;
          colorVertexByteOffset = normalVertexByteOffset + normalVertexSize * 4;
          textureVertexByteOffset = colorVertexByteOffset + colorVertexSize * 4
      in
      bindE (fill_floats (unat (triangleCount * 3 * stride))
               (solid_fill meshGeometry (mesh_getTriangles meshGeometry) []))
        (\<lambda>vertexBufferData.
           let vertexBuffer = \<lparr>buf_type = VertexBuffer, buf_data = vertexBufferData\<rparr>;
               positionAttribute = solid_attribute defaultPositionAttributeName positionVertexSize
                                     vertexBuffer positionVertexByteOffset stride (triangleCount * 3);
               normalAttribute = solid_attribute defaultNormalAttributeName normalVertexSize
                                     vertexBuffer normalVertexByteOffset stride (triangleCount * 3);
               colorAttribute = solid_attribute defaultColorAttributeName colorVertexSize
                                     vertexBuffer colorVertexByteOffset stride (triangleCount * 3);
               textureAttribute = solid_attribute defaultTextureCoordinateAttributeName textureVertexSize
                                     vertexBuffer textureVertexByteOffset stride (triangleCount * 3)
           in
           bindE (createMaterialFromShader p (mesh_getShaderName meshGeometry 0) False)
             (\<lambda>material.
                Inr (Some (QEntity []
                             [renderer [positionAttribute, normalAttribute, colorAttribute, textureAttribute]
                                Triangles,
                              MaterialC material] [])))))"

text \<open>
  The modes without an implementation for meshes share one \<^verbatim>\<open>Q_ASSERT(false); break;\<close>,
  after which the function returns null.
\<close>

definition createMeshGeometry ::
    "bool \<Rightarrow> PDF3DSceneProcessor \<Rightarrow> PDF3D_U3D_MeshGeometry \<Rightarrow> error + QNode option" where
  "createMeshGeometry dbg p meshGeometry =
     (if mesh_isEmpty meshGeometry then Inr None
      else (case m_mode p of
              BoundingBox \<Rightarrow> case_BoundingBox p (mesh_getPositions meshGeometry)
            | TransparentBoundingBox \<Rightarrow> case_TransparentBoundingBox p (mesh_getPositions meshGeometry)
            | TransparentBoundingBoxOutline \<Rightarrow>
                case_TransparentBoundingBoxOutline p (mesh_getPositions meshGeometry)
            | Wireframe \<Rightarrow> createMeshGeometry_Wireframe p meshGeometry
            | Vertices \<Rightarrow>
                bindE (createVertexGeometry p (mesh_getPositions meshGeometry)) (\<lambda>n. Inr (Some n))
            | Solid \<Rightarrow> createMeshGeometry_Solid p meshGeometry
            | _ \<Rightarrow> bindE (Q_ASSERT dbg False) (\<lambda>_. Inr None)))"

subsection \<open>Point-set geometry\<close>

text \<open>
  A point-list entity with one colour per position, as the shaded cases of the point-set and
  line-set functions build it: \<^verbatim>\<open>positionCount\<close> is the count of the position attribute,
  the colour of position \<open>i\<close> is \<open>colorOf i\<close>.
\<close>

definition coloredPoints ::
    "PDF3DSceneProcessor \<Rightarrow> QVector3D list \<Rightarrow> (nat \<Rightarrow> QVector3D) \<Rightarrow> error + QNode option" where
  "coloredPoints p positions colorOf =
     bindE (createPositionAttribute positions)
       (\<lambda>positionAttribute.
          let positionCount = attr_count positionAttribute in
          bindE (fill_floats (unat (positionCount * 3) * 4)
                   (concat (map (\<lambda>i. vec3_floats (colorOf i)) [0..<unat positionCount])))
            (\<lambda>colorBufferData.
               let colorAttribute =
                     \<lparr>attr_name = defaultColorAttributeName,
                      attr_attributeType = VertexAttribute,
                      attr_vertexBaseType = Float,
                      attr_vertexSize = 3,
                      attr_buffer = \<lparr>buf_type = VertexBuffer, buf_data = colorBufferData\<rparr>,
                      attr_byteOffset = 0,
                      attr_byteStride = 12,
                      attr_count = positionCount\<rparr>
               in Inr (Some (QEntity []
                               [renderer [positionAttribute, colorAttribute] Points,
                                MaterialC \<lparr>mat_kind = QPerVertexColorMaterial,
                                           mat_renderStates = [QPointSize (m_pointSize p)]\<rparr>] []))))"

definition pointColor :: "PDF3D_U3D_PointSetGeometry \<Rightarrow> nat \<Rightarrow> QVector3D" where
  "pointColor pointSetGeometry i =
     (let points = ps_queryPointsByVertexIndex pointSetGeometry i in
      if points \<noteq> []
      then toVector3D (ps_getDiffuseColor pointSetGeometry (pt_diffuseColor (hd points)))
      else (fl 0, fl 0, fl 0))"

text \<open>Every one of the fifteen modes has a case here.\<close>

definition createPointSetGeometry ::
    "PDF3DSceneProcessor \<Rightarrow> PDF3D_U3D_PointSetGeometry \<Rightarrow> error + QNode option" where
  "createPointSetGeometry p pointSetGeometry =
     (if ps_isEmpty pointSetGeometry then Inr None
      else if m_mode p = BoundingBox
        then case_BoundingBox p (ps_getPositions pointSetGeometry)
      else if m_mode p = TransparentBoundingBox
        then case_TransparentBoundingBox p (ps_getPositions pointSetGeometry)
      else if m_mode p = TransparentBoundingBoxOutline
        then case_TransparentBoundingBoxOutline p (ps_getPositions pointSetGeometry)
      else if m_mode p \<in> {Illustration, ShadedIllustration, Wireframe, Vertices}
        then bindE (createVertexGeometry p (ps_getPositions pointSetGeometry)) (\<lambda>n. Inr (Some n))
      else coloredPoints p (ps_getPositions pointSetGeometry) (pointColor pointSetGeometry))"

subsection \<open>Line-set geometry\<close>

definition createLineSetGeometry_Wireframe ::
    "PDF3DSceneProcessor \<Rightarrow> PDF3D_U3D_LineSetGeometry \<Rightarrow> error + QNode option" where
  "createLineSetGeometry_Wireframe p lineSetGeometry =
     bindE (createPositionAttribute (ls_getPositions lineSetGeometry))
       (\<lambda>positionAttribute.
          let lineCount = (of_nat (ls_getLineCount lineSetGeometry) :: uint) in
          bindE (fill_uints (unat (lineCount * 2) * 4)
                   (concat (map (\<lambda>i. [position1 (ls_getLine lineSetGeometry i),
                                        position2 (ls_getLine lineSetGeometry i)])
                              [0..<unat lineCount])))
            (\<lambda>indexBufferData.
               Inr (Some (QEntity []
                            [renderer [positionAttribute, indexAttribute_of indexBufferData (2 * lineCount)] Lines,
                             MaterialC (auxiliaryMaterial p [])] []))))"

text \<open>
  \<^verbatim>\<open>std::map<uint32_t, std::vector<Line>>\<close> as a list of (key, lines) pairs with
  increasing keys, which is the order in which the map is iterated.
  \<open>map_push_back k l m\<close> is \<^verbatim>\<open>m[k].push_back(l)\<close>.
\<close>

fun map_push_back :: "uint \<Rightarrow> Line \<Rightarrow> (uint \<times> Line list) list \<Rightarrow> (uint \<times> Line list) list" where
  "map_push_back k l [] = [(k, [l])]"
| "map_push_back k l ((k', ls) # m) =
     (if k = k' then (k', ls @ [l]) # m
      else if k < k' then (k, [l]) # (k', ls) # m
      else (k', ls) # map_push_back k l m)"

fun shadingIdToLines :: "Line list \<Rightarrow> (uint \<times> Line list) list \<Rightarrow> (uint \<times> Line list) list" where
  "shadingIdToLines [] m = m"
| "shadingIdToLines (line # rest) m = shadingIdToLines rest (map_push_back (shadingId line) line m)"

definition line_positions :: "PDF3D_U3D_LineSetGeometry \<Rightarrow> Line list \<Rightarrow> QVector3D list" where
  "line_positions lineSetGeometry lines =
     concat (map (\<lambda>line. [ls_getPosition lineSetGeometry (position1 line),
                          ls_getPosition lineSetGeometry (position2 line)]) lines)"

definition line_colors :: "PDF3D_U3D_LineSetGeometry \<Rightarrow> Line list \<Rightarrow> QVector3D list" where
  "line_colors lineSetGeometry lines =
     concat (map (\<lambda>line. [toVector3D (ls_getDiffuseColor lineSetGeometry (diffuseColor1 line)),
                          toVector3D (ls_getDiffuseColor lineSetGeometry (diffuseColor2 line))]) lines)"

text \<open>The body of the loop over the map: the entity of one shading id.\<close>

definition lineEntity ::
    "PDF3DSceneProcessor \<Rightarrow> PDF3D_U3D_LineSetGeometry \<Rightarrow> uint \<Rightarrow> Line list \<Rightarrow> error + QNode" where
  "lineEntity p lineSetGeometry sid lines =
     bindE (createPositionAttribute (line_positions lineSetGeometry lines))
       (\<lambda>positionAttribute.
          bindE (createColorAttribute (line_colors lineSetGeometry lines))
            (\<lambda>colorAttribute.
               bindE (createMaterialFromShader p (ls_getShaderName lineSetGeometry sid) True)
                 (\<lambda>material.
                    Inr (QEntity [] [renderer [positionAttribute, colorAttribute] Lines,
                                     MaterialC material] []))))"

fun lineEntities ::
    "PDF3DSceneProcessor \<Rightarrow> PDF3D_U3D_LineSetGeometry \<Rightarrow> (uint \<times> Line list) list \<Rightarrow> QNode list
       \<Rightarrow> error + QNode list" where
  "lineEntities p lineSetGeometry [] entities = Inr entities"
| "lineEntities p lineSetGeometry ((sid, lines) # rest) entities =
     bindE (lineEntity p lineSetGeometry sid lines)
       (\<lambda>entity. lineEntities p lineSetGeometry rest (entities @ [entity]))"

definition createLineSetGeometry_Solid ::
    "PDF3DSceneProcessor \<Rightarrow> PDF3D_U3D_LineSetGeometry \<Rightarrow> error + QNode option" where
  "createLineSetGeometry_Solid p lineSetGeometry =
     bindE (lineEntities p lineSetGeometry (shadingIdToLines (ls_getLines lineSetGeometry) []) [])
       (\<lambda>entities.
          if length entities = 1 then Inr (Some (hd entities))
          else Inr (Some (QEntity [] [] entities)))"

text \<open>
  The colour of position \<open>i\<close> in \<^verbatim>\<open>ShadedVertices\<close>: both comparisons are made, the
  second assignment overwrites the first.
\<close>

definition lineVertexColor :: "PDF3D_U3D_LineSetGeometry \<Rightarrow> nat \<Rightarrow> QVector3D" where
  "lineVertexColor lineSetGeometry i =
     (let lines = ls_queryLinesByVertexIndex lineSetGeometry i in
      if lines \<noteq> []
      then (let line = hd lines;
                c1 = (if unat (position1 line) = i
                      then toVector3D (ls_getDiffuseColor lineSetGeometry (diffuseColor1 line))
                      else (fl 0, fl 0, fl 0))
            in if unat (position2 line) = i
               then toVector3D (ls_getDiffuseColor lineSetGeometry (diffuseColor2 line))
               else c1)
      else (fl 0, fl 0, fl 0))"

text \<open>Every one of the fifteen modes has a case here.\<close>

definition createLineSetGeometry ::
    "PDF3DSceneProcessor \<Rightarrow> PDF3D_U3D_LineSetGeometry \<Rightarrow> error + QNode option" where
  "createLineSetGeometry p lineSetGeometry =
     (if ls_isEmpty lineSetGeometry then Inr None
      else if m_mode p = BoundingBox
        then case_BoundingBox p (ls_getPositions lineSetGeometry)
      else if m_mode p = TransparentBoundingBox
        then case_TransparentBoundingBox p (ls_getPositions lineSetGeometry)
      else if m_mode p = TransparentBoundingBoxOutline
        then case_TransparentBoundingBoxOutline p (ls_getPositions lineSetGeometry)
      else if m_mode p \<in> {Illustration, ShadedIllustration, Wireframe}
        then createLineSetGeometry_Wireframe p lineSetGeometry
      else if m_mode p \<in> {ShadedWireframe, HiddenWireframe, SolidOutline, Transparent,
                           TransparentWireframe, Solid, SolidWireframe}
        then createLineSetGeometry_Solid p lineSetGeometry
      else if m_mode p = Vertices
        then bindE (createVertexGeometry p (ls_getPositions lineSetGeometry)) (\<lambda>n. Inr (Some n))
      else coloredPoints p (ls_getPositions lineSetGeometry) (lineVertexColor lineSetGeometry))"

subsection \<open>Nodes and the scene\<close>

definition createModelNode ::
    "bool \<Rightarrow> PDF3DSceneProcessor \<Rightarrow> PDF3D_U3D_Node \<Rightarrow> error + QNode option" where
  "createModelNode dbg p node =
     bindE (case getGeometry (m_sceneData p) (getResourceName node) of
              None \<Rightarrow> Inr None
            | Some (MeshGeometry meshGeometry) \<Rightarrow> createMeshGeometry dbg p meshGeometry
            | Some (PointSetGeometry pointSetGeometry) \<Rightarrow> createPointSetGeometry p pointSetGeometry
            | Some (LineSetGeometry lineSetGeometry) \<Rightarrow> createLineSetGeometry p lineSetGeometry
            | Some OtherGeometry \<Rightarrow> Inr None)
       (\<lambda>processedNode. Inr (map_option (setObjectName (getNodeName node)) processedNode))"

text \<open>
  The switch of \<^verbatim>\<open>createNode\<close>: the node built for the node itself, before its children
  are looked at. \<open>Inr (None, p)\<close> is a null \<^verbatim>\<open>processedNode\<close> (or the \<^verbatim>\<open>return nullptr\<close>
  of a view node). The node types are exactly the five of the enumeration.
\<close>

definition createNode_switch ::
    "bool \<Rightarrow> PDF3DSceneProcessor \<Rightarrow> PDF3D_U3D_Node \<Rightarrow> error + (QNode option \<times> PDF3DSceneProcessor)" where
  "createNode_switch dbg p node =
     (case getType node of
        Unknown \<Rightarrow> Inr (Some (QNode [] []), p)
      | Group \<Rightarrow>
          (if hasChildTransform node \<and> hasConstantChildTransform node
           then Inr (Some (QEntity [] [QTransform (getConstantChildTransform node)] []), p)
           else Inr (Some (QNode [] []), p))
      | Model \<Rightarrow> bindE (createModelNode dbg p node) (\<lambda>processedNode. Inr (processedNode, p))
      | Light \<Rightarrow> createLightNode dbg p node
      | View \<Rightarrow> Inr (None, p))"

text \<open>What the loop over the children does with a child node that is not null.\<close>

definition attachChild :: "PDF3D_U3D_Node \<Rightarrow> string \<Rightarrow> QNode \<Rightarrow> QNode \<Rightarrow> QNode" where
  "attachChild node childNodeName processedNode childNode =
     (if hasChildTransform node \<and> \<not> hasConstantChildTransform node
      then addChild processedNode
             (QEntity [] [QTransform (getChildTransform node childNodeName)] [childNode])
      else addChild processedNode childNode)"

text \<open>
  \<^verbatim>\<open>createNode\<close> calls itself for every child name, through \<^verbatim>\<open>getNode\<close>, and nothing
  bounds the depth of these calls. The first argument is the depth still available: \<open>None\<close>
  is a call that needs more than that. \<open>createNode_children\<close> is the loop over the child
  names, with the node built so far.
\<close>

fun createNode ::
    "nat \<Rightarrow> bool \<Rightarrow> PDF3DSceneProcessor \<Rightarrow> PDF3D_U3D_Node
       \<Rightarrow> (error + (QNode option \<times> PDF3DSceneProcessor)) option"
and createNode_children ::
    "nat \<Rightarrow> bool \<Rightarrow> PDF3DSceneProcessor \<Rightarrow> PDF3D_U3D_Node \<Rightarrow> string list \<Rightarrow> QNode
       \<Rightarrow> (error + (QNode option \<times> PDF3DSceneProcessor)) option" where
  "createNode 0 dbg p node = None"
| "createNode (Suc depth) dbg p node =
     (case createNode_switch dbg p node of
        Inl e \<Rightarrow> Some (Inl e)
      | Inr (None, p') \<Rightarrow> Some (Inr (None, p'))
      | Inr (Some processedNode, p') \<Rightarrow>
          createNode_children depth dbg p' node (getChildren node)
            (setObjectName (getNodeName node) processedNode))"
| "createNode_children depth dbg p node [] processedNode = Some (Inr (Some processedNode, p))"
| "createNode_children depth dbg p node (childNodeName # rest) processedNode =
     (case createNode depth dbg p (getNode (m_sceneData p) childNodeName) of
        None \<Rightarrow> None
      | Some (Inl e) \<Rightarrow> Some (Inl e)
      | Some (Inr (None, p')) \<Rightarrow> createNode_children depth dbg p' node rest processedNode
      | Some (Inr (Some childNode, p')) \<Rightarrow>
          createNode_children depth dbg p' node rest
            (attachChild node childNodeName processedNode childNode))"

record Scene =
  sceneRoot :: "QNode option"

definition createScene ::
    "nat \<Rightarrow> bool \<Rightarrow> PDF3DSceneProcessor \<Rightarrow> PDF3D_U3D \<Rightarrow> (error + (Scene \<times> PDF3DSceneProcessor)) option" where
  "createScene depth dbg p sceneData =
     (let p1 = p\<lparr>m_processedNodes := [], m_sceneData := sceneData\<rparr> in
      case createNode depth dbg p1 (getNode sceneData (m_sceneRoot p1)) of
        None \<Rightarrow> None
      | Some (Inl e) \<Rightarrow> Some (Inl e)
      | Some (Inr (rootNode, p2)) \<Rightarrow> Some (Inr (\<lparr>sceneRoot = rootNode\<rparr>, p2)))"

subsection \<open>Reading a built node\<close>

text \<open>The attributes of the geometry renderers among the components of an entity, and of the
  node a geometry function returns (none when it returns null or fails).\<close>

fun component_attributes :: "QComponent \<Rightarrow> QAttribute list" where
  "component_attributes (GeometryRendererC r) = gr_geometry r"
| "component_attributes (QTransform m) = []"
| "component_attributes (MaterialC m) = []"
| "component_attributes (QDirectionalLight c i) = []"
| "component_attributes (QPointLight c i a0 a1 a2) = []"
| "component_attributes (QSpotLight c i a0 a1 a2 angle) = []"

fun node_attributes :: "QNode \<Rightarrow> QAttribute list" where
  "node_attributes (QNode name children) = []"
| "node_attributes (QEntity name components children) = concat (map component_attributes components)"

fun built_attributes :: "error + QNode option \<Rightarrow> QAttribute list" where
  "built_attributes (Inr (Some n)) = node_attributes n"
| "built_attributes (Inr None) = []"
| "built_attributes (Inl e) = []"

subsection \<open>Concrete model data\<close>

text \<open>A small model-data source and two processors, on which the theorems are run.\<close>

definition ex_node :: "NodeType \<Rightarrow> string \<Rightarrow> string list \<Rightarrow> string \<Rightarrow> PDF3D_U3D_Node" where
  "ex_node t name cs res =
     \<lparr>getType = t, getNodeName = name, getChildren = cs, getResourceName = res,
      hasChildTransform = False, hasConstantChildTransform = False,
      getConstantChildTransform = [], getChildTransform = (\<lambda>_. [])\<rparr>"

definition ex_vertex :: "uint \<Rightarrow> Vertex" where
  "ex_vertex i = \<lparr>positionIndex = i, normalIndex = i, diffuseColorIndex = i, textureCoordIndex = i\<rparr>"

definition ex_triangle :: "uint \<Rightarrow> uint \<Rightarrow> uint \<Rightarrow> Triangle" where
  "ex_triangle a b c =
     \<lparr>vertices = (ex_vertex a, ex_vertex b, ex_vertex c),
      hasTexture = False, hasDiffuse = True, hasSpecular = False\<rparr>"

text \<open>A mesh of two triangles that share the edge from position 0 to position 2.\<close>

definition ex_mesh :: PDF3D_U3D_MeshGeometry where
  "ex_mesh =
     \<lparr>mesh_isEmpty = False,
      mesh_getPositions = [(fl 0, fl 0, fl 0), (fl 1, fl 0, fl 0), (fl 0, fl 1, fl 0), (fl 0, fl 0, fl 1)],
      mesh_getTriangles = [ex_triangle 0 1 2, ex_triangle 0 2 3],
      mesh_getPosition = (\<lambda>i. (fl (of_nat (unat i)), fl 0, fl 1)),
      mesh_getNormal = (\<lambda>i. (fl 0, fl 0, fl 1)),
      mesh_getDiffuseColor = (\<lambda>i. (fl 1, fl 0, fl 0, fl 1)),
      mesh_getTextureCoordinate = (\<lambda>i. (fl 0, fl 1, fl 0, fl 0)),
      mesh_getShaderName = (\<lambda>i. ''flat'')\<rparr>"

definition ex_line :: "uint \<Rightarrow> uint \<Rightarrow> uint \<Rightarrow> Line" where
  "ex_line a b sid =
     \<lparr>position1 = a, position2 = b, diffuseColor1 = a, diffuseColor2 = b, shadingId = sid\<rparr>"

text \<open>A line set of three lines with the shading ids 7, 3, 7.\<close>

definition ex_lines :: PDF3D_U3D_LineSetGeometry where
  "ex_lines =
     \<lparr>ls_isEmpty = False,
      ls_getPositions = [(fl 0, fl 0, fl 0), (fl 1, fl 0, fl 0), (fl 0, fl 1, fl 0)],
      ls_getLines = [ex_line 0 1 7, ex_line 1 2 3, ex_line 2 0 7],
      ls_getPosition = (\<lambda>i. (fl (of_nat (unat i)), fl 0, fl 0)),
      ls_getDiffuseColor = (\<lambda>i. (fl 0, fl 1, fl 0, fl 1)),
      ls_queryLinesByVertexIndex = (\<lambda>i. []),
      ls_getShaderName = (\<lambda>i. if i = 3 then ''flat'' else ''textured'')\<rparr>"

definition ex_color :: "real \<Rightarrow> real \<Rightarrow> real \<Rightarrow> QColor" where
  "ex_color r g b = \<lparr>redF = r, greenF = g, blueF = b, alphaF = 1\<rparr>"

definition ex_light :: "LightType \<Rightarrow> QColor \<Rightarrow> real \<Rightarrow> PDF3D_U3D_Light" where
  "ex_light t c i =
     \<lparr>light_getType = t, light_getColor = c, light_getIntensity = i,
      light_getAttenuation = (1, 0, 0), light_getSpotAngle = 45\<rparr>"

definition ex_shader :: "PDF_U3D_TextureInfo list \<Rightarrow> bool \<Rightarrow> bool \<Rightarrow> PDF3D_U3D_Shader" where
  "ex_shader textures vertexColor alphaTest =
     \<lparr>getTextureInfos = textures, isUseVertexColor = vertexColor, isAlphaTestEnabled = alphaTest,
      getAlphaTestFunction = GEQUAL, getAlphaTestReference = 1 / 2, getMaterialName = ''steel''\<rparr>"

definition ex_image :: QImage where
  "ex_image = \<lparr>img_width = 2, img_height = 1, img_pixels = [255, 0]\<rparr>"

text \<open>
  The node graph: \<open>root\<close> is a group with the one child \<open>m\<close>; \<open>m\<close> is a model whose
  resource does not exist, with one child \<open>c\<close>, a group. \<open>sun\<close> and \<open>sky\<close> are lights with
  ambient light resources, \<open>body\<close> is a model with the mesh, \<open>wires\<close> a model with the line
  set. Every other name is a node of unknown type without children.
\<close>

definition ex_getNode :: "string \<Rightarrow> PDF3D_U3D_Node" where
  "ex_getNode name =
     (if name = ''root'' then ex_node Group ''root'' [''m''] []
      else if name = ''m'' then ex_node Model ''m'' [''c''] ''missing''
      else if name = ''c'' then ex_node Group ''c'' [] []
      else if name = ''sun'' then ex_node Light ''sun'' [] ''warm''
      else if name = ''sky'' then ex_node Light ''sky'' [] ''cold''
      else if name = ''body'' then ex_node Model ''body'' [] ''mesh''
      else if name = ''wires'' then ex_node Model ''wires'' [] ''lines''
      else ex_node Unknown name [] [])"

definition ex_sceneData :: PDF3D_U3D where
  "ex_sceneData =
     \<lparr>getNode = ex_getNode,
      getGeometry = (\<lambda>name. if name = ''mesh'' then Some (MeshGeometry ex_mesh)
                             else if name = ''lines'' then Some (LineSetGeometry ex_lines)
                             else None),
      getLight = (\<lambda>name. if name = ''warm'' then Some (ex_light Ambient (ex_color 1 (1 / 2) 0) (1 / 4))
                          else if name = ''cold'' then Some (ex_light Ambient (ex_color 0 (1 / 2) 1) (1 / 2))
                          else None),
      getShader = (\<lambda>name. if name = ''flat'' then Some (ex_shader [] False True)
                           else if name = ''colored'' then Some (ex_shader [] True False)
                           else if name = ''textured''
                             then Some (ex_shader [\<lparr>textureName = ''wood'', textureSlot = 0\<rparr>,
                                                   \<lparr>textureName = ''paint'', textureSlot = 1\<rparr>] False True)
                           else None),
      getMaterial = (\<lambda>name. if name = ''steel''
                               then Some \<lparr>getAmbientColor = ex_color 0 0 0,
                                          getDiffuseColor = ex_color (1 / 2) (1 / 2) (1 / 2),
                                          getSpecularColor = ex_color 1 1 1\<rparr>
                             else None),
      getTexture = (\<lambda>name. ex_image)\<rparr>"

text \<open>A node graph with a cycle: every name is a group \<open>a\<close> whose only child is \<open>a\<close>.\<close>

definition ex_cyclic :: PDF3D_U3D where
  "ex_cyclic =
     \<lparr>getNode = (\<lambda>name. ex_node Group ''a'' [''a''] []),
      getGeometry = (\<lambda>name. None),
      getLight = (\<lambda>name. None),
      getShader = (\<lambda>name. None),
      getMaterial = (\<lambda>name. None),
      getTexture = (\<lambda>name. ex_image)\<rparr>"

definition ex_processor :: "SceneMode \<Rightarrow> PDF3DSceneProcessor" where
  "ex_processor mode =
     \<lparr>m_mode = mode,
      m_auxiliaryColor = ex_color 1 0 0,
      m_faceColor = ex_color 0 1 0,
      m_opacity = 1 / 2,
      m_creaseAngle = 45,
      m_pointSize = 3,
      m_sceneRoot = ''root'',
      m_globalAmbientColor = ex_color 0 0 0,
      m_processedNodes = [],
      m_sceneData = ex_sceneData\<rparr>"

subsection \<open>Large and incomplete model data\<close>

text \<open>
  Geometries at the first sizes for which a byte count reaches \<open>2\<^sup>3\<^sup>1\<close>: a mesh of
  14913081 triangles (144 bytes of solid vertex data each), a mesh of 89478486 triangles (24
  bytes of wireframe indices each), a mesh of 178956971 positions (12 bytes each) and a line
  set of 89478486 lines of one shading id (24 bytes of positions each). And a mesh and a line
  set whose shader name is not the name of any shader.
\<close>

definition ex_solid_limit :: PDF3D_U3D_MeshGeometry where
  "ex_solid_limit = ex_mesh\<lparr>mesh_getTriangles := replicate 14913081 (ex_triangle 0 1 2)\<rparr>"

definition ex_wire_limit :: PDF3D_U3D_MeshGeometry where
  "ex_wire_limit = ex_mesh\<lparr>mesh_getTriangles := replicate 89478486 (ex_triangle 0 1 2)\<rparr>"

definition ex_position_limit :: PDF3D_U3D_MeshGeometry where
  "ex_position_limit = ex_mesh\<lparr>mesh_getPositions := replicate 178956971 (fl 0, fl 0, fl 0)\<rparr>"

definition ex_line_limit :: PDF3D_U3D_LineSetGeometry where
  "ex_line_limit = ex_lines\<lparr>ls_getLines := replicate 89478486 (ex_line 0 1 7)\<rparr>"

definition ex_mesh_unknown_shader :: PDF3D_U3D_MeshGeometry where
  "ex_mesh_unknown_shader = ex_mesh\<lparr>mesh_getShaderName := (\<lambda>i. ''none'')\<rparr>"

definition ex_lines_unknown_shader :: PDF3D_U3D_LineSetGeometry where
  "ex_lines_unknown_shader = ex_lines\<lparr>ls_getShaderName := (\<lambda>i. ''none'')\<rparr>"

section \<open>Properties\<close>

subsection \<open>Shared facts\<close>

lemma bindE_Inr [simp]: "bindE (Inr v) f = f v"
  by (simp add: bindE_def)

lemma bindE_Inl [simp]: "bindE (Inl e) f = Inl e"
  by (simp add: bindE_def)

lemma sint_uint_of_nat: "sint (of_nat n :: 32 word) = signed_take_bit 31 (int n)"
  using signed_of_nat[of n, where 'a = int and 'b = 32] by simp

lemma resize_fits: "sz < 2 ^ 31 \<Longrightarrow> resize sz = sz"
proof -
  assume "sz < 2 ^ 31"
  then have "int sz < 2 ^ 31" by (metis of_nat_less_numeral_power_cancel_iff)
  then have "signed_take_bit 31 (int sz) = int sz"
    by (intro signed_take_bit_int_eq_self) simp_all
  then show ?thesis by (simp add: resize_def sint_uint_of_nat)
qed

lemma resize_negative: "2 ^ 31 \<le> sz \<Longrightarrow> sz < 2 ^ 32 \<Longrightarrow> resize sz = 0"
proof -
  assume ge: "2 ^ 31 \<le> sz" and lt: "sz < 2 ^ 32"
  have "(2::int) ^ 31 \<le> int sz" using ge by (metis numeral_power_le_of_nat_cancel_iff)
  then have "signed_take_bit 31 (int sz) \<le> int sz - 2 ^ Suc 31"
    by (rule signed_take_bit_int_less_eq)
  moreover have "(2::int) ^ Suc 31 = 2 ^ 32" by simp
  moreover have "int sz < 2 ^ 32" using lt by (metis of_nat_less_numeral_power_cancel_iff)
  ultimately have "signed_take_bit 31 (int sz) < 0" by linarith
  then show ?thesis by (simp add: resize_def sint_uint_of_nat)
qed

lemma qMin_Number: "qMin (Number a) (Number b) = Number (min a b)"
  by (auto simp add: qMin_def min_def)

lemma qMax_Number: "qMax (Number a) (Number b) = Number (max a b)"
  by (auto simp add: qMax_def max_def)

lemma Min_insert_min:
  "finite S \<Longrightarrow> Min (insert (min (a::'a::linorder) x) S) = Min (insert a (insert x S))"
  by (cases "S = {}") (simp_all add: min.assoc)

lemma Max_insert_max:
  "finite S \<Longrightarrow> Max (insert (max (a::'a::linorder) x) S) = Max (insert a (insert x S))"
  by (cases "S = {}") (simp_all add: max.assoc)

lemma Min_le_Max_linorder: "finite (S::'a::linorder set) \<Longrightarrow> S \<noteq> {} \<Longrightarrow> Min S \<le> Max S"
  by (meson Max_ge Min_le all_not_in_conv order_trans)

subsection \<open>The bounding box of a list of points\<close>

text \<open>On points without NaN the loop, started from any pair of corners without NaN, computes
  minima and maxima per component.\<close>

lemma bb_loop_numbers:
  assumes "\<forall>p \<in> set P. fst p \<noteq> NaN \<and> fst (snd p) \<noteq> NaN \<and> snd (snd p) \<noteq> NaN"
  shows "bb_loop ((Number a, Number b, Number c), (Number d, Number e, Number f)) P =
     ((Number (Min (insert a ((\<lambda>p. number_of (fst p)) ` set P))),
       Number (Min (insert b ((\<lambda>p. number_of (fst (snd p))) ` set P))),
       Number (Min (insert c ((\<lambda>p. number_of (snd (snd p))) ` set P)))),
      (Number (Max (insert d ((\<lambda>p. number_of (fst p)) ` set P))),
       Number (Max (insert e ((\<lambda>p. number_of (fst (snd p))) ` set P))),
       Number (Max (insert f ((\<lambda>p. number_of (snd (snd p))) ` set P)))))"
  using assms
proof (induction P arbitrary: a b c d e f)
  case Nil
  show ?case by simp
next
  case (Cons pt P)
  obtain x y z where pt: "pt = (Number x, Number y, Number z)"
    using Cons.prems by (cases pt; cases "fst pt"; cases "fst (snd pt)"; cases "snd (snd pt)") auto
  have rest: "\<forall>p \<in> set P. fst p \<noteq> NaN \<and> fst (snd p) \<noteq> NaN \<and> snd (snd p) \<noteq> NaN"
    using Cons.prems by simp
  show ?case
    by (simp add: pt Cons.IH[OF rest] qMin_Number qMax_Number Min_insert_min Max_insert_max)
qed

lemma getBoundingBox_numbers:
  assumes "P \<noteq> []"
    and "\<forall>p \<in> set P. fst p \<noteq> NaN \<and> fst (snd p) \<noteq> NaN \<and> snd (snd p) \<noteq> NaN"
  shows "getBoundingBox P =
     \<lparr>bb_isEmpty = False,
      bb_getMin = (Number (Min ((\<lambda>p. number_of (fst p)) ` set P)),
                   Number (Min ((\<lambda>p. number_of (fst (snd p))) ` set P)),
                   Number (Min ((\<lambda>p. number_of (snd (snd p))) ` set P))),
      bb_getMax = (Number (Max ((\<lambda>p. number_of (fst p)) ` set P)),
                   Number (Max ((\<lambda>p. number_of (fst (snd p))) ` set P)),
                   Number (Max ((\<lambda>p. number_of (snd (snd p))) ` set P)))\<rparr>"
proof -
  obtain pt rest where P: "P = pt # rest" using assms(1) by (cases P) auto
  obtain x y z where pt: "pt = (Number x, Number y, Number z)"
    using assms(2) unfolding P
    by (cases pt; cases "fst pt"; cases "fst (snd pt)"; cases "snd (snd pt)") auto
  have loop: "bb_loop ((Number x, Number y, Number z), (Number x, Number y, Number z)) P =
     ((Number (Min (insert x ((\<lambda>p. number_of (fst p)) ` set P))),
       Number (Min (insert y ((\<lambda>p. number_of (fst (snd p))) ` set P))),
       Number (Min (insert z ((\<lambda>p. number_of (snd (snd p))) ` set P)))),
      (Number (Max (insert x ((\<lambda>p. number_of (fst p)) ` set P))),
       Number (Max (insert y ((\<lambda>p. number_of (fst (snd p))) ` set P))),
       Number (Max (insert z ((\<lambda>p. number_of (snd (snd p))) ` set P)))))"
    by (rule bb_loop_numbers[OF assms(2)])
  have ins: "insert x ((\<lambda>p. number_of (fst p)) ` set P) = (\<lambda>p. number_of (fst p)) ` set P"
    "insert y ((\<lambda>p. number_of (fst (snd p))) ` set P) = (\<lambda>p. number_of (fst (snd p))) ` set P"
    "insert z ((\<lambda>p. number_of (snd (snd p))) ` set P) = (\<lambda>p. number_of (snd (snd p))) ` set P"
    by (auto simp add: P pt)
  have "getBoundingBox P =
          (case bb_loop ((Number x, Number y, Number z), (Number x, Number y, Number z)) P of
             (mn, mx) \<Rightarrow> PDF3DBoundingBox_new mn mx)"
    by (simp add: getBoundingBox_def P pt)
  then show ?thesis
    unfolding loop ins by (simp add: PDF3DBoundingBox_new_def)
qed

text \<open>
  C7 (amended). For every list of points \<open>P\<close>, the box computed by \<open>getBoundingBox\<close> is
  empty exactly when \<open>P\<close> is empty, and for a single point both corners are that point. When
  \<open>P\<close> is not empty and no coordinate of \<open>P\<close> is NaN, the min corner is the component-wise
  minimum and the max corner the component-wise maximum over all points of \<open>P\<close>, no component
  of the max corner is below that of the min corner, and every list with the same points, in
  any order, has the same box.
\<close>

theorem getBoundingBox_minmax:
  "(bb_isEmpty (getBoundingBox P) \<longleftrightarrow> P = []) \<and>
   (bb_getMin (getBoundingBox [pt]) = pt \<and> bb_getMax (getBoundingBox [pt]) = pt) \<and>
   (P \<noteq> [] \<and> (\<forall>p \<in> set P. fst p \<noteq> NaN \<and> fst (snd p) \<noteq> NaN \<and> snd (snd p) \<noteq> NaN) \<longrightarrow>
      bb_getMin (getBoundingBox P) =
        (Number (Min ((\<lambda>p. number_of (fst p)) ` set P)),
         Number (Min ((\<lambda>p. number_of (fst (snd p))) ` set P)),
         Number (Min ((\<lambda>p. number_of (snd (snd p))) ` set P))) \<and>
      bb_getMax (getBoundingBox P) =
        (Number (Max ((\<lambda>p. number_of (fst p)) ` set P)),
         Number (Max ((\<lambda>p. number_of (fst (snd p))) ` set P)),
         Number (Max ((\<lambda>p. number_of (snd (snd p))) ` set P))) \<and>
      \<not> float_less (fst (bb_getMax (getBoundingBox P))) (fst (bb_getMin (getBoundingBox P))) \<and>
      \<not> float_less (fst (snd (bb_getMax (getBoundingBox P)))) (fst (snd (bb_getMin (getBoundingBox P)))) \<and>
      \<not> float_less (snd (snd (bb_getMax (getBoundingBox P)))) (snd (snd (bb_getMin (getBoundingBox P)))) \<and>
      (set Q = set P \<longrightarrow> getBoundingBox Q = getBoundingBox P))"
proof (intro conjI impI)
  show "bb_isEmpty (getBoundingBox P) \<longleftrightarrow> P = []"
    by (cases P) (simp_all add: getBoundingBox_def PDF3DBoundingBox_default_def
        PDF3DBoundingBox_new_def split: prod.splits)
next
  show "bb_getMin (getBoundingBox [pt]) = pt"
    by (cases pt) (simp add: getBoundingBox_def PDF3DBoundingBox_new_def qMin_def)
  show "bb_getMax (getBoundingBox [pt]) = pt"
    by (cases pt) (simp add: getBoundingBox_def PDF3DBoundingBox_new_def qMax_def)
next
  assume h: "P \<noteq> [] \<and> (\<forall>p \<in> set P. fst p \<noteq> NaN \<and> fst (snd p) \<noteq> NaN \<and> snd (snd p) \<noteq> NaN)"
  then have ne: "P \<noteq> []"
    and nn: "\<forall>p \<in> set P. fst p \<noteq> NaN \<and> fst (snd p) \<noteq> NaN \<and> snd (snd p) \<noteq> NaN"
    by simp_all
  note box = getBoundingBox_numbers[OF ne nn]
  show "bb_getMin (getBoundingBox P) =
        (Number (Min ((\<lambda>p. number_of (fst p)) ` set P)),
         Number (Min ((\<lambda>p. number_of (fst (snd p))) ` set P)),
         Number (Min ((\<lambda>p. number_of (snd (snd p))) ` set P)))"
    by (simp add: box)
  show "bb_getMax (getBoundingBox P) =
        (Number (Max ((\<lambda>p. number_of (fst p)) ` set P)),
         Number (Max ((\<lambda>p. number_of (fst (snd p))) ` set P)),
         Number (Max ((\<lambda>p. number_of (snd (snd p))) ` set P)))"
    by (simp add: box)
  have nl: "\<not> Max (g ` set P) < Min (g ` set P)" for g :: "QVector3D \<Rightarrow> number"
    using Min_le_Max_linorder[of "g ` set P"] ne by (simp only: not_less) simp
  show "\<not> float_less (fst (bb_getMax (getBoundingBox P))) (fst (bb_getMin (getBoundingBox P)))"
    using nl[of "\<lambda>p. number_of (fst p)"] by (simp add: box)
  show "\<not> float_less (fst (snd (bb_getMax (getBoundingBox P)))) (fst (snd (bb_getMin (getBoundingBox P))))"
    using nl[of "\<lambda>p. number_of (fst (snd p))"] by (simp add: box)
  show "\<not> float_less (snd (snd (bb_getMax (getBoundingBox P)))) (snd (snd (bb_getMin (getBoundingBox P))))"
    using nl[of "\<lambda>p. number_of (snd (snd p))"] by (simp add: box)
  assume eq: "set Q = set P"
  then have "Q \<noteq> []" using ne by auto
  moreover have "\<forall>p \<in> set Q. fst p \<noteq> NaN \<and> fst (snd p) \<noteq> NaN \<and> snd (snd p) \<noteq> NaN"
    using nn eq by simp
  ultimately have "getBoundingBox Q =
     \<lparr>bb_isEmpty = False,
      bb_getMin = (Number (Min ((\<lambda>p. number_of (fst p)) ` set Q)),
                   Number (Min ((\<lambda>p. number_of (fst (snd p))) ` set Q)),
                   Number (Min ((\<lambda>p. number_of (snd (snd p))) ` set Q))),
      bb_getMax = (Number (Max ((\<lambda>p. number_of (fst p)) ` set Q)),
                   Number (Max ((\<lambda>p. number_of (fst (snd p))) ` set Q)),
                   Number (Max ((\<lambda>p. number_of (snd (snd p))) ` set Q)))\<rparr>"
    by (rule getBoundingBox_numbers)
  then show "getBoundingBox Q = getBoundingBox P"
    by (simp add: box eq)
qed

theorem getBoundingBox_minmax_witness:
  "[(Number (Finite 1), Number (Finite 5), Number PlusInfinity),
    (Number (Finite 3), Number (Finite 0), Number (Finite 2)),
    (Number (Finite 2), Number MinusInfinity, Number (Finite (-1)))] \<noteq> ([] :: QVector3D list) \<and>
   \<not> bb_isEmpty (getBoundingBox
       [(Number (Finite 1), Number (Finite 5), Number PlusInfinity),
        (Number (Finite 3), Number (Finite 0), Number (Finite 2)),
        (Number (Finite 2), Number MinusInfinity, Number (Finite (-1)))]) \<and>
   bb_getMin (getBoundingBox
       [(Number (Finite 1), Number (Finite 5), Number PlusInfinity),
        (Number (Finite 3), Number (Finite 0), Number (Finite 2)),
        (Number (Finite 2), Number MinusInfinity, Number (Finite (-1)))])
     = (Number (Finite 1), Number MinusInfinity, Number (Finite (-1))) \<and>
   bb_getMax (getBoundingBox
       [(Number (Finite 1), Number (Finite 5), Number PlusInfinity),
        (Number (Finite 3), Number (Finite 0), Number (Finite 2)),
        (Number (Finite 2), Number MinusInfinity, Number (Finite (-1)))])
     = (Number (Finite 3), Number (Finite 5), Number PlusInfinity) \<and>
   getBoundingBox
       [(Number (Finite 2), Number MinusInfinity, Number (Finite (-1))),
        (Number (Finite 1), Number (Finite 5), Number PlusInfinity),
        (Number (Finite 3), Number (Finite 0), Number (Finite 2))]
     = getBoundingBox
       [(Number (Finite 1), Number (Finite 5), Number PlusInfinity),
        (Number (Finite 3), Number (Finite 0), Number (Finite 2)),
        (Number (Finite 2), Number MinusInfinity, Number (Finite (-1)))]"
proof -
  let ?A = "[(Number (Finite 1), Number (Finite 5), Number PlusInfinity),
             (Number (Finite 3), Number (Finite 0), Number (Finite 2)),
             (Number (Finite 2), Number MinusInfinity, Number (Finite (-1)))] :: QVector3D list"
  let ?B = "[(Number (Finite 2), Number MinusInfinity, Number (Finite (-1))),
             (Number (Finite 1), Number (Finite 5), Number PlusInfinity),
             (Number (Finite 3), Number (Finite 0), Number (Finite 2))] :: QVector3D list"
  have ne: "?A \<noteq> []" by simp
  have nn: "\<forall>p \<in> set ?A. fst p \<noteq> NaN \<and> fst (snd p) \<noteq> NaN \<and> snd (snd p) \<noteq> NaN" by simp
  have eq: "set ?B = set ?A" by auto
  note w = getBoundingBox_minmax[of ?A "(NaN, NaN, NaN)" ?B]
  from w ne have e: "\<not> bb_isEmpty (getBoundingBox ?A)" by blast
  from w ne nn have mn: "bb_getMin (getBoundingBox ?A) =
        (Number (Min ((\<lambda>p. number_of (fst p)) ` set ?A)),
         Number (Min ((\<lambda>p. number_of (fst (snd p))) ` set ?A)),
         Number (Min ((\<lambda>p. number_of (snd (snd p))) ` set ?A)))"
    and mx: "bb_getMax (getBoundingBox ?A) =
        (Number (Max ((\<lambda>p. number_of (fst p)) ` set ?A)),
         Number (Max ((\<lambda>p. number_of (fst (snd p))) ` set ?A)),
         Number (Max ((\<lambda>p. number_of (snd (snd p))) ` set ?A)))"
    and ord: "getBoundingBox ?B = getBoundingBox ?A"
    using eq by blast+
  have mn': "bb_getMin (getBoundingBox ?A) = (Number (Finite 1), Number MinusInfinity, Number (Finite (-1)))"
    unfolding mn by (simp add: min_def)
  have mx': "bb_getMax (getBoundingBox ?A) = (Number (Finite 3), Number (Finite 5), Number PlusInfinity)"
    unfolding mx by (simp add: max_def)
  show ?thesis using ne e mn' mx' ord by (intro conjI)
qed

text \<open>
  With one NaN among the x coordinates 1, 2: after 1, NaN, 2 the min corner has x = 2, though
  1 is a coordinate of the list; after 1, 2, NaN it has x = NaN. The two lists have the same
  points.
\<close>

theorem getBoundingBox_NaN_counterexample:
  "bb_getMin (getBoundingBox
       [(Number (Finite 1), Number (Finite 0), Number (Finite 0)),
        (NaN, Number (Finite 0), Number (Finite 0)),
        (Number (Finite 2), Number (Finite 0), Number (Finite 0))])
     = (Number (Finite 2), Number (Finite 0), Number (Finite 0)) \<and>
   bb_getMin (getBoundingBox
       [(Number (Finite 1), Number (Finite 0), Number (Finite 0)),
        (Number (Finite 2), Number (Finite 0), Number (Finite 0)),
        (NaN, Number (Finite 0), Number (Finite 0))])
     = (NaN, Number (Finite 0), Number (Finite 0)) \<and>
   set [(Number (Finite 1), Number (Finite 0), Number (Finite 0)),
        (NaN, Number (Finite 0), Number (Finite 0)),
        (Number (Finite 2), Number (Finite 0), Number (Finite 0))]
     = set [(Number (Finite 1), Number (Finite 0), Number (Finite 0)),
            (Number (Finite 2), Number (Finite 0), Number (Finite 0)),
            (NaN :: float, Number (Finite (0::real)), Number (Finite (0::real)))]"
  by (auto simp add: getBoundingBox_def PDF3DBoundingBox_new_def qMin_def qMax_def less_number_def)

subsection \<open>Lights\<close>

lemma createNode_switch_Light:
  "getType node = Light \<Longrightarrow> createNode_switch dbg p node = createLightNode dbg p node"
  by (simp add: createNode_switch_def)

lemma createLightNode_Ambient_eq:
  assumes "getType node = Light"
    and "getLight (m_sceneData p) (getResourceName node) = Some light"
    and "light_getType light = Ambient"
  shows "createLightNode dbg p node =
           Inr (None, p\<lparr>m_globalAmbientColor :=
                  \<lparr>redF = redF (m_globalAmbientColor p) + redF (light_getColor light) * light_getIntensity light,
                   greenF = greenF (m_globalAmbientColor p) + greenF (light_getColor light) * light_getIntensity light,
                   blueF = blueF (m_globalAmbientColor p) + blueF (light_getColor light) * light_getIntensity light,
                   alphaF = alphaF (m_globalAmbientColor p)\<rparr>\<rparr>)"
  using assms by (simp add: createLightNode_def Q_ASSERT_def Let_def)

text \<open>
  C9. An ambient light produces no light entity: \<open>createLightNode\<close> returns null, and so
  does \<open>createNode\<close> for the light's node. The light's colour times its intensity is added,
  channel by channel, to \<open>m_globalAmbientColor\<close>. Two ambient lights aggregated one after the
  other give the same processor state, with the same accumulated colour, in either order
  (exactly, the channels being real numbers here).
\<close>

theorem createLightNode_Ambient:
  assumes "getType n1 = Light" and "getType n2 = Light"
    and "getLight (m_sceneData p) (getResourceName n1) = Some l1"
    and "getLight (m_sceneData p) (getResourceName n2) = Some l2"
    and "light_getType l1 = Ambient" and "light_getType l2 = Ambient"
  shows "createLightNode dbg p n1 =
           Inr (None, p\<lparr>m_globalAmbientColor :=
                  \<lparr>redF = redF (m_globalAmbientColor p) + redF (light_getColor l1) * light_getIntensity l1,
                   greenF = greenF (m_globalAmbientColor p) + greenF (light_getColor l1) * light_getIntensity l1,
                   blueF = blueF (m_globalAmbientColor p) + blueF (light_getColor l1) * light_getIntensity l1,
                   alphaF = alphaF (m_globalAmbientColor p)\<rparr>\<rparr>) \<and>
         createNode (Suc depth) dbg p n1 = Some (createLightNode dbg p n1) \<and>
         bindE (createLightNode dbg p n1) (\<lambda>r. createLightNode dbg (snd r) n2) =
           Inr (None, p\<lparr>m_globalAmbientColor :=
                  \<lparr>redF = redF (m_globalAmbientColor p) + redF (light_getColor l1) * light_getIntensity l1
                            + redF (light_getColor l2) * light_getIntensity l2,
                   greenF = greenF (m_globalAmbientColor p) + greenF (light_getColor l1) * light_getIntensity l1
                            + greenF (light_getColor l2) * light_getIntensity l2,
                   blueF = blueF (m_globalAmbientColor p) + blueF (light_getColor l1) * light_getIntensity l1
                            + blueF (light_getColor l2) * light_getIntensity l2,
                   alphaF = alphaF (m_globalAmbientColor p)\<rparr>\<rparr>) \<and>
         bindE (createLightNode dbg p n1) (\<lambda>r. createLightNode dbg (snd r) n2) =
         bindE (createLightNode dbg p n2) (\<lambda>r. createLightNode dbg (snd r) n1)"
proof (intro conjI)
  show first: "createLightNode dbg p n1 =
           Inr (None, p\<lparr>m_globalAmbientColor :=
                  \<lparr>redF = redF (m_globalAmbientColor p) + redF (light_getColor l1) * light_getIntensity l1,
                   greenF = greenF (m_globalAmbientColor p) + greenF (light_getColor l1) * light_getIntensity l1,
                   blueF = blueF (m_globalAmbientColor p) + blueF (light_getColor l1) * light_getIntensity l1,
                   alphaF = alphaF (m_globalAmbientColor p)\<rparr>\<rparr>)"
    using assms by (simp add: createLightNode_Ambient_eq)
  show "createNode (Suc depth) dbg p n1 = Some (createLightNode dbg p n1)"
    using assms(1) first by (simp add: createNode_switch_Light)
  show "bindE (createLightNode dbg p n1) (\<lambda>r. createLightNode dbg (snd r) n2) =
           Inr (None, p\<lparr>m_globalAmbientColor :=
                  \<lparr>redF = redF (m_globalAmbientColor p) + redF (light_getColor l1) * light_getIntensity l1
                            + redF (light_getColor l2) * light_getIntensity l2,
                   greenF = greenF (m_globalAmbientColor p) + greenF (light_getColor l1) * light_getIntensity l1
                            + greenF (light_getColor l2) * light_getIntensity l2,
                   blueF = blueF (m_globalAmbientColor p) + blueF (light_getColor l1) * light_getIntensity l1
                            + blueF (light_getColor l2) * light_getIntensity l2,
                   alphaF = alphaF (m_globalAmbientColor p)\<rparr>\<rparr>)"
    using assms by (simp add: createLightNode_Ambient_eq)
  show "bindE (createLightNode dbg p n1) (\<lambda>r. createLightNode dbg (snd r) n2) =
        bindE (createLightNode dbg p n2) (\<lambda>r. createLightNode dbg (snd r) n1)"
    using assms by (simp add: createLightNode_Ambient_eq add.commute add.left_commute)
qed

theorem createLightNode_Ambient_witness:
  "getType (ex_getNode ''sun'') = Light \<and> getType (ex_getNode ''sky'') = Light \<and>
   getLight (m_sceneData (ex_processor Solid)) (getResourceName (ex_getNode ''sun''))
     = Some (ex_light Ambient (ex_color 1 (1 / 2) 0) (1 / 4)) \<and>
   getLight (m_sceneData (ex_processor Solid)) (getResourceName (ex_getNode ''sky''))
     = Some (ex_light Ambient (ex_color 0 (1 / 2) 1) (1 / 2)) \<and>
   createNode (Suc 0) True (ex_processor Solid) (ex_getNode ''sun'')
     = Some (createLightNode True (ex_processor Solid) (ex_getNode ''sun'')) \<and>
   bindE (createLightNode True (ex_processor Solid) (ex_getNode ''sun''))
         (\<lambda>r. createLightNode True (snd r) (ex_getNode ''sky'')) =
   bindE (createLightNode True (ex_processor Solid) (ex_getNode ''sky''))
         (\<lambda>r. createLightNode True (snd r) (ex_getNode ''sun''))"
proof -
  have t1: "getType (ex_getNode ''sun'') = Light" and t2: "getType (ex_getNode ''sky'') = Light"
    by (simp_all add: ex_getNode_def ex_node_def)
  have l1: "getLight (m_sceneData (ex_processor Solid)) (getResourceName (ex_getNode ''sun''))
              = Some (ex_light Ambient (ex_color 1 (1 / 2) 0) (1 / 4))"
    by (simp add: ex_getNode_def ex_node_def ex_processor_def ex_sceneData_def)
  have l2: "getLight (m_sceneData (ex_processor Solid)) (getResourceName (ex_getNode ''sky''))
              = Some (ex_light Ambient (ex_color 0 (1 / 2) 1) (1 / 2))"
    by (simp add: ex_getNode_def ex_node_def ex_processor_def ex_sceneData_def)
  have a1: "light_getType (ex_light Ambient (ex_color 1 (1 / 2) 0) (1 / 4)) = Ambient"
    and a2: "light_getType (ex_light Ambient (ex_color 0 (1 / 2) 1) (1 / 2)) = Ambient"
    by (simp_all add: ex_light_def)
  note w = createLightNode_Ambient[OF t1 t2 l1 l2 a1 a2, of True 0]
  show ?thesis
    using t1 t2 l1 l2 w[THEN conjunct2, THEN conjunct1] w[THEN conjunct2, THEN conjunct2, THEN conjunct2]
    by (intro conjI)
qed

subsection \<open>Materials\<close>

text \<open>
  C5. For a shader that exists: without texture bindings, and with the shader's vertex-colour
  flag or the caller's flag set, the material is a per-vertex-colour material; without
  texture bindings and with neither flag, and with the referenced material present, it is a
  flat material with that material's ambient, diffuse and specular colours, alpha blending
  being on exactly when the shader's alpha test is enabled; with at least one texture binding
  it is a material whose diffuse value is the texture of the first binding, with transparent
  ambient and specular colours and alpha blending on exactly when the alpha test is enabled.
\<close>

theorem createMaterialFromShader_cases:
  assumes "getShader (m_sceneData p) shaderName = Some shader"
  shows "(getTextureInfos shader = [] \<and> (isUseVertexColor shader \<or> force) \<longrightarrow>
            createMaterialFromShader p shaderName force =
              Inr \<lparr>mat_kind = QPerVertexColorMaterial,
                   mat_renderStates =
                     (if isAlphaTestEnabled shader
                      then [QAlphaTest (alphaFunction_of (getAlphaTestFunction shader))
                                       (getAlphaTestReference shader)]
                      else [])\<rparr>) \<and>
         (getTextureInfos shader = [] \<and> \<not> isUseVertexColor shader \<and> \<not> force \<and>
          getMaterial (m_sceneData p) (getMaterialName shader) = Some u3dMaterial \<longrightarrow>
            createMaterialFromShader p shaderName force =
              Inr \<lparr>mat_kind = QDiffuseSpecularMaterial (getAmbientColor u3dMaterial)
                                (ColorValue (getDiffuseColor u3dMaterial))
                                (getSpecularColor u3dMaterial) (isAlphaTestEnabled shader),
                   mat_renderStates =
                     (if isAlphaTestEnabled shader
                      then [QAlphaTest (alphaFunction_of (getAlphaTestFunction shader))
                                       (getAlphaTestReference shader)]
                      else [])\<rparr>) \<and>
         (getTextureInfos shader = first # others \<longrightarrow>
            createMaterialFromShader p shaderName force =
              Inr \<lparr>mat_kind = QDiffuseSpecularMaterial transparent
                                (TextureValue
                                   \<lparr>tex_width = img_width (getTexture (m_sceneData p) (textureName first)),
                                    tex_height = img_height (getTexture (m_sceneData p) (textureName first)),
                                    tex_image = getTexture (m_sceneData p) (textureName first)\<rparr>)
                                transparent (isAlphaTestEnabled shader),
                   mat_renderStates =
                     (if isAlphaTestEnabled shader
                      then [QAlphaTest (alphaFunction_of (getAlphaTestFunction shader))
                                       (getAlphaTestReference shader)]
                      else [])\<rparr>)"
  using assms by (simp add: createMaterialFromShader_def Let_def)

theorem createMaterialFromShader_cases_witness:
  "getShader (m_sceneData (ex_processor Solid)) ''flat'' = Some (ex_shader [] False True) \<and>
   createMaterialFromShader (ex_processor Solid) ''flat'' True =
     Inr \<lparr>mat_kind = QPerVertexColorMaterial, mat_renderStates = [QAlphaTest GreaterOrEqual (1 / 2)]\<rparr> \<and>
   isAlphaTestEnabled (ex_shader [] False True) \<and>
   createMaterialFromShader (ex_processor Solid) ''flat'' False =
     Inr \<lparr>mat_kind = QDiffuseSpecularMaterial (ex_color 0 0 0) (ColorValue (ex_color (1 / 2) (1 / 2) (1 / 2)))
                       (ex_color 1 1 1) True,
          mat_renderStates = [QAlphaTest GreaterOrEqual (1 / 2)]\<rparr> \<and>
   getShader (m_sceneData (ex_processor Solid)) ''textured''
     = Some (ex_shader [\<lparr>textureName = ''wood'', textureSlot = 0\<rparr>,
                        \<lparr>textureName = ''paint'', textureSlot = 1\<rparr>] False True) \<and>
   createMaterialFromShader (ex_processor Solid) ''textured'' False =
     Inr \<lparr>mat_kind = QDiffuseSpecularMaterial transparent
                       (TextureValue \<lparr>tex_width = 2, tex_height = 1, tex_image = ex_image\<rparr>)
                       transparent True,
          mat_renderStates = [QAlphaTest GreaterOrEqual (1 / 2)]\<rparr>"
proof -
  let ?p = "ex_processor Solid"
  let ?tex = "ex_shader [\<lparr>textureName = ''wood'', textureSlot = 0\<rparr>,
                         \<lparr>textureName = ''paint'', textureSlot = 1\<rparr>] False True"
  let ?steel = "\<lparr>getAmbientColor = ex_color 0 0 0, getDiffuseColor = ex_color (1 / 2) (1 / 2) (1 / 2),
                 getSpecularColor = ex_color 1 1 1\<rparr>"
  have s1: "getShader (m_sceneData ?p) ''flat'' = Some (ex_shader [] False True)"
    by (simp add: ex_processor_def ex_sceneData_def)
  have s2: "getShader (m_sceneData ?p) ''textured'' = Some ?tex"
    by (simp add: ex_processor_def ex_sceneData_def)
  have m: "getMaterial (m_sceneData ?p) (getMaterialName (ex_shader [] False True)) = Some ?steel"
    by (simp add: ex_processor_def ex_sceneData_def ex_shader_def)
  have img: "getTexture (m_sceneData ?p) ''wood'' = ex_image"
    by (simp add: ex_processor_def ex_sceneData_def)
  from createMaterialFromShader_cases[OF s1, of True ?steel undefined undefined]
  have c1: "createMaterialFromShader ?p ''flat'' True =
     Inr \<lparr>mat_kind = QPerVertexColorMaterial, mat_renderStates = [QAlphaTest GreaterOrEqual (1 / 2)]\<rparr>"
    by (simp add: ex_shader_def)
  from createMaterialFromShader_cases[OF s1, of False ?steel undefined undefined] m
  have c2: "createMaterialFromShader ?p ''flat'' False =
     Inr \<lparr>mat_kind = QDiffuseSpecularMaterial (ex_color 0 0 0) (ColorValue (ex_color (1 / 2) (1 / 2) (1 / 2)))
                       (ex_color 1 1 1) True,
          mat_renderStates = [QAlphaTest GreaterOrEqual (1 / 2)]\<rparr>"
    by (simp add: ex_shader_def)
  from createMaterialFromShader_cases[OF s2, of False ?steel "\<lparr>textureName = ''wood'', textureSlot = 0\<rparr>"
         "[\<lparr>textureName = ''paint'', textureSlot = 1\<rparr>]"] img
  have c3: "createMaterialFromShader ?p ''textured'' False =
     Inr \<lparr>mat_kind = QDiffuseSpecularMaterial transparent
                       (TextureValue \<lparr>tex_width = 2, tex_height = 1, tex_image = ex_image\<rparr>)
                       transparent True,
          mat_renderStates = [QAlphaTest GreaterOrEqual (1 / 2)]\<rparr>"
    by (simp add: ex_shader_def ex_image_def)
  have e: "isAlphaTestEnabled (ex_shader [] False True)" by (simp add: ex_shader_def)
  show ?thesis using s1 c1 e c2 s2 c3 by (intro conjI)
qed

subsection \<open>Modes without an implementation for meshes\<close>

text \<open>
  C3 (amended). For a mesh that is not empty and each of the nine modes that have no mesh case
  (Illustration, ShadedIllustration, ShadedWireframe, HiddenWireframe, SolidOutline,
  Transparent, TransparentWireframe, SolidWireframe, ShadedVertices): when assertions are
  compiled in, \<open>createMeshGeometry\<close> fails an assertion and so does the visit of a model node
  with that mesh; when they are compiled out, \<open>createMeshGeometry\<close> returns null and the visit
  of the node returns null, without any error.
\<close>

theorem createMeshGeometry_unsupported_mode:
  assumes "\<not> mesh_isEmpty meshGeometry"
    and "m_mode p \<in> {Illustration, ShadedIllustration, ShadedWireframe, HiddenWireframe, SolidOutline,
                      Transparent, TransparentWireframe, SolidWireframe, ShadedVertices}"
    and "getType node = Model"
    and "getGeometry (m_sceneData p) (getResourceName node) = Some (MeshGeometry meshGeometry)"
  shows "createMeshGeometry dbg p meshGeometry = (if dbg then Inl AssertionFailed else Inr None) \<and>
         createNode (Suc depth) dbg p node = Some (if dbg then Inl AssertionFailed else Inr (None, p))"
proof -
  have mesh: "createMeshGeometry dbg p meshGeometry = (if dbg then Inl AssertionFailed else Inr None)"
    using assms(1,2) by (auto simp add: createMeshGeometry_def Q_ASSERT_def)
  have "createNode_switch dbg p node = (if dbg then Inl AssertionFailed else Inr (None, p))"
    using assms(3,4) mesh by (simp add: createNode_switch_def createModelNode_def)
  then show ?thesis using mesh by simp
qed

theorem createMeshGeometry_unsupported_mode_witness:
  "\<not> mesh_isEmpty ex_mesh \<and>
   createMeshGeometry True (ex_processor ShadedIllustration) ex_mesh = Inl AssertionFailed \<and>
   createNode (Suc 0) True (ex_processor ShadedIllustration) (ex_getNode ''body'') = Some (Inl AssertionFailed) \<and>
   createMeshGeometry False (ex_processor Transparent) ex_mesh = Inr None \<and>
   createNode (Suc 0) False (ex_processor Transparent) (ex_getNode ''body'')
     = Some (Inr (None, ex_processor Transparent))"
proof -
  have ne: "\<not> mesh_isEmpty ex_mesh" by (simp add: ex_mesh_def)
  have m1: "m_mode (ex_processor ShadedIllustration) \<in>
              {Illustration, ShadedIllustration, ShadedWireframe, HiddenWireframe, SolidOutline,
               Transparent, TransparentWireframe, SolidWireframe, ShadedVertices}"
    and m2: "m_mode (ex_processor Transparent) \<in>
              {Illustration, ShadedIllustration, ShadedWireframe, HiddenWireframe, SolidOutline,
               Transparent, TransparentWireframe, SolidWireframe, ShadedVertices}"
    by (simp_all add: ex_processor_def)
  have t: "getType (ex_getNode ''body'') = Model"
    by (simp add: ex_getNode_def ex_node_def)
  have g: "getGeometry (m_sceneData (ex_processor mode)) (getResourceName (ex_getNode ''body''))
             = Some (MeshGeometry ex_mesh)" for mode
    by (simp add: ex_getNode_def ex_node_def ex_processor_def ex_sceneData_def)
  from createMeshGeometry_unsupported_mode[OF ne m1 t g, of True 0]
       createMeshGeometry_unsupported_mode[OF ne m2 t g, of False 0] ne
  show ?thesis by simp
qed

text \<open>With assertions compiled out, the same mesh in mode ShadedIllustration gives null and no error.\<close>

theorem createMeshGeometry_silent_counterexample:
  "createMeshGeometry False (ex_processor ShadedIllustration) ex_mesh = Inr None"
  by (simp add: createMeshGeometry_def ex_mesh_def ex_processor_def Q_ASSERT_def)

subsection \<open>Model nodes without geometry\<close>

lemma createNode_switch_Model:
  "getType node = Model \<Longrightarrow>
   createNode_switch dbg p node = bindE (createModelNode dbg p node) (\<lambda>processedNode. Inr (processedNode, p))"
  by (simp add: createNode_switch_def)

text \<open>
  C1 (amended). A model node builds to nothing when its resource is missing, is a geometry of
  none of the three kinds, or is an empty mesh, point set or line set. Whenever a model node
  builds to nothing, the visit of the node returns null at once, for any depth bound and
  whatever the node's children are: none of them is visited, and the node's subtree is absent
  from the output. In the loop of its parent the node is skipped and the loop goes on with
  the remaining children.
\<close>

theorem createNode_Model_without_geometry:
  assumes "getType node = Model"
  shows "((getGeometry (m_sceneData p) (getResourceName node) = None
           \<or> getGeometry (m_sceneData p) (getResourceName node) = Some OtherGeometry
           \<or> (\<exists>g. getGeometry (m_sceneData p) (getResourceName node) = Some (MeshGeometry g) \<and> mesh_isEmpty g)
           \<or> (\<exists>g. getGeometry (m_sceneData p) (getResourceName node) = Some (PointSetGeometry g) \<and> ps_isEmpty g)
           \<or> (\<exists>g. getGeometry (m_sceneData p) (getResourceName node) = Some (LineSetGeometry g) \<and> ls_isEmpty g))
          \<longrightarrow> createModelNode dbg p node = Inr None) \<and>
         (createModelNode dbg p node = Inr None \<longrightarrow>
            createNode (Suc depth) dbg p node = Some (Inr (None, p)) \<and>
            (getNode (m_sceneData p) name = node \<longrightarrow>
               createNode_children (Suc depth) dbg p parent (name # rest) processedNode
                 = createNode_children (Suc depth) dbg p parent rest processedNode))"
proof (intro conjI impI)
  assume "getGeometry (m_sceneData p) (getResourceName node) = None
           \<or> getGeometry (m_sceneData p) (getResourceName node) = Some OtherGeometry
           \<or> (\<exists>g. getGeometry (m_sceneData p) (getResourceName node) = Some (MeshGeometry g) \<and> mesh_isEmpty g)
           \<or> (\<exists>g. getGeometry (m_sceneData p) (getResourceName node) = Some (PointSetGeometry g) \<and> ps_isEmpty g)
           \<or> (\<exists>g. getGeometry (m_sceneData p) (getResourceName node) = Some (LineSetGeometry g) \<and> ls_isEmpty g)"
  then show "createModelNode dbg p node = Inr None"
    by (auto simp add: createModelNode_def createMeshGeometry_def createPointSetGeometry_def
        createLineSetGeometry_def)
next
  assume nogeom: "createModelNode dbg p node = Inr None"
  have sw: "createNode_switch dbg p node = Inr (None, p)"
    using assms nogeom by (simp add: createNode_switch_def)
  show visit: "createNode (Suc depth) dbg p node = Some (Inr (None, p))"
    by (simp add: sw)
  assume "getNode (m_sceneData p) name = node"
  then show "createNode_children (Suc depth) dbg p parent (name # rest) processedNode
               = createNode_children (Suc depth) dbg p parent rest processedNode"
    using visit by simp
qed

lemma ex_processor_fix:
  "(ex_processor mode)\<lparr>m_processedNodes := [], m_sceneData := ex_sceneData\<rparr> = ex_processor mode"
  by (simp add: ex_processor_def)

theorem createNode_Model_without_geometry_witness:
  "getType (ex_getNode ''m'') = Model \<and>
   getGeometry (m_sceneData (ex_processor Solid)) (getResourceName (ex_getNode ''m'')) = None \<and>
   getChildren (ex_getNode ''m'') = [''c''] \<and>
   createModelNode False (ex_processor Solid) (ex_getNode ''m'') = Inr None \<and>
   createNode (Suc 0) False (ex_processor Solid) (ex_getNode ''m'') = Some (Inr (None, ex_processor Solid)) \<and>
   createNode_children (Suc 0) False (ex_processor Solid) (ex_getNode ''root'') [''m''] (QNode ''root'' [])
     = Some (Inr (Some (QNode ''root'' []), ex_processor Solid))"
proof -
  let ?p = "ex_processor Solid"
  have t: "getType (ex_getNode ''m'') = Model" by (simp add: ex_getNode_def ex_node_def)
  have g: "getGeometry (m_sceneData ?p) (getResourceName (ex_getNode ''m'')) = None"
    by (simp add: ex_getNode_def ex_node_def ex_processor_def ex_sceneData_def)
  have c: "getChildren (ex_getNode ''m'') = [''c'']" by (simp add: ex_getNode_def ex_node_def)
  have n: "getNode (m_sceneData ?p) ''m'' = ex_getNode ''m''"
    by (simp add: ex_processor_def ex_sceneData_def)
  note w = createNode_Model_without_geometry[OF t, of ?p False 0 "''m''" "ex_getNode ''root''" "[]" "QNode ''root'' []"]
  from w g have m: "createModelNode False ?p (ex_getNode ''m'') = Inr None" by blast
  from w m n have v: "createNode (Suc 0) False ?p (ex_getNode ''m'') = Some (Inr (None, ?p))"
    and ch: "createNode_children (Suc 0) False ?p (ex_getNode ''root'') [''m''] (QNode ''root'' [])
              = createNode_children (Suc 0) False ?p (ex_getNode ''root'') [] (QNode ''root'' [])"
    by blast+
  from ch have ch': "createNode_children (Suc 0) False ?p (ex_getNode ''root'') [''m''] (QNode ''root'' [])
              = Some (Inr (Some (QNode ''root'' []), ?p))" by simp
  show ?thesis using t g c m v ch' by (intro conjI)
qed

text \<open>
  In the concrete graph, the group \<open>c\<close> builds to a node when visited on its own, but it is
  the child of the model \<open>m\<close> without geometry: the scene built from \<open>root\<close> is the root
  node alone, without any child.
\<close>

theorem createScene_drops_children_counterexample:
  "createNode (Suc 0) False (ex_processor Solid) (ex_getNode ''c'')
     = Some (Inr (Some (QNode ''c'' []), ex_processor Solid)) \<and>
   createScene 3 False (ex_processor Solid) ex_sceneData
     = Some (Inr (\<lparr>sceneRoot = Some (QNode ''root'' [])\<rparr>, ex_processor Solid))"
proof
  let ?p = "ex_processor Solid"
  show "createNode (Suc 0) False ?p (ex_getNode ''c'') = Some (Inr (Some (QNode ''c'' []), ?p))"
    by (simp add: createNode_switch_def ex_getNode_def ex_node_def)
  have sd: "m_sceneData ?p = ex_sceneData" and r: "m_sceneRoot ?p = ''root''"
    by (simp_all add: ex_processor_def)
  have gn: "getNode ex_sceneData name = ex_getNode name" for name
    by (simp add: ex_sceneData_def)
  have model: "createNode_switch False ?p (ex_getNode ''m'') = Inr (None, ?p)"
    by (simp add: createNode_switch_def createModelNode_def ex_getNode_def ex_node_def sd ex_sceneData_def)
  have m2: "createNode (Suc (Suc 0)) False ?p (ex_getNode ''m'') = Some (Inr (None, ?p))"
    by (simp add: model)
  have rootsw: "createNode_switch False ?p (ex_getNode ''root'') = Inr (Some (QNode [] []), ?p)"
    by (simp add: createNode_switch_def ex_getNode_def ex_node_def)
  have rootch: "getChildren (ex_getNode ''root'') = [''m'']"
    and rootname: "getNodeName (ex_getNode ''root'') = ''root''"
    by (simp_all add: ex_getNode_def ex_node_def)
  have ch: "createNode_children (Suc (Suc 0)) False ?p (ex_getNode ''root'') [''m''] (QNode ''root'' [])
              = Some (Inr (Some (QNode ''root'' []), ?p))"
    by (simp add: sd gn m2 del: createNode.simps)
  have n3: "createNode 3 False ?p (ex_getNode ''root'') = Some (Inr (Some (QNode ''root'' []), ?p))"
    unfolding numeral_3_eq_3
    using ch by (simp add: rootsw rootch rootname del: createNode_children.simps)
  show "createScene 3 False ?p ex_sceneData
     = Some (Inr (\<lparr>sceneRoot = Some (QNode ''root'' [])\<rparr>, ?p))"
    by (simp add: createScene_def ex_processor_fix r gn n3 del: createNode.simps)
qed

subsection \<open>Node graphs with a cycle\<close>

lemma createNode_cyclic:
  "m_sceneData p = ex_cyclic \<Longrightarrow> createNode depth dbg p (ex_node Group ''a'' [''a''] []) = None"
proof (induction depth)
  case 0
  show ?case by simp
next
  case (Suc depth)
  have sw: "createNode_switch dbg p (ex_node Group ''a'' [''a''] []) = Inr (Some (QNode [] []), p)"
    by (simp add: createNode_switch_def ex_node_def)
  have ch: "getChildren (ex_node Group ''a'' [''a''] []) = [''a'']" by (simp add: ex_node_def)
  have gn: "getNode (m_sceneData p) ''a'' = ex_node Group ''a'' [''a''] []"
    using Suc.prems by (simp add: ex_cyclic_def)
  show ?case using Suc sw ch gn by simp
qed

text \<open>
  C2 (the code at the failing input). On the node graph in which the group \<open>a\<close> is its own
  child, \<open>createScene\<close> does not return within any depth of recursion, whatever the processor
  and its root name: \<open>createScene\<close> clears \<open>m_processedNodes\<close>, and \<open>createNode\<close> neither
  reads nor writes it.
\<close>

theorem createScene_cyclic_never_returns:
  "createScene depth dbg p ex_cyclic = None"
proof -
  have "getNode ex_cyclic (m_sceneRoot p) = ex_node Group ''a'' [''a''] []"
    by (simp add: ex_cyclic_def)
  then show ?thesis
    by (simp add: createScene_def createNode_cyclic)
qed

subsection \<open>The face colour\<close>

lemma length_concat_vec3:
  "length (concat (map (\<lambda>i. vec3_floats (f i)) xs)) = 3 * length xs"
  by (induction xs) (simp_all add: vec3_floats_def)

lemma box_positionAttribute_ok:
  "\<exists>a. box_positionAttribute (box_positions b) = Inr a"
  by (simp add: box_positionAttribute_def box_positions_def Let_def fill_floats_def length_concat_vec3
      resize_fits)

lemma createBoundingBoxTransparentGeometry_material:
  "\<exists>attributes.
     createBoundingBoxTransparentGeometry p boundingBox =
       Inr (QEntity [] [renderer attributes Triangles,
                        MaterialC \<lparr>mat_kind = QDiffuseSpecularMaterial transparent
                                     (ColorValue ((getAuxiliaryColor p)\<lparr>alphaF := getOpacity p\<rparr>))
                                     transparent True,
                                   mat_renderStates = [QCullFace_NoCulling]\<rparr>] [])"
proof -
  obtain a where a: "box_positionAttribute (box_positions boundingBox) = Inr a"
    using box_positionAttribute_ok by blast
  show ?thesis
    unfolding createBoundingBoxTransparentGeometry_def a
    by (simp add: Let_def fill_uints_def solid_indices_def resize_fits) blast
qed

lemma getters_setFaceColor:
  "getAuxiliaryColor (setFaceColor c p) = getAuxiliaryColor p"
  "getOpacity (setFaceColor c p) = getOpacity p"
  "m_pointSize (setFaceColor c p) = m_pointSize p"
  "m_mode (setFaceColor c p) = m_mode p"
  "m_sceneData (setFaceColor c p) = m_sceneData p"
  "m_sceneRoot (setFaceColor c p) = m_sceneRoot p"
  "m_globalAmbientColor (setFaceColor c p) = m_globalAmbientColor p"
  by (simp_all add: setFaceColor_def getAuxiliaryColor_def getOpacity_def)

lemma setFaceColor_commute:
  "setFaceColor c (p\<lparr>m_globalAmbientColor := a\<rparr>) = (setFaceColor c p)\<lparr>m_globalAmbientColor := a\<rparr>"
  "setFaceColor c (p\<lparr>m_processedNodes := ns, m_sceneData := sd\<rparr>)
     = (setFaceColor c p)\<lparr>m_processedNodes := ns, m_sceneData := sd\<rparr>"
  by (simp_all add: setFaceColor_def)

lemma auxiliaryMaterial_setFaceColor:
  "auxiliaryMaterial (setFaceColor c p) states = auxiliaryMaterial p states"
  by (simp add: auxiliaryMaterial_def getters_setFaceColor)

lemma createVertexGeometry_setFaceColor:
  "createVertexGeometry (setFaceColor c p) positions = createVertexGeometry p positions"
  by (simp add: createVertexGeometry_def auxiliaryMaterial_setFaceColor getters_setFaceColor)

lemma createBoundingBoxWireGeometry_setFaceColor:
  "createBoundingBoxWireGeometry (setFaceColor c p) b = createBoundingBoxWireGeometry p b"
  by (simp add: createBoundingBoxWireGeometry_def auxiliaryMaterial_setFaceColor)

lemma createBoundingBoxTransparentGeometry_setFaceColor:
  "createBoundingBoxTransparentGeometry (setFaceColor c p) b = createBoundingBoxTransparentGeometry p b"
  by (simp add: createBoundingBoxTransparentGeometry_def getters_setFaceColor)

lemma case_BoundingBox_setFaceColor:
  "case_BoundingBox (setFaceColor c p) positions = case_BoundingBox p positions"
  "case_TransparentBoundingBox (setFaceColor c p) positions = case_TransparentBoundingBox p positions"
  "case_TransparentBoundingBoxOutline (setFaceColor c p) positions
     = case_TransparentBoundingBoxOutline p positions"
  by (simp_all add: case_BoundingBox_def case_TransparentBoundingBox_def
      case_TransparentBoundingBoxOutline_def createBoundingBoxWireGeometry_setFaceColor
      createBoundingBoxTransparentGeometry_setFaceColor Let_def)

lemma createMaterialFromShader_setFaceColor:
  "createMaterialFromShader (setFaceColor c p) shaderName force = createMaterialFromShader p shaderName force"
  unfolding createMaterialFromShader_def getters_setFaceColor by (rule refl)

lemma createMeshGeometry_setFaceColor:
  "createMeshGeometry dbg (setFaceColor c p) g = createMeshGeometry dbg p g"
  by (simp add: createMeshGeometry_def createMeshGeometry_Wireframe_def createMeshGeometry_Solid_def
      getters_setFaceColor case_BoundingBox_setFaceColor createVertexGeometry_setFaceColor
      auxiliaryMaterial_setFaceColor createMaterialFromShader_setFaceColor Let_def
      cong: SceneMode.case_cong)

lemma coloredPoints_setFaceColor:
  "coloredPoints (setFaceColor c p) positions colorOf = coloredPoints p positions colorOf"
  by (simp add: coloredPoints_def getters_setFaceColor Let_def)

lemma createPointSetGeometry_setFaceColor:
  "createPointSetGeometry (setFaceColor c p) g = createPointSetGeometry p g"
  by (simp add: createPointSetGeometry_def getters_setFaceColor case_BoundingBox_setFaceColor
      createVertexGeometry_setFaceColor coloredPoints_setFaceColor)

lemma lineEntities_setFaceColor:
  "lineEntities (setFaceColor c p) g m entities = lineEntities p g m entities"
proof (induction m arbitrary: entities)
  case Nil
  show ?case by simp
next
  case (Cons kv m)
  obtain sid lines where kv: "kv = (sid, lines)" by (cases kv)
  show ?case
    by (simp add: kv Cons.IH lineEntity_def createMaterialFromShader_setFaceColor)
qed

lemma createLineSetGeometry_setFaceColor:
  "createLineSetGeometry (setFaceColor c p) g = createLineSetGeometry p g"
  by (simp add: createLineSetGeometry_def createLineSetGeometry_Wireframe_def
      createLineSetGeometry_Solid_def getters_setFaceColor case_BoundingBox_setFaceColor
      createVertexGeometry_setFaceColor coloredPoints_setFaceColor auxiliaryMaterial_setFaceColor
      lineEntities_setFaceColor Let_def)

lemma createModelNode_setFaceColor:
  "createModelNode dbg (setFaceColor c p) node = createModelNode dbg p node"
  by (simp add: createModelNode_def getters_setFaceColor createMeshGeometry_setFaceColor
      createPointSetGeometry_setFaceColor createLineSetGeometry_setFaceColor
      cong: option.case_cong PDF3D_U3D_Geometry.case_cong)

lemma createLightNode_setFaceColor:
  "createLightNode dbg (setFaceColor c p) node
     = map_sum id (map_prod id (setFaceColor c)) (createLightNode dbg p node)"
  by (simp add: createLightNode_def getters_setFaceColor setFaceColor_commute Q_ASSERT_def Let_def
      split: option.splits LightType.splits prod.splits)

lemma createNode_switch_setFaceColor:
  "createNode_switch dbg (setFaceColor c p) node
     = map_sum id (map_prod id (setFaceColor c)) (createNode_switch dbg p node)"
  by (cases "createModelNode dbg p node")
     (simp_all add: createNode_switch_def createModelNode_setFaceColor createLightNode_setFaceColor
       split: NodeType.splits)

lemma createNode_children_setFaceColor:
  assumes "\<And>p node. createNode depth dbg (setFaceColor c p) node
             = map_option (map_sum id (map_prod id (setFaceColor c))) (createNode depth dbg p node)"
  shows "createNode_children depth dbg (setFaceColor c p) parent names processedNode
           = map_option (map_sum id (map_prod id (setFaceColor c)))
               (createNode_children depth dbg p parent names processedNode)"
proof (induction names arbitrary: p processedNode)
  case Nil
  show ?case by simp
next
  case (Cons name names)
  show ?case
  proof (cases "createNode depth dbg p (getNode (m_sceneData p) name)")
    case None
    then show ?thesis by (simp add: assms getters_setFaceColor)
  next
    case (Some r)
    show ?thesis
    proof (cases r)
      case (Inl e)
      then show ?thesis using Some by (simp add: assms getters_setFaceColor)
    next
      case (Inr np)
      obtain n p' where np: "np = (n, p')" by (cases np)
      show ?thesis using Some Inr np
        by (cases n) (simp_all add: assms getters_setFaceColor Cons.IH)
    qed
  qed
qed

lemma createNode_setFaceColor:
  "createNode depth dbg (setFaceColor c p) node
     = map_option (map_sum id (map_prod id (setFaceColor c))) (createNode depth dbg p node)"
proof (induction depth arbitrary: p node)
  case 0
  show ?case by simp
next
  case (Suc depth)
  show ?case
  proof (cases "createNode_switch dbg p node")
    case (Inl e)
    then show ?thesis by (simp add: createNode_switch_setFaceColor)
  next
    case (Inr np)
    obtain n p' where np: "np = (n, p')" by (cases np)
    show ?thesis using Inr np
      by (cases n) (simp_all add: createNode_switch_setFaceColor createNode_children_setFaceColor[OF Suc.IH] id_def)
  qed
qed

text \<open>
  C10. The face colour that \<open>setFaceColor\<close> stores is read back by \<open>getFaceColor\<close>, and a
  build does not depend on it: for every model source, root name, mode, style and depth bound,
  the build with another face colour gives the same outcome (not returning, the same error, or
  the same scene), the processor after it differing in the face colour only. The faces of the
  transparent bounding box have the auxiliary colour with the opacity as alpha, whatever the
  face colour is.
\<close>

theorem createScene_ignores_faceColor:
  "getFaceColor (setFaceColor c p) = c \<and>
   createScene depth dbg (setFaceColor c p) sceneData
     = map_option (map_sum id (map_prod id (setFaceColor c))) (createScene depth dbg p sceneData) \<and>
   (\<exists>attributes.
      createBoundingBoxTransparentGeometry (setFaceColor c p) boundingBox =
        Inr (QEntity [] [renderer attributes Triangles,
                         MaterialC \<lparr>mat_kind = QDiffuseSpecularMaterial transparent
                                      (ColorValue ((getAuxiliaryColor p)\<lparr>alphaF := getOpacity p\<rparr>))
                                      transparent True,
                                    mat_renderStates = [QCullFace_NoCulling]\<rparr>] []))"
proof (intro conjI)
  show "getFaceColor (setFaceColor c p) = c"
    by (simp add: getFaceColor_def setFaceColor_def)
  let ?p1 = "p\<lparr>m_processedNodes := [], m_sceneData := sceneData\<rparr>"
  have "createNode depth dbg (setFaceColor c ?p1) (getNode sceneData (m_sceneRoot ?p1))
          = map_option (map_sum id (map_prod id (setFaceColor c)))
              (createNode depth dbg ?p1 (getNode sceneData (m_sceneRoot ?p1)))"
    by (rule createNode_setFaceColor)
  then show "createScene depth dbg (setFaceColor c p) sceneData
     = map_option (map_sum id (map_prod id (setFaceColor c))) (createScene depth dbg p sceneData)"
    by (simp add: createScene_def setFaceColor_commute getters_setFaceColor
        split: option.splits sum.splits prod.splits)
  show "\<exists>attributes.
      createBoundingBoxTransparentGeometry (setFaceColor c p) boundingBox =
        Inr (QEntity [] [renderer attributes Triangles,
                         MaterialC \<lparr>mat_kind = QDiffuseSpecularMaterial transparent
                                      (ColorValue ((getAuxiliaryColor p)\<lparr>alphaF := getOpacity p\<rparr>))
                                      transparent True,
                                    mat_renderStates = [QCullFace_NoCulling]\<rparr>] [])"
    using createBoundingBoxTransparentGeometry_material[of "setFaceColor c p" boundingBox]
    by (simp add: getters_setFaceColor)
qed

theorem createScene_ignores_faceColor_witness:
  "getFaceColor (setFaceColor (ex_color 0 0 1) (ex_processor TransparentBoundingBox)) = ex_color 0 0 1 \<and>
   createScene 3 True (setFaceColor (ex_color 0 0 1) (ex_processor TransparentBoundingBox)) ex_sceneData
     = map_option (map_sum id (map_prod id (setFaceColor (ex_color 0 0 1))))
         (createScene 3 True (ex_processor TransparentBoundingBox) ex_sceneData)"
  using createScene_ignores_faceColor[of "ex_color 0 0 1" "ex_processor TransparentBoundingBox" 3 True
          ex_sceneData PDF3DBoundingBox_default]
  by blast

subsection \<open>Buffers and 32-bit counts\<close>

lemma unat_uint_of_nat: "n < 2 ^ 32 \<Longrightarrow> unat (of_nat n :: uint) = n"
  by (simp add: unat_of_nat)

lemma concat_map_index: "concat (map (\<lambda>i. f (xs ! i)) [0..<length xs]) = concat (map f xs)"
proof -
  have "map (\<lambda>i. f (xs ! i)) [0..<length xs] = map f (map ((!) xs) [0..<length xs])"
    by simp
  then show ?thesis by (simp only: map_nth)
qed

lemma length_concat_const:
  "(\<And>x. length (f x) = k) \<Longrightarrow> length (concat (map f xs)) = k * length xs"
  by (induction xs) simp_all

text \<open>In a concatenation of blocks of one length, block \<open>i\<close> is at offset \<open>k * i\<close>.\<close>

lemma take_drop_concat_const:
  assumes "\<And>x. length (f x) = k" and "i < length xs"
  shows "take k (drop (k * i) (concat (map f xs))) = f (xs ! i)"
  using assms(2)
proof (induction xs arbitrary: i)
  case Nil
  then show ?case by simp
next
  case (Cons x xs)
  show ?case
  proof (cases i)
    case 0
    then show ?thesis by (simp add: assms(1))
  next
    case (Suc j)
    then have "j < length xs" using Cons.prems by simp
    then have "take k (drop (k * j) (concat (map f xs))) = f (xs ! j)" by (rule Cons.IH)
    then show ?thesis using Suc by (simp add: assms(1))
  qed
qed

lemma createGenericAttribute_fits:
  assumes "12 * length values < 2 ^ 31"
  shows "createGenericAttribute values =
           Inr \<lparr>attr_name = [],
                attr_attributeType = VertexAttribute,
                attr_vertexBaseType = Float,
                attr_vertexSize = 3,
                attr_buffer = \<lparr>buf_type = VertexBuffer,
                                buf_data = \<lparr>ba_size = 12 * length values,
                                             ba_floats = concat (map vec3_floats values),
                                             ba_uints = []\<rparr>\<rparr>,
                attr_byteOffset = 0,
                attr_byteStride = 12,
                attr_count = of_nat (length values)\<rparr>"
proof -
  have n: "length values < 2 ^ 32" and n3: "3 * length values < 2 ^ 32" using assms by simp_all
  have u1: "unat (of_nat (length values) :: uint) = length values"
    using n by (rule unat_uint_of_nat)
  have "(of_nat (length values) :: uint) * 3 = of_nat (3 * length values)" by simp
  then have u3: "unat ((of_nat (length values) :: uint) * 3) = 3 * length values"
    using n3 by (simp only: unat_uint_of_nat)
  have sz: "resize (12 * length values) = 12 * length values"
    using assms by (rule resize_fits)
  have len: "length (concat (map vec3_floats values)) = 3 * length values"
    by (rule length_concat_const) (simp add: vec3_floats_def)
  show ?thesis
    unfolding createGenericAttribute_def Let_def u1 u3 concat_map_index
    by (simp add: fill_floats_def len sz)
qed

text \<open>From \<open>2\<^sup>3\<^sup>1\<close> bytes on, the size is negative as an \<^verbatim>\<open>int\<close>, the array is
  empty and the first write is past its end.\<close>

lemma createGenericAttribute_overrun:
  assumes "2 ^ 31 \<le> 12 * length values" and "12 * length values < 2 ^ 32"
  shows "createGenericAttribute values = Inl BufferOverrun"
proof -
  have n: "length values < 2 ^ 32" and n3: "3 * length values < 2 ^ 32" using assms(2) by simp_all
  have pos: "0 < length values" using assms(1) by (cases "length values") simp_all
  have u1: "unat (of_nat (length values) :: uint) = length values"
    using n by (rule unat_uint_of_nat)
  have "(of_nat (length values) :: uint) * 3 = of_nat (3 * length values)" by simp
  then have u3: "unat ((of_nat (length values) :: uint) * 3) = 3 * length values"
    using n3 by (simp only: unat_uint_of_nat)
  have sz: "resize (12 * length values) = 0"
    using assms by (rule resize_negative)
  have len: "length (concat (map vec3_floats values)) = 3 * length values"
    by (rule length_concat_const) (simp add: vec3_floats_def)
  show ?thesis
    unfolding createGenericAttribute_def Let_def u1 u3 concat_map_index
    using pos by (simp add: fill_floats_def len sz)
qed

lemma createPositionAttribute_fits:
  assumes "12 * length positions < 2 ^ 31"
  shows "createPositionAttribute positions =
           Inr \<lparr>attr_name = ''vertexPosition'',
                attr_attributeType = VertexAttribute,
                attr_vertexBaseType = Float,
                attr_vertexSize = 3,
                attr_buffer = \<lparr>buf_type = VertexBuffer,
                                buf_data = \<lparr>ba_size = 12 * length positions,
                                             ba_floats = concat (map vec3_floats positions),
                                             ba_uints = []\<rparr>\<rparr>,
                attr_byteOffset = 0,
                attr_byteStride = 12,
                attr_count = of_nat (length positions)\<rparr>"
  by (simp add: createPositionAttribute_def createGenericAttribute_fits[OF assms]
      defaultPositionAttributeName_def)

lemma createColorAttribute_fits:
  assumes "12 * length colors < 2 ^ 31"
  shows "createColorAttribute colors =
           Inr \<lparr>attr_name = ''vertexColor'',
                attr_attributeType = VertexAttribute,
                attr_vertexBaseType = Float,
                attr_vertexSize = 3,
                attr_buffer = \<lparr>buf_type = VertexBuffer,
                                buf_data = \<lparr>ba_size = 12 * length colors,
                                             ba_floats = concat (map vec3_floats colors),
                                             ba_uints = []\<rparr>\<rparr>,
                attr_byteOffset = 0,
                attr_byteStride = 12,
                attr_count = of_nat (length colors)\<rparr>"
  by (simp add: createColorAttribute_def createGenericAttribute_fits[OF assms]
      defaultColorAttributeName_def)

subsection \<open>Meshes as wireframes\<close>

lemma wireframe_fill_eq: "wireframe_fill ts written = written @ concat (map triangle_edges ts)"
  by (induction ts arbitrary: written) simp_all

lemma length_triangle_edges: "length (triangle_edges t) = 6"
  by (simp add: triangle_edges_def split: prod.splits)

lemma createMeshGeometry_Wireframe_explicit:
  assumes "12 * length (mesh_getPositions meshGeometry) < 2 ^ 31"
    and "24 * length (mesh_getTriangles meshGeometry) < 2 ^ 31"
  shows "\<exists>positionAttribute material.
           createMeshGeometry_Wireframe p meshGeometry =
             Inr (Some (QEntity []
                          [GeometryRendererC
                             \<lparr>gr_geometry =
                                [positionAttribute,
                                 \<lparr>attr_name = [],
                                  attr_attributeType = IndexAttribute,
                                  attr_vertexBaseType = UnsignedInt,
                                  attr_vertexSize = 1,
                                  attr_buffer =
                                    \<lparr>buf_type = IndexBuffer,
                                     buf_data =
                                       \<lparr>ba_size = 4 * (6 * length (mesh_getTriangles meshGeometry)),
                                        ba_floats = [],
                                        ba_uints = concat (map triangle_edges (mesh_getTriangles meshGeometry))\<rparr>\<rparr>,
                                  attr_byteOffset = 0,
                                  attr_byteStride = 0,
                                  attr_count = of_nat (6 * length (mesh_getTriangles meshGeometry))\<rparr>],
                              gr_primitiveRestartEnabled = False,
                              gr_primitiveType = Lines\<rparr>,
                           MaterialC material] []))"
proof -
  let ?ts = "mesh_getTriangles meshGeometry"
  let ?idx = "concat (map triangle_edges ?ts)"
  note a = createPositionAttribute_fits[OF assms(1)]
  have len: "length ?idx = 6 * length ?ts"
    by (rule length_concat_const) (rule length_triangle_edges)
  have t6: "6 * length ?ts < 2 ^ 32" using assms(2) by simp
  have w6: "(of_nat (length ?ts) :: uint) * 3 * 2 = of_nat (6 * length ?ts)" by simp
  have c6: "2 * ((of_nat (length ?ts) :: uint) * 3) = of_nat (6 * length ?ts)" by simp
  have u6: "unat ((of_nat (length ?ts) :: uint) * 3 * 2) = 6 * length ?ts"
    unfolding w6 using t6 by (rule unat_uint_of_nat)
  have sz: "resize (24 * length ?ts) = 24 * length ?ts"
    using assms(2) by (rule resize_fits)
  show ?thesis
    unfolding createMeshGeometry_Wireframe_def a mesh_getTriangleCount_def Let_def u6 c6
    by (simp add: fill_uints_def wireframe_fill_eq len sz indexAttribute_of_def renderer_def)
qed

lemma createMeshGeometry_Wireframe_index_overrun:
  assumes "12 * length (mesh_getPositions meshGeometry) < 2 ^ 31"
    and "2 ^ 31 \<le> 24 * length (mesh_getTriangles meshGeometry)"
    and "24 * length (mesh_getTriangles meshGeometry) < 2 ^ 32"
  shows "createMeshGeometry_Wireframe p meshGeometry = Inl BufferOverrun"
proof -
  let ?ts = "mesh_getTriangles meshGeometry"
  let ?idx = "concat (map triangle_edges ?ts)"
  note a = createPositionAttribute_fits[OF assms(1)]
  have len: "length ?idx = 6 * length ?ts"
    by (rule length_concat_const) (rule length_triangle_edges)
  have pos: "0 < length ?ts" using assms(2) by (cases "length ?ts") simp_all
  have t6: "6 * length ?ts < 2 ^ 32" using assms(3) by simp
  have w6: "(of_nat (length ?ts) :: uint) * 3 * 2 = of_nat (6 * length ?ts)" by simp
  have u6: "unat ((of_nat (length ?ts) :: uint) * 3 * 2) = 6 * length ?ts"
    unfolding w6 using t6 by (rule unat_uint_of_nat)
  have sz: "resize (24 * length ?ts) = 0"
    using assms(2,3) by (rule resize_negative)
  show ?thesis
    unfolding createMeshGeometry_Wireframe_def a mesh_getTriangleCount_def Let_def u6
    using pos by (simp add: fill_uints_def wireframe_fill_eq len sz)
qed

text \<open>
  C8 (amended). For every mesh that is not empty, with \<open>T\<close> triangles, in mode Wireframe,
  whose position data (12 bytes per position) and index data (24 bytes per triangle) are each
  below \<open>2\<^sup>3\<^sup>1\<close> bytes: the entity built has one geometry renderer with primitive type
  Lines, whose second attribute is an index attribute of base type unsigned int with count
  \<open>6T\<close> and an index buffer of exactly \<open>6T\<close> indices; for triangle \<open>i\<close> with vertices
  \<open>(v0, v1, v2)\<close>, the six indices from offset \<open>6i\<close> are the position indices of
  \<open>v0, v1, v1, v2, v2, v0\<close>, in that order.
\<close>

theorem createMeshGeometry_Wireframe_indices:
  assumes "\<not> mesh_isEmpty meshGeometry" and "m_mode p = Wireframe"
    and "12 * length (mesh_getPositions meshGeometry) < 2 ^ 31"
    and "24 * length (mesh_getTriangles meshGeometry) < 2 ^ 31"
  shows "\<exists>positionAttribute material indices.
           createMeshGeometry dbg p meshGeometry =
             Inr (Some (QEntity []
                          [GeometryRendererC
                             \<lparr>gr_geometry =
                                [positionAttribute,
                                 \<lparr>attr_name = [],
                                  attr_attributeType = IndexAttribute,
                                  attr_vertexBaseType = UnsignedInt,
                                  attr_vertexSize = 1,
                                  attr_buffer =
                                    \<lparr>buf_type = IndexBuffer,
                                     buf_data =
                                       \<lparr>ba_size = 4 * (6 * length (mesh_getTriangles meshGeometry)),
                                        ba_floats = [],
                                        ba_uints = indices\<rparr>\<rparr>,
                                  attr_byteOffset = 0,
                                  attr_byteStride = 0,
                                  attr_count = of_nat (6 * length (mesh_getTriangles meshGeometry))\<rparr>],
                              gr_primitiveRestartEnabled = False,
                              gr_primitiveType = Lines\<rparr>,
                           MaterialC material] [])) \<and>
           length indices = 6 * length (mesh_getTriangles meshGeometry) \<and>
           (\<forall>i < length (mesh_getTriangles meshGeometry).
              take 6 (drop (6 * i) indices) =
                (case vertices (mesh_getTriangles meshGeometry ! i) of (v0, v1, v2) \<Rightarrow>
                   [positionIndex v0, positionIndex v1,
                    positionIndex v1, positionIndex v2,
                    positionIndex v2, positionIndex v0]))"
proof -
  let ?ts = "mesh_getTriangles meshGeometry"
  let ?idx = "concat (map triangle_edges ?ts)"
  have res: "createMeshGeometry dbg p meshGeometry = createMeshGeometry_Wireframe p meshGeometry"
    using assms(1,2) by (simp add: createMeshGeometry_def)
  have len: "length ?idx = 6 * length ?ts"
    by (rule length_concat_const) (rule length_triangle_edges)
  have blocks: "\<forall>i < length ?ts. take 6 (drop (6 * i) ?idx) =
                (case vertices (?ts ! i) of (v0, v1, v2) \<Rightarrow>
                   [positionIndex v0, positionIndex v1,
                    positionIndex v1, positionIndex v2,
                    positionIndex v2, positionIndex v0])"
  proof (intro allI impI)
    fix i assume "i < length ?ts"
    then have "take 6 (drop (6 * i) ?idx) = triangle_edges (?ts ! i)"
      by (rule take_drop_concat_const[OF length_triangle_edges])
    then show "take 6 (drop (6 * i) ?idx) =
                (case vertices (?ts ! i) of (v0, v1, v2) \<Rightarrow>
                   [positionIndex v0, positionIndex v1,
                    positionIndex v1, positionIndex v2,
                    positionIndex v2, positionIndex v0])"
      by (simp add: triangle_edges_def)
  qed
  from createMeshGeometry_Wireframe_explicit[OF assms(3,4), of p]
  obtain a m where full: "createMeshGeometry_Wireframe p meshGeometry =
             Inr (Some (QEntity []
                          [GeometryRendererC
                             \<lparr>gr_geometry =
                                [a,
                                 \<lparr>attr_name = [],
                                  attr_attributeType = IndexAttribute,
                                  attr_vertexBaseType = UnsignedInt,
                                  attr_vertexSize = 1,
                                  attr_buffer =
                                    \<lparr>buf_type = IndexBuffer,
                                     buf_data =
                                       \<lparr>ba_size = 4 * (6 * length ?ts), ba_floats = [], ba_uints = ?idx\<rparr>\<rparr>,
                                  attr_byteOffset = 0,
                                  attr_byteStride = 0,
                                  attr_count = of_nat (6 * length ?ts)\<rparr>],
                              gr_primitiveRestartEnabled = False,
                              gr_primitiveType = Lines\<rparr>,
                           MaterialC m] []))"
    by blast
  show ?thesis
    unfolding res
    by (rule exI[of _ a], rule exI[of _ m], rule exI[of _ ?idx],
        rule conjI[OF full conjI[OF len blocks]])
qed

theorem createMeshGeometry_Wireframe_indices_witness:
  "\<not> mesh_isEmpty ex_mesh \<and> m_mode (ex_processor Wireframe) = Wireframe \<and>
   12 * length (mesh_getPositions ex_mesh) < 2 ^ 31 \<and>
   24 * length (mesh_getTriangles ex_mesh) < 2 ^ 31 \<and>
   (\<exists>positionAttribute material indices.
      createMeshGeometry True (ex_processor Wireframe) ex_mesh =
        Inr (Some (QEntity []
                     [GeometryRendererC
                        \<lparr>gr_geometry =
                           [positionAttribute,
                            \<lparr>attr_name = [],
                             attr_attributeType = IndexAttribute,
                             attr_vertexBaseType = UnsignedInt,
                             attr_vertexSize = 1,
                             attr_buffer =
                               \<lparr>buf_type = IndexBuffer,
                                buf_data = \<lparr>ba_size = 48, ba_floats = [], ba_uints = indices\<rparr>\<rparr>,
                             attr_byteOffset = 0,
                             attr_byteStride = 0,
                             attr_count = 12\<rparr>],
                         gr_primitiveRestartEnabled = False,
                         gr_primitiveType = Lines\<rparr>,
                      MaterialC material] [])) \<and>
      length indices = 12 \<and>
      take 6 indices = [0, 1, 1, 2, 2, 0] \<and>
      take 6 (drop 6 indices) = [0, 2, 2, 3, 3, 0])"
proof -
  have h1: "\<not> mesh_isEmpty ex_mesh" by (simp add: ex_mesh_def)
  have h2: "m_mode (ex_processor Wireframe) = Wireframe" by (simp add: ex_processor_def)
  have h3: "12 * length (mesh_getPositions ex_mesh) < 2 ^ 31" by (simp add: ex_mesh_def)
  have h4: "24 * length (mesh_getTriangles ex_mesh) < 2 ^ 31" by (simp add: ex_mesh_def)
  have ts: "mesh_getTriangles ex_mesh = [ex_triangle 0 1 2, ex_triangle 0 2 3]"
    by (simp add: ex_mesh_def)
  from createMeshGeometry_Wireframe_indices[OF h1 h2 h3 h4, of True]
  obtain pa m idx where
    r: "createMeshGeometry True (ex_processor Wireframe) ex_mesh =
          Inr (Some (QEntity []
                     [GeometryRendererC
                        \<lparr>gr_geometry =
                           [pa,
                            \<lparr>attr_name = [],
                             attr_attributeType = IndexAttribute,
                             attr_vertexBaseType = UnsignedInt,
                             attr_vertexSize = 1,
                             attr_buffer =
                               \<lparr>buf_type = IndexBuffer,
                                buf_data = \<lparr>ba_size = 4 * (6 * length (mesh_getTriangles ex_mesh)),
                                            ba_floats = [], ba_uints = idx\<rparr>\<rparr>,
                             attr_byteOffset = 0,
                             attr_byteStride = 0,
                             attr_count = of_nat (6 * length (mesh_getTriangles ex_mesh))\<rparr>],
                         gr_primitiveRestartEnabled = False,
                         gr_primitiveType = Lines\<rparr>,
                      MaterialC m] []))"
    and l: "length idx = 6 * length (mesh_getTriangles ex_mesh)"
    and b: "\<forall>i < length (mesh_getTriangles ex_mesh).
              take 6 (drop (6 * i) idx) =
                (case vertices (mesh_getTriangles ex_mesh ! i) of (v0, v1, v2) \<Rightarrow>
                   [positionIndex v0, positionIndex v1,
                    positionIndex v1, positionIndex v2,
                    positionIndex v2, positionIndex v0])"
    by blast
  from b[rule_format, of 0] have b0: "take 6 idx = [0, 1, 1, 2, 2, 0]"
    by (simp add: ts ex_triangle_def ex_vertex_def)
  from b[rule_format, of 1] have b1: "take 6 (drop 6 idx) = [0, 2, 2, 3, 3, 0]"
    by (simp add: ts ex_triangle_def ex_vertex_def)
  from r have r': "createMeshGeometry True (ex_processor Wireframe) ex_mesh =
        Inr (Some (QEntity []
                     [GeometryRendererC
                        \<lparr>gr_geometry =
                           [pa,
                            \<lparr>attr_name = [],
                             attr_attributeType = IndexAttribute,
                             attr_vertexBaseType = UnsignedInt,
                             attr_vertexSize = 1,
                             attr_buffer =
                               \<lparr>buf_type = IndexBuffer,
                                buf_data = \<lparr>ba_size = 48, ba_floats = [], ba_uints = idx\<rparr>\<rparr>,
                             attr_byteOffset = 0,
                             attr_byteStride = 0,
                             attr_count = 12\<rparr>],
                         gr_primitiveRestartEnabled = False,
                         gr_primitiveType = Lines\<rparr>,
                      MaterialC m] []))"
    by (simp add: ts)
  from l have l': "length idx = 12" by (simp add: ts)
  have "\<exists>positionAttribute material indices.
      createMeshGeometry True (ex_processor Wireframe) ex_mesh =
        Inr (Some (QEntity []
                     [GeometryRendererC
                        \<lparr>gr_geometry =
                           [positionAttribute,
                            \<lparr>attr_name = [],
                             attr_attributeType = IndexAttribute,
                             attr_vertexBaseType = UnsignedInt,
                             attr_vertexSize = 1,
                             attr_buffer =
                               \<lparr>buf_type = IndexBuffer,
                                buf_data = \<lparr>ba_size = 48, ba_floats = [], ba_uints = indices\<rparr>\<rparr>,
                             attr_byteOffset = 0,
                             attr_byteStride = 0,
                             attr_count = 12\<rparr>],
                         gr_primitiveRestartEnabled = False,
                         gr_primitiveType = Lines\<rparr>,
                      MaterialC material] [])) \<and>
      length indices = 12 \<and>
      take 6 indices = [0, 1, 1, 2, 2, 0] \<and>
      take 6 (drop 6 indices) = [0, 2, 2, 3, 3, 0]"
    by (rule exI[of _ pa], rule exI[of _ m], rule exI[of _ idx],
        rule conjI[OF r' conjI[OF l' conjI[OF b0 b1]]])
  then show ?thesis using h1 h2 h3 h4 by (intro conjI)
qed

text \<open>
  A mesh of 89478486 triangles has \<open>2\<^sup>3\<^sup>1 + 16\<close> bytes of wireframe indices, and a mesh of
  178956971 positions \<open>2\<^sup>3\<^sup>1 + 4\<close> bytes of position data: in mode Wireframe neither
  gives an index buffer; the writes overrun the array.
\<close>

theorem createMeshGeometry_Wireframe_size_counterexample:
  "\<not> mesh_isEmpty ex_wire_limit \<and> length (mesh_getTriangles ex_wire_limit) = 89478486 \<and>
   createMeshGeometry True (ex_processor Wireframe) ex_wire_limit = Inl BufferOverrun \<and>
   \<not> mesh_isEmpty ex_position_limit \<and> length (mesh_getPositions ex_position_limit) = 178956971 \<and>
   createMeshGeometry True (ex_processor Wireframe) ex_position_limit = Inl BufferOverrun"
proof -
  have m: "m_mode (ex_processor Wireframe) = Wireframe" by (simp add: ex_processor_def)
  have e1: "\<not> mesh_isEmpty ex_wire_limit" and t1: "length (mesh_getTriangles ex_wire_limit) = 89478486"
    and p1: "length (mesh_getPositions ex_wire_limit) = 4"
    by (simp_all add: ex_wire_limit_def ex_mesh_def)
  have e2: "\<not> mesh_isEmpty ex_position_limit"
    and p2: "length (mesh_getPositions ex_position_limit) = 178956971"
    by (simp_all add: ex_position_limit_def ex_mesh_def)
  have "createMeshGeometry_Wireframe (ex_processor Wireframe) ex_wire_limit = Inl BufferOverrun"
    by (rule createMeshGeometry_Wireframe_index_overrun) (simp_all add: t1 p1)
  then have r1: "createMeshGeometry True (ex_processor Wireframe) ex_wire_limit = Inl BufferOverrun"
    using e1 m by (simp add: createMeshGeometry_def)
  have "createGenericAttribute (mesh_getPositions ex_position_limit) = Inl BufferOverrun"
    by (rule createGenericAttribute_overrun) (simp_all add: p2)
  then have "createMeshGeometry_Wireframe (ex_processor Wireframe) ex_position_limit = Inl BufferOverrun"
    by (simp add: createMeshGeometry_Wireframe_def createPositionAttribute_def)
  then have r2: "createMeshGeometry True (ex_processor Wireframe) ex_position_limit = Inl BufferOverrun"
    using e2 m by (simp add: createMeshGeometry_def)
  show ?thesis using e1 t1 r1 e2 p2 r2 by (intro conjI)
qed

subsection \<open>Meshes as solids\<close>

lemma length_vertex_floats: "length (vertex_floats g v) = 12"
  by (simp add: vertex_floats_def split: prod.splits)

lemma solid_fill_eq:
  "solid_fill g ts written =
     written @ concat (map (vertex_floats g)
                         (concat (map (\<lambda>t. case vertices t of (v0, v1, v2) \<Rightarrow> [v0, v1, v2]) ts)))"
  by (induction ts arbitrary: written) (simp_all split: prod.splits)

lemma createMeshGeometry_Solid_explicit:
  assumes "\<not> mesh_isEmpty meshGeometry" and "m_mode p = Solid"
    and "144 * length (mesh_getTriangles meshGeometry) < 2 ^ 31"
    and "createMaterialFromShader p (mesh_getShaderName meshGeometry 0) False = Inr material"
  shows "createMeshGeometry dbg p meshGeometry =
             (let vertexBuffer =
                    \<lparr>buf_type = VertexBuffer,
                     buf_data =
                       \<lparr>ba_size = 48 * (3 * length (mesh_getTriangles meshGeometry)),
                        ba_floats =
                          concat (map (vertex_floats meshGeometry)
                                    (concat (map (\<lambda>t. case vertices t of (v0, v1, v2) \<Rightarrow> [v0, v1, v2])
                                               (mesh_getTriangles meshGeometry)))),
                        ba_uints = []\<rparr>\<rparr>;
                  vertexCount = of_nat (3 * length (mesh_getTriangles meshGeometry))
              in Inr (Some (QEntity []
                     [GeometryRendererC
                       \<lparr>gr_geometry =
                          [\<lparr>attr_name = ''vertexPosition'', attr_attributeType = VertexAttribute,
                            attr_vertexBaseType = Float, attr_vertexSize = 3, attr_buffer = vertexBuffer,
                            attr_byteOffset = 0, attr_byteStride = 48, attr_count = vertexCount\<rparr>,
                           \<lparr>attr_name = ''vertexNormal'', attr_attributeType = VertexAttribute,
                            attr_vertexBaseType = Float, attr_vertexSize = 3, attr_buffer = vertexBuffer,
                            attr_byteOffset = 12, attr_byteStride = 48, attr_count = vertexCount\<rparr>,
                           \<lparr>attr_name = ''vertexColor'', attr_attributeType = VertexAttribute,
                            attr_vertexBaseType = Float, attr_vertexSize = 4, attr_buffer = vertexBuffer,
                            attr_byteOffset = 24, attr_byteStride = 48, attr_count = vertexCount\<rparr>,
                           \<lparr>attr_name = ''vertexTexCoord'', attr_attributeType = VertexAttribute,
                            attr_vertexBaseType = Float, attr_vertexSize = 2, attr_buffer = vertexBuffer,
                            attr_byteOffset = 40, attr_byteStride = 48, attr_count = vertexCount\<rparr>],
                        gr_primitiveRestartEnabled = False,
                        gr_primitiveType = Triangles\<rparr>,
                      MaterialC material] [])))"
proof -
  let ?ts = "mesh_getTriangles meshGeometry"
  let ?corners = "concat (map (\<lambda>t. case vertices t of (v0, v1, v2) \<Rightarrow> [v0, v1, v2]) ?ts)"
  let ?fl = "concat (map (vertex_floats meshGeometry) ?corners)"
  have lc: "length ?corners = 3 * length ?ts"
    by (rule length_concat_const) (simp split: prod.splits)
  have lf: "length ?fl = 12 * (3 * length ?ts)"
    using length_concat_const[of "vertex_floats meshGeometry" 12 ?corners, OF length_vertex_floats] lc
    by simp
  have e1: "((3::uint) + 3 + 4 + 2) * 4 = 48" and e2: "(0::uint) + 3 * 4 = 12"
    and e3: "(12::uint) + 3 * 4 = 24" and e4: "(24::uint) + 4 * 4 = 40"
    by simp_all
  have e6: "(of_nat (length ?ts) :: uint) * 3 = of_nat (3 * length ?ts)" by simp
  have "(of_nat (3 * length ?ts) :: uint) * 48 = of_nat (144 * length ?ts)" by simp
  moreover have t32: "144 * length ?ts < 2 ^ 32" using assms(3) by simp
  ultimately have e5: "unat ((of_nat (3 * length ?ts) :: uint) * 48) = 144 * length ?ts"
    by (simp only: unat_uint_of_nat)
  have sz: "resize (144 * length ?ts) = 144 * length ?ts"
    using assms(3) by (rule resize_fits)
  have fill: "fill_floats (144 * length ?ts) (solid_fill meshGeometry ?ts [])
                = Inr \<lparr>ba_size = 144 * length ?ts, ba_floats = ?fl, ba_uints = []\<rparr>"
    using lf by (simp add: fill_floats_def solid_fill_eq sz)
  have solid: "createMeshGeometry_Solid p meshGeometry =
             (let vertexBuffer =
                    \<lparr>buf_type = VertexBuffer,
                     buf_data = \<lparr>ba_size = 48 * (3 * length ?ts), ba_floats = ?fl, ba_uints = []\<rparr>\<rparr>;
                  vertexCount = of_nat (3 * length ?ts)
              in Inr (Some (QEntity []
                     [GeometryRendererC
                       \<lparr>gr_geometry =
                          [\<lparr>attr_name = ''vertexPosition'', attr_attributeType = VertexAttribute,
                            attr_vertexBaseType = Float, attr_vertexSize = 3, attr_buffer = vertexBuffer,
                            attr_byteOffset = 0, attr_byteStride = 48, attr_count = vertexCount\<rparr>,
                           \<lparr>attr_name = ''vertexNormal'', attr_attributeType = VertexAttribute,
                            attr_vertexBaseType = Float, attr_vertexSize = 3, attr_buffer = vertexBuffer,
                            attr_byteOffset = 12, attr_byteStride = 48, attr_count = vertexCount\<rparr>,
                           \<lparr>attr_name = ''vertexColor'', attr_attributeType = VertexAttribute,
                            attr_vertexBaseType = Float, attr_vertexSize = 4, attr_buffer = vertexBuffer,
                            attr_byteOffset = 24, attr_byteStride = 48, attr_count = vertexCount\<rparr>,
                           \<lparr>attr_name = ''vertexTexCoord'', attr_attributeType = VertexAttribute,
                            attr_vertexBaseType = Float, attr_vertexSize = 2, attr_buffer = vertexBuffer,
                            attr_byteOffset = 40, attr_byteStride = 48, attr_count = vertexCount\<rparr>],
                        gr_primitiveRestartEnabled = False,
                        gr_primitiveType = Triangles\<rparr>,
                      MaterialC material] [])))"
    unfolding createMeshGeometry_Solid_def mesh_getTriangleCount_def Let_def e1 e2 e3 e4 e6 e5 fill
      assms(4) bindE_Inr
    by (simp add: renderer_def solid_attribute_def defaultPositionAttributeName_def
        defaultNormalAttributeName_def defaultColorAttributeName_def
        defaultTextureCoordinateAttributeName_def)
  have res: "createMeshGeometry dbg p meshGeometry = createMeshGeometry_Solid p meshGeometry"
    using assms(1,2) by (simp add: createMeshGeometry_def)
  show ?thesis using res solid by simp
qed

text \<open>
  C4 (amended). For every mesh that is not empty, with \<open>T\<close> triangles, in mode Solid, whose
  vertex data (\<open>144 T\<close> bytes) is below \<open>2\<^sup>3\<^sup>1\<close> bytes and whose first shader name resolves
  to a material: the entity built has that material and one geometry renderer with primitive
  type Triangles and four attributes, named \<^verbatim>\<open>vertexPosition\<close>, \<^verbatim>\<open>vertexNormal\<close>,
  \<^verbatim>\<open>vertexColor\<close> and \<^verbatim>\<open>vertexTexCoord\<close>, of 3, 3, 4 and 2 floats, all with count \<open>3T\<close>
  and byte stride 48 on one vertex buffer of \<open>144 T\<close> bytes, at the byte offsets 0, 12, 24
  and 40: the texture coordinates follow the four floats of the colour. The buffer holds
  exactly \<open>3T\<close> vertices, one per corner of each triangle in the order of the triangles, shared
  corners being written again; vertex \<open>j\<close> is the twelve floats from offset \<open>12 j\<close>:
  position (3), normal (3), diffuse colour (4), the first two texture coordinates.
\<close>

theorem createMeshGeometry_Solid_vertices:
  assumes "\<not> mesh_isEmpty meshGeometry" and "m_mode p = Solid"
    and "144 * length (mesh_getTriangles meshGeometry) < 2 ^ 31"
    and "createMaterialFromShader p (mesh_getShaderName meshGeometry 0) False = Inr material"
  shows "\<exists>floats.
           createMeshGeometry dbg p meshGeometry =
             (let vertexBuffer =
                    \<lparr>buf_type = VertexBuffer,
                     buf_data = \<lparr>ba_size = 48 * (3 * length (mesh_getTriangles meshGeometry)),
                                 ba_floats = floats, ba_uints = []\<rparr>\<rparr>;
                  vertexCount = of_nat (3 * length (mesh_getTriangles meshGeometry))
              in Inr (Some (QEntity []
                     [GeometryRendererC
                       \<lparr>gr_geometry =
                          [\<lparr>attr_name = ''vertexPosition'', attr_attributeType = VertexAttribute,
                            attr_vertexBaseType = Float, attr_vertexSize = 3, attr_buffer = vertexBuffer,
                            attr_byteOffset = 0, attr_byteStride = 48, attr_count = vertexCount\<rparr>,
                           \<lparr>attr_name = ''vertexNormal'', attr_attributeType = VertexAttribute,
                            attr_vertexBaseType = Float, attr_vertexSize = 3, attr_buffer = vertexBuffer,
                            attr_byteOffset = 12, attr_byteStride = 48, attr_count = vertexCount\<rparr>,
                           \<lparr>attr_name = ''vertexColor'', attr_attributeType = VertexAttribute,
                            attr_vertexBaseType = Float, attr_vertexSize = 4, attr_buffer = vertexBuffer,
                            attr_byteOffset = 24, attr_byteStride = 48, attr_count = vertexCount\<rparr>,
                           \<lparr>attr_name = ''vertexTexCoord'', attr_attributeType = VertexAttribute,
                            attr_vertexBaseType = Float, attr_vertexSize = 2, attr_buffer = vertexBuffer,
                            attr_byteOffset = 40, attr_byteStride = 48, attr_count = vertexCount\<rparr>],
                        gr_primitiveRestartEnabled = False,
                        gr_primitiveType = Triangles\<rparr>,
                      MaterialC material] []))) \<and>
           length floats = 12 * (3 * length (mesh_getTriangles meshGeometry)) \<and>
           length (concat (map (\<lambda>t. case vertices t of (v0, v1, v2) \<Rightarrow> [v0, v1, v2])
                             (mesh_getTriangles meshGeometry)))
             = 3 * length (mesh_getTriangles meshGeometry) \<and>
           (\<forall>j < 3 * length (mesh_getTriangles meshGeometry).
              take 12 (drop (12 * j) floats) =
                (let vertex = concat (map (\<lambda>t. case vertices t of (v0, v1, v2) \<Rightarrow> [v0, v1, v2])
                                        (mesh_getTriangles meshGeometry)) ! j
                 in case mesh_getPosition meshGeometry (positionIndex vertex) of (p0, p1, p2) \<Rightarrow>
                    case mesh_getNormal meshGeometry (normalIndex vertex) of (n0, n1, n2) \<Rightarrow>
                    case mesh_getDiffuseColor meshGeometry (diffuseColorIndex vertex) of (d0, d1, d2, d3) \<Rightarrow>
                    case mesh_getTextureCoordinate meshGeometry (textureCoordIndex vertex) of (t0, t1, t2, t3) \<Rightarrow>
                      [p0, p1, p2, n0, n1, n2, d0, d1, d2, d3, t0, t1]))"
proof -
  let ?ts = "mesh_getTriangles meshGeometry"
  let ?corners = "concat (map (\<lambda>t. case vertices t of (v0, v1, v2) \<Rightarrow> [v0, v1, v2]) ?ts)"
  let ?fl = "concat (map (vertex_floats meshGeometry) ?corners)"
  have lc: "length ?corners = 3 * length ?ts"
    by (rule length_concat_const) (simp split: prod.splits)
  have lf: "length ?fl = 12 * (3 * length ?ts)"
    using length_concat_const[of "vertex_floats meshGeometry" 12 ?corners, OF length_vertex_floats] lc
    by simp
  have blocks: "\<forall>j < 3 * length ?ts.
              take 12 (drop (12 * j) ?fl) =
                (let vertex = ?corners ! j
                 in case mesh_getPosition meshGeometry (positionIndex vertex) of (p0, p1, p2) \<Rightarrow>
                    case mesh_getNormal meshGeometry (normalIndex vertex) of (n0, n1, n2) \<Rightarrow>
                    case mesh_getDiffuseColor meshGeometry (diffuseColorIndex vertex) of (d0, d1, d2, d3) \<Rightarrow>
                    case mesh_getTextureCoordinate meshGeometry (textureCoordIndex vertex) of (t0, t1, t2, t3) \<Rightarrow>
                      [p0, p1, p2, n0, n1, n2, d0, d1, d2, d3, t0, t1])"
  proof (intro allI impI)
    fix j assume "j < 3 * length ?ts"
    then have "j < length ?corners" using lc by simp
    then have "take 12 (drop (12 * j) ?fl) = vertex_floats meshGeometry (?corners ! j)"
      by (rule take_drop_concat_const[OF length_vertex_floats])
    then show "take 12 (drop (12 * j) ?fl) =
                (let vertex = ?corners ! j
                 in case mesh_getPosition meshGeometry (positionIndex vertex) of (p0, p1, p2) \<Rightarrow>
                    case mesh_getNormal meshGeometry (normalIndex vertex) of (n0, n1, n2) \<Rightarrow>
                    case mesh_getDiffuseColor meshGeometry (diffuseColorIndex vertex) of (d0, d1, d2, d3) \<Rightarrow>
                    case mesh_getTextureCoordinate meshGeometry (textureCoordIndex vertex) of (t0, t1, t2, t3) \<Rightarrow>
                      [p0, p1, p2, n0, n1, n2, d0, d1, d2, d3, t0, t1])"
      by (simp add: vertex_floats_def Let_def)
  qed
  note full = createMeshGeometry_Solid_explicit[OF assms, of dbg]
  show ?thesis
    by (rule exI[of _ ?fl], rule conjI[OF full conjI[OF lf conjI[OF lc blocks]]])
qed

lemma ex_flat_material:
  "createMaterialFromShader (ex_processor mode) ''flat'' False =
     Inr \<lparr>mat_kind = QDiffuseSpecularMaterial (ex_color 0 0 0)
                       (ColorValue (ex_color (1 / 2) (1 / 2) (1 / 2))) (ex_color 1 1 1) True,
          mat_renderStates = [QAlphaTest GreaterOrEqual (1 / 2)]\<rparr>"
  by (simp add: createMaterialFromShader_def ex_processor_def ex_sceneData_def ex_shader_def)

theorem createMeshGeometry_Solid_vertices_witness:
  "\<not> mesh_isEmpty ex_mesh \<and> m_mode (ex_processor Solid) = Solid \<and>
   144 * length (mesh_getTriangles ex_mesh) < 2 ^ 31 \<and>
   (\<exists>floats material.
      createMeshGeometry True (ex_processor Solid) ex_mesh =
        (let vertexBuffer = \<lparr>buf_type = VertexBuffer,
                              buf_data = \<lparr>ba_size = 288, ba_floats = floats, ba_uints = []\<rparr>\<rparr>
         in Inr (Some (QEntity []
                 [GeometryRendererC
                   \<lparr>gr_geometry =
                      [\<lparr>attr_name = ''vertexPosition'', attr_attributeType = VertexAttribute,
                        attr_vertexBaseType = Float, attr_vertexSize = 3, attr_buffer = vertexBuffer,
                        attr_byteOffset = 0, attr_byteStride = 48, attr_count = 6\<rparr>,
                       \<lparr>attr_name = ''vertexNormal'', attr_attributeType = VertexAttribute,
                        attr_vertexBaseType = Float, attr_vertexSize = 3, attr_buffer = vertexBuffer,
                        attr_byteOffset = 12, attr_byteStride = 48, attr_count = 6\<rparr>,
                       \<lparr>attr_name = ''vertexColor'', attr_attributeType = VertexAttribute,
                        attr_vertexBaseType = Float, attr_vertexSize = 4, attr_buffer = vertexBuffer,
                        attr_byteOffset = 24, attr_byteStride = 48, attr_count = 6\<rparr>,
                       \<lparr>attr_name = ''vertexTexCoord'', attr_attributeType = VertexAttribute,
                        attr_vertexBaseType = Float, attr_vertexSize = 2, attr_buffer = vertexBuffer,
                        attr_byteOffset = 40, attr_byteStride = 48, attr_count = 6\<rparr>],
                    gr_primitiveRestartEnabled = False,
                    gr_primitiveType = Triangles\<rparr>,
                  MaterialC material] []))) \<and>
      length floats = 72 \<and>
      take 12 (drop 60 floats) = [fl 3, fl 0, fl 1, fl 0, fl 0, fl 1, fl 1, fl 0, fl 0, fl 1, fl 0, fl 1])"
proof -
  have h1: "\<not> mesh_isEmpty ex_mesh" by (simp add: ex_mesh_def)
  have h2: "m_mode (ex_processor Solid) = Solid" by (simp add: ex_processor_def)
  have h3: "144 * length (mesh_getTriangles ex_mesh) < 2 ^ 31" by (simp add: ex_mesh_def)
  have sh: "mesh_getShaderName ex_mesh 0 = ''flat''" by (simp add: ex_mesh_def)
  have ts: "mesh_getTriangles ex_mesh = [ex_triangle 0 1 2, ex_triangle 0 2 3]"
    by (simp add: ex_mesh_def)
  note mat = ex_flat_material[of Solid, folded sh]
  from createMeshGeometry_Solid_vertices[OF h1 h2 h3 mat, of True]
  obtain fs where
    r: "createMeshGeometry True (ex_processor Solid) ex_mesh =
             (let vertexBuffer =
                    \<lparr>buf_type = VertexBuffer,
                     buf_data = \<lparr>ba_size = 48 * (3 * length (mesh_getTriangles ex_mesh)),
                                 ba_floats = fs, ba_uints = []\<rparr>\<rparr>;
                  vertexCount = of_nat (3 * length (mesh_getTriangles ex_mesh))
              in Inr (Some (QEntity []
                     [GeometryRendererC
                       \<lparr>gr_geometry =
                          [\<lparr>attr_name = ''vertexPosition'', attr_attributeType = VertexAttribute,
                            attr_vertexBaseType = Float, attr_vertexSize = 3, attr_buffer = vertexBuffer,
                            attr_byteOffset = 0, attr_byteStride = 48, attr_count = vertexCount\<rparr>,
                           \<lparr>attr_name = ''vertexNormal'', attr_attributeType = VertexAttribute,
                            attr_vertexBaseType = Float, attr_vertexSize = 3, attr_buffer = vertexBuffer,
                            attr_byteOffset = 12, attr_byteStride = 48, attr_count = vertexCount\<rparr>,
                           \<lparr>attr_name = ''vertexColor'', attr_attributeType = VertexAttribute,
                            attr_vertexBaseType = Float, attr_vertexSize = 4, attr_buffer = vertexBuffer,
                            attr_byteOffset = 24, attr_byteStride = 48, attr_count = vertexCount\<rparr>,
                           \<lparr>attr_name = ''vertexTexCoord'', attr_attributeType = VertexAttribute,
                            attr_vertexBaseType = Float, attr_vertexSize = 2, attr_buffer = vertexBuffer,
                            attr_byteOffset = 40, attr_byteStride = 48, attr_count = vertexCount\<rparr>],
                        gr_primitiveRestartEnabled = False,
                        gr_primitiveType = Triangles\<rparr>,
                      MaterialC \<lparr>mat_kind = QDiffuseSpecularMaterial (ex_color 0 0 0)
                                     (ColorValue (ex_color (1 / 2) (1 / 2) (1 / 2))) (ex_color 1 1 1) True,
                                 mat_renderStates = [QAlphaTest GreaterOrEqual (1 / 2)]\<rparr>] [])))"
    and l: "length fs = 12 * (3 * length (mesh_getTriangles ex_mesh))"
    and b: "\<forall>j < 3 * length (mesh_getTriangles ex_mesh).
              take 12 (drop (12 * j) fs) =
                (let vertex = concat (map (\<lambda>t. case vertices t of (v0, v1, v2) \<Rightarrow> [v0, v1, v2])
                                        (mesh_getTriangles ex_mesh)) ! j
                 in case mesh_getPosition ex_mesh (positionIndex vertex) of (p0, p1, p2) \<Rightarrow>
                    case mesh_getNormal ex_mesh (normalIndex vertex) of (n0, n1, n2) \<Rightarrow>
                    case mesh_getDiffuseColor ex_mesh (diffuseColorIndex vertex) of (d0, d1, d2, d3) \<Rightarrow>
                    case mesh_getTextureCoordinate ex_mesh (textureCoordIndex vertex) of (t0, t1, t2, t3) \<Rightarrow>
                      [p0, p1, p2, n0, n1, n2, d0, d1, d2, d3, t0, t1])"
    by blast
  from b[rule_format, of 5] have b5: "take 12 (drop 60 fs) = [fl 3, fl 0, fl 1, fl 0, fl 0, fl 1, fl 1, fl 0, fl 0, fl 1, fl 0, fl 1]"
    by (simp add: ts ex_triangle_def ex_vertex_def Let_def) (simp add: ex_mesh_def)
  from l have l': "length fs = 72" by (simp add: ts)
  from r have r': "createMeshGeometry True (ex_processor Solid) ex_mesh =
        (let vertexBuffer = \<lparr>buf_type = VertexBuffer,
                              buf_data = \<lparr>ba_size = 288, ba_floats = fs, ba_uints = []\<rparr>\<rparr>
         in Inr (Some (QEntity []
                 [GeometryRendererC
                   \<lparr>gr_geometry =
                      [\<lparr>attr_name = ''vertexPosition'', attr_attributeType = VertexAttribute,
                        attr_vertexBaseType = Float, attr_vertexSize = 3, attr_buffer = vertexBuffer,
                        attr_byteOffset = 0, attr_byteStride = 48, attr_count = 6\<rparr>,
                       \<lparr>attr_name = ''vertexNormal'', attr_attributeType = VertexAttribute,
                        attr_vertexBaseType = Float, attr_vertexSize = 3, attr_buffer = vertexBuffer,
                        attr_byteOffset = 12, attr_byteStride = 48, attr_count = 6\<rparr>,
                       \<lparr>attr_name = ''vertexColor'', attr_attributeType = VertexAttribute,
                        attr_vertexBaseType = Float, attr_vertexSize = 4, attr_buffer = vertexBuffer,
                        attr_byteOffset = 24, attr_byteStride = 48, attr_count = 6\<rparr>,
                       \<lparr>attr_name = ''vertexTexCoord'', attr_attributeType = VertexAttribute,
                        attr_vertexBaseType = Float, attr_vertexSize = 2, attr_buffer = vertexBuffer,
                        attr_byteOffset = 40, attr_byteStride = 48, attr_count = 6\<rparr>],
                    gr_primitiveRestartEnabled = False,
                    gr_primitiveType = Triangles\<rparr>,
                  MaterialC \<lparr>mat_kind = QDiffuseSpecularMaterial (ex_color 0 0 0)
                                     (ColorValue (ex_color (1 / 2) (1 / 2) (1 / 2))) (ex_color 1 1 1) True,
                             mat_renderStates = [QAlphaTest GreaterOrEqual (1 / 2)]\<rparr>] [])))"
    by (simp add: ts Let_def)
  have "\<exists>floats material.
      createMeshGeometry True (ex_processor Solid) ex_mesh =
        (let vertexBuffer = \<lparr>buf_type = VertexBuffer,
                              buf_data = \<lparr>ba_size = 288, ba_floats = floats, ba_uints = []\<rparr>\<rparr>
         in Inr (Some (QEntity []
                 [GeometryRendererC
                   \<lparr>gr_geometry =
                      [\<lparr>attr_name = ''vertexPosition'', attr_attributeType = VertexAttribute,
                        attr_vertexBaseType = Float, attr_vertexSize = 3, attr_buffer = vertexBuffer,
                        attr_byteOffset = 0, attr_byteStride = 48, attr_count = 6\<rparr>,
                       \<lparr>attr_name = ''vertexNormal'', attr_attributeType = VertexAttribute,
                        attr_vertexBaseType = Float, attr_vertexSize = 3, attr_buffer = vertexBuffer,
                        attr_byteOffset = 12, attr_byteStride = 48, attr_count = 6\<rparr>,
                       \<lparr>attr_name = ''vertexColor'', attr_attributeType = VertexAttribute,
                        attr_vertexBaseType = Float, attr_vertexSize = 4, attr_buffer = vertexBuffer,
                        attr_byteOffset = 24, attr_byteStride = 48, attr_count = 6\<rparr>,
                       \<lparr>attr_name = ''vertexTexCoord'', attr_attributeType = VertexAttribute,
                        attr_vertexBaseType = Float, attr_vertexSize = 2, attr_buffer = vertexBuffer,
                        attr_byteOffset = 40, attr_byteStride = 48, attr_count = 6\<rparr>],
                    gr_primitiveRestartEnabled = False,
                    gr_primitiveType = Triangles\<rparr>,
                  MaterialC material] []))) \<and>
      length floats = 72 \<and>
      take 12 (drop 60 floats) = [fl 3, fl 0, fl 1, fl 0, fl 0, fl 1, fl 1, fl 0, fl 0, fl 1, fl 0, fl 1]"
    by (rule exI[of _ fs], rule exI, rule conjI[OF r' conjI[OF l' b5]])
  then show ?thesis using h1 h2 h3 by (intro conjI)
qed

lemma createMeshGeometry_Solid_overrun:
  assumes "2 ^ 31 \<le> 144 * length (mesh_getTriangles meshGeometry)"
    and "144 * length (mesh_getTriangles meshGeometry) < 2 ^ 32"
  shows "createMeshGeometry_Solid p meshGeometry = Inl BufferOverrun"
proof -
  let ?ts = "mesh_getTriangles meshGeometry"
  let ?corners = "concat (map (\<lambda>t. case vertices t of (v0, v1, v2) \<Rightarrow> [v0, v1, v2]) ?ts)"
  let ?fl = "concat (map (vertex_floats meshGeometry) ?corners)"
  have lc: "length ?corners = 3 * length ?ts"
    by (rule length_concat_const) (simp split: prod.splits)
  have lf: "length ?fl = 12 * (3 * length ?ts)"
    using length_concat_const[of "vertex_floats meshGeometry" 12 ?corners, OF length_vertex_floats] lc
    by simp
  have pos: "0 < length ?ts" using assms(1) by (cases "length ?ts") simp_all
  have e1: "((3::uint) + 3 + 4 + 2) * 4 = 48" by simp
  have e6: "(of_nat (length ?ts) :: uint) * 3 = of_nat (3 * length ?ts)" by simp
  have "(of_nat (3 * length ?ts) :: uint) * 48 = of_nat (144 * length ?ts)" by simp
  then have e5: "unat ((of_nat (3 * length ?ts) :: uint) * 48) = 144 * length ?ts"
    using assms(2) by (simp only: unat_uint_of_nat)
  have sz: "resize (144 * length ?ts) = 0"
    using assms by (rule resize_negative)
  have fill: "fill_floats (144 * length ?ts) (solid_fill meshGeometry ?ts []) = Inl BufferOverrun"
    using lf pos by (simp add: fill_floats_def solid_fill_eq sz)
  show ?thesis
    unfolding createMeshGeometry_Solid_def mesh_getTriangleCount_def Let_def e1 e6 e5 fill bindE_Inl
    by (rule refl)
qed

text \<open>
  The four attributes of the solid built from the mesh of two triangles, in the order
  position, normal, colour, texture coordinate: the byte offset of the last is 40, not 36.
  A mesh of 14913081 triangles has \<open>2\<^sup>3\<^sup>1 + 16\<close> bytes of vertex data, and the writes
  overrun the array; a mesh whose shader name is not in the scene data has no material, and
  the null material is dereferenced.
\<close>

theorem createMeshGeometry_Solid_offsets_counterexample:
  "map attr_name (built_attributes (createMeshGeometry True (ex_processor Solid) ex_mesh))
     = [''vertexPosition'', ''vertexNormal'', ''vertexColor'', ''vertexTexCoord''] \<and>
   map attr_byteOffset (built_attributes (createMeshGeometry True (ex_processor Solid) ex_mesh))
     = [0, 12, 24, 40] \<and>
   \<not> mesh_isEmpty ex_solid_limit \<and> length (mesh_getTriangles ex_solid_limit) = 14913081 \<and>
   createMeshGeometry True (ex_processor Solid) ex_solid_limit = Inl BufferOverrun \<and>
   \<not> mesh_isEmpty ex_mesh_unknown_shader \<and> length (mesh_getTriangles ex_mesh_unknown_shader) = 2 \<and>
   createMeshGeometry True (ex_processor Solid) ex_mesh_unknown_shader = Inl NullPointerDereference"
proof -
  have h1: "\<not> mesh_isEmpty ex_mesh" by (simp add: ex_mesh_def)
  have h2: "m_mode (ex_processor Solid) = Solid" by (simp add: ex_processor_def)
  have h3: "144 * length (mesh_getTriangles ex_mesh) < 2 ^ 31" by (simp add: ex_mesh_def)
  have sh: "mesh_getShaderName ex_mesh 0 = ''flat''" by (simp add: ex_mesh_def)
  note mat = ex_flat_material[of Solid, folded sh]
  have a: "map attr_name (built_attributes (createMeshGeometry True (ex_processor Solid) ex_mesh))
     = [''vertexPosition'', ''vertexNormal'', ''vertexColor'', ''vertexTexCoord'']"
    unfolding createMeshGeometry_Solid_explicit[OF h1 h2 h3 mat, of True]
    by (simp add: Let_def)
  have b: "map attr_byteOffset (built_attributes (createMeshGeometry True (ex_processor Solid) ex_mesh))
     = [0, 12, 24, 40]"
    unfolding createMeshGeometry_Solid_explicit[OF h1 h2 h3 mat, of True]
    by (simp add: Let_def)
  have e1: "\<not> mesh_isEmpty ex_solid_limit"
    and t1: "length (mesh_getTriangles ex_solid_limit) = 14913081"
    by (simp_all add: ex_solid_limit_def ex_mesh_def)
  have "createMeshGeometry_Solid (ex_processor Solid) ex_solid_limit = Inl BufferOverrun"
    by (rule createMeshGeometry_Solid_overrun) (simp_all add: t1)
  then have r1: "createMeshGeometry True (ex_processor Solid) ex_solid_limit = Inl BufferOverrun"
    using e1 h2 by (simp add: createMeshGeometry_def)
  have e2: "\<not> mesh_isEmpty ex_mesh_unknown_shader"
    and t2: "length (mesh_getTriangles ex_mesh_unknown_shader) = 2"
    and ts2: "mesh_getTriangles ex_mesh_unknown_shader = [ex_triangle 0 1 2, ex_triangle 0 2 3]"
    and sh2: "mesh_getShaderName ex_mesh_unknown_shader 0 = ''none''"
    by (simp_all add: ex_mesh_unknown_shader_def ex_mesh_def)
  have nomat: "createMaterialFromShader (ex_processor Solid) ''none'' False = Inl NullPointerDereference"
    by (simp add: createMaterialFromShader_def ex_processor_def ex_sceneData_def)
  have "createMeshGeometry_Solid (ex_processor Solid) ex_mesh_unknown_shader = Inl NullPointerDereference"
    unfolding createMeshGeometry_Solid_def mesh_getTriangleCount_def Let_def ts2 sh2 nomat
    by (simp add: fill_floats_def resize_fits vertex_floats_def ex_triangle_def ex_vertex_def
        split: prod.splits)
  then have r2: "createMeshGeometry True (ex_processor Solid) ex_mesh_unknown_shader
                   = Inl NullPointerDereference"
    using e2 h2 by (simp add: createMeshGeometry_def)
  show ?thesis using a b e1 t1 r1 e2 t2 r2 by (intro conjI)
qed

subsection \<open>Line sets by shading id\<close>

text \<open>\<open>map_push_back\<close> keeps the keys increasing, adds the key, and appends the line to the
  lines of that key only.\<close>

lemma map_push_back_keys:
  "sorted_wrt (<) (map fst m) \<Longrightarrow>
     sorted_wrt (<) (map fst (map_push_back k l m)) \<and>
     fst ` set (map_push_back k l m) = insert k (fst ` set m)"
proof (induction m)
  case Nil
  show ?case by simp
next
  case (Cons kv m)
  obtain k' ls where kv: "kv = (k', ls)" by (cases kv)
  have tl: "sorted_wrt (<) (map fst m)" and hd: "\<forall>x \<in> fst ` set m. k' < x"
    using Cons.prems by (simp_all add: kv)
  show ?case
  proof (cases "k = k'")
    case True
    then show ?thesis using Cons.prems by (simp add: kv)
  next
    case False
    show ?thesis
    proof (cases "k < k'")
      case True
      then show ?thesis using Cons.prems False by (auto simp add: kv)
    next
      case ge: False
      then have "k' < k" using False by simp
      then show ?thesis using Cons.IH[OF tl] hd False ge by (auto simp add: kv)
    qed
  qed
qed

lemma map_push_back_lookup:
  "sorted_wrt (<) (map fst m) \<Longrightarrow>
     case_option [] id (map_of (map_push_back k l m) k')
       = case_option [] id (map_of m k') @ (if k' = k then [l] else [])"
proof (induction m)
  case Nil
  show ?case by simp
next
  case (Cons kv m)
  obtain k0 ls where kv: "kv = (k0, ls)" by (cases kv)
  have tl: "sorted_wrt (<) (map fst m)" and hd: "\<forall>x \<in> fst ` set m. k0 < x"
    using Cons.prems by (simp_all add: kv)
  show ?case
  proof (cases "k = k0")
    case True
    then show ?thesis by (simp add: kv)
  next
    case False
    show ?thesis
    proof (cases "k < k0")
      case True
      then have "k \<notin> fst ` set m" using hd by auto
      then have "map_of m k = None" by (simp add: map_of_eq_None_iff)
      then show ?thesis using True False by (simp add: kv)
    next
      case ge: False
      show ?thesis using Cons.IH[OF tl] False ge by (auto simp add: kv)
    qed
  qed
qed

lemma shadingIdToLines_char:
  "sorted_wrt (<) (map fst m) \<Longrightarrow>
     sorted_wrt (<) (map fst (shadingIdToLines lines m)) \<and>
     fst ` set (shadingIdToLines lines m) = fst ` set m \<union> shadingId ` set lines \<and>
     (\<forall>k. case_option [] id (map_of (shadingIdToLines lines m) k)
            = case_option [] id (map_of m k) @ filter (\<lambda>l. shadingId l = k) lines)"
proof (induction lines arbitrary: m)
  case Nil
  then show ?case by simp
next
  case (Cons line lines)
  let ?m' = "map_push_back (shadingId line) line m"
  have s: "sorted_wrt (<) (map fst ?m')" and k: "fst ` set ?m' = insert (shadingId line) (fst ` set m)"
    using map_push_back_keys[OF Cons.prems] by blast+
  have l: "\<And>k'. case_option [] id (map_of ?m' k')
             = case_option [] id (map_of m k') @ (if k' = shadingId line then [line] else [])"
    by (rule map_push_back_lookup[OF Cons.prems])
  note ih = Cons.IH[OF s]
  have 1: "sorted_wrt (<) (map fst (shadingIdToLines (line # lines) m))"
    using ih by simp
  have 2: "fst ` set (shadingIdToLines (line # lines) m) = fst ` set m \<union> shadingId ` set (line # lines)"
    using ih k by auto
  have 3: "case_option [] id (map_of (shadingIdToLines (line # lines) m) k')
            = case_option [] id (map_of m k') @ filter (\<lambda>l. shadingId l = k') (line # lines)" for k'
    using ih l[of k'] by simp
  show ?case using 1 2 3 by blast
qed

lemma alist_by_keys:
  "distinct (map fst m) \<Longrightarrow> map (\<lambda>e. (fst e, case_option [] id (map_of m (fst e)))) m = m"
proof (induction m)
  case Nil
  show ?case by simp
next
  case (Cons kv m)
  obtain k v where kv: "kv = (k, v)" by (cases kv)
  have d: "distinct (map fst m)" and nk: "k \<notin> fst ` set m" using Cons.prems by (simp_all add: kv)
  have "map (\<lambda>e. (fst e, case_option [] id (map_of (kv # m) (fst e)))) m
          = map (\<lambda>e. (fst e, case_option [] id (map_of m (fst e)))) m"
    using nk by (intro map_cong refl) (auto simp add: kv)
  then show ?case using Cons.IH[OF d] by (simp add: kv)
qed

lemma shadingIdToLines_eq:
  "shadingIdToLines lines [] =
     map (\<lambda>sid. (sid, filter (\<lambda>l. shadingId l = sid) lines))
         (sorted_list_of_set (shadingId ` set lines))"
proof -
  let ?M = "shadingIdToLines lines []"
  have c: "sorted_wrt (<) (map fst ?M)" "fst ` set ?M = shadingId ` set lines"
    "\<And>k. case_option [] id (map_of ?M k) = filter (\<lambda>l. shadingId l = k) lines"
    using shadingIdToLines_char[of "[]" lines] by simp_all
  have sd: "sorted (map fst ?M)" "distinct (map fst ?M)"
    using c(1) by (simp_all add: strict_sorted_iff)
  have keys: "sorted_list_of_set (shadingId ` set lines) = map fst ?M"
    using sorted_list_of_set.idem_if_sorted_distinct[OF sd] c(2) by simp
  have "?M = map (\<lambda>e. (fst e, case_option [] id (map_of ?M (fst e)))) ?M"
    using alist_by_keys[OF sd(2)] by simp
  also have "\<dots> = map (\<lambda>e. (fst e, filter (\<lambda>l. shadingId l = fst e) lines)) ?M"
    by (simp only: c(3))
  also have "\<dots> = map (\<lambda>sid. (sid, filter (\<lambda>l. shadingId l = sid) lines)) (map fst ?M)"
    by (simp add: comp_def)
  finally show ?thesis by (simp only: keys)
qed

lemma lineEntities_all:
  assumes "\<forall>sid \<in> set ids. lineEntity p g sid (part sid) = Inr (unit sid)"
  shows "lineEntities p g (map (\<lambda>sid. (sid, part sid)) ids) entities = Inr (entities @ map unit ids)"
  using assms by (induction ids arbitrary: entities) simp_all

lemma length_line_positions: "length (line_positions g lines) = 2 * length lines"
  by (simp add: line_positions_def length_concat_const[of _ 2])

lemma length_line_colors: "length (line_colors g lines) = 2 * length lines"
  by (simp add: line_colors_def length_concat_const[of _ 2])


lemma floats_line_positions:
  "concat (map vec3_floats (line_positions g lines)) =
     concat (map (\<lambda>line.
        case ls_getPosition g (position1 line) of (x1, y1, z1) \<Rightarrow>
        case ls_getPosition g (position2 line) of (x2, y2, z2) \<Rightarrow>
          [x1, y1, z1, x2, y2, z2]) lines)"
  by (induction lines) (simp_all add: line_positions_def vec3_floats_def split: prod.splits)

lemma floats_line_colors:
  "concat (map vec3_floats (line_colors g lines)) =
     concat (map (\<lambda>line.
        case ls_getDiffuseColor g (diffuseColor1 line) of (r1, g1, b1, a1) \<Rightarrow>
        case ls_getDiffuseColor g (diffuseColor2 line) of (r2, g2, b2, a2) \<Rightarrow>
          [r1, g1, b1, r2, g2, b2]) lines)"
  by (induction lines) (simp_all add: line_colors_def vec3_floats_def split: prod.splits)

lemma lineEntity_fits:
  assumes "24 * length lines < 2 ^ 31"
    and "createMaterialFromShader p (ls_getShaderName g sid) True = Inr material"
  shows "lineEntity p g sid lines =
           Inr (QEntity []
                   [GeometryRendererC
                      \<lparr>gr_geometry =
                         [\<lparr>attr_name = ''vertexPosition'',
                           attr_attributeType = VertexAttribute,
                           attr_vertexBaseType = Float,
                           attr_vertexSize = 3,
                           attr_buffer =
                             \<lparr>buf_type = VertexBuffer,
                              buf_data =
                                \<lparr>ba_size = 24 * length lines,
                                 ba_floats =
                                   concat (map (\<lambda>line.
                                      case ls_getPosition g (position1 line) of (x1, y1, z1) \<Rightarrow>
                                      case ls_getPosition g (position2 line) of (x2, y2, z2) \<Rightarrow>
                                        [x1, y1, z1, x2, y2, z2]) lines),
                                 ba_uints = []\<rparr>\<rparr>,
                           attr_byteOffset = 0,
                           attr_byteStride = 12,
                           attr_count = of_nat (2 * length lines)\<rparr>,
                          \<lparr>attr_name = ''vertexColor'',
                           attr_attributeType = VertexAttribute,
                           attr_vertexBaseType = Float,
                           attr_vertexSize = 3,
                           attr_buffer =
                             \<lparr>buf_type = VertexBuffer,
                              buf_data =
                                \<lparr>ba_size = 24 * length lines,
                                 ba_floats =
                                   concat (map (\<lambda>line.
                                      case ls_getDiffuseColor g (diffuseColor1 line) of (r1, g1, b1, a1) \<Rightarrow>
                                      case ls_getDiffuseColor g (diffuseColor2 line) of (r2, g2, b2, a2) \<Rightarrow>
                                        [r1, g1, b1, r2, g2, b2]) lines),
                                 ba_uints = []\<rparr>\<rparr>,
                           attr_byteOffset = 0,
                           attr_byteStride = 12,
                           attr_count = of_nat (2 * length lines)\<rparr>],
                       gr_primitiveRestartEnabled = False,
                       gr_primitiveType = Lines\<rparr>,
                    MaterialC material] [])"
proof -
  have lp: "12 * length (line_positions g lines) < 2 ^ 31"
    and lc: "12 * length (line_colors g lines) < 2 ^ 31"
    using assms(1) by (simp_all add: length_line_positions length_line_colors)
  show ?thesis
    unfolding lineEntity_def createPositionAttribute_fits[OF lp] createColorAttribute_fits[OF lc]
      assms(2) bindE_Inr floats_line_positions floats_line_colors
      length_line_positions length_line_colors
    by (simp add: renderer_def)
qed

lemma lineEntity_no_material:
  assumes "24 * length lines < 2 ^ 31"
    and "createMaterialFromShader p (ls_getShaderName g sid) True = Inl e"
  shows "lineEntity p g sid lines = Inl e"
proof -
  have lp: "12 * length (line_positions g lines) < 2 ^ 31"
    and lc: "12 * length (line_colors g lines) < 2 ^ 31"
    using assms(1) by (simp_all add: length_line_positions length_line_colors)
  show ?thesis
    unfolding lineEntity_def createPositionAttribute_fits[OF lp] createColorAttribute_fits[OF lc]
      assms(2) bindE_Inr bindE_Inl
    by (rule refl)
qed

lemma lineEntity_overrun:
  assumes "2 ^ 31 \<le> 24 * length lines" and "24 * length lines < 2 ^ 32"
  shows "lineEntity p g sid lines = Inl BufferOverrun"
proof -
  have "2 ^ 31 \<le> 12 * length (line_positions g lines)"
    and "12 * length (line_positions g lines) < 2 ^ 32"
    using assms by (simp_all add: length_line_positions)
  then have "createGenericAttribute (line_positions g lines) = Inl BufferOverrun"
    by (rule createGenericAttribute_overrun)
  then show ?thesis
    by (simp add: lineEntity_def createPositionAttribute_def)
qed

text \<open>
  C6 (amended). For every line set that is not empty, in one of the modes ShadedWireframe,
  HiddenWireframe, SolidOutline, Transparent, TransparentWireframe, Solid and SolidWireframe,
  in which the lines of every shading id have less than \<open>2\<^sup>3\<^sup>1\<close> bytes of position data (24
  bytes per line) and the shader name of every shading id resolves to a material with forced
  vertex colours: the lines are grouped by shading id, in increasing order of the ids and
  each group in the order of the lines; every shading id gives one entity with that material
  and one geometry renderer with primitive type Lines and two attributes over the \<open>n\<close> lines
  of that id, \<^verbatim>\<open>vertexPosition\<close> and \<^verbatim>\<open>vertexColor\<close>, each of three floats with byte stride
  12, byte offset 0 and count \<open>2n\<close>, on a buffer of its own of \<open>24 n\<close> bytes: the two end
  positions of each line, and the first three components of the two diffuse colours of each
  line. When there is exactly one shading id its entity is the result, otherwise the result
  is one entity with no components whose children are the entities of the shading ids, one
  each.
\<close>

theorem createLineSetGeometry_Solid_partitions:
  assumes "\<not> ls_isEmpty lineSetGeometry"
    and "m_mode p \<in> {ShadedWireframe, HiddenWireframe, SolidOutline, Transparent,
                      TransparentWireframe, Solid, SolidWireframe}"
    and "\<forall>sid \<in> shadingId ` set (ls_getLines lineSetGeometry).
           24 * length (filter (\<lambda>l. shadingId l = sid) (ls_getLines lineSetGeometry)) < 2 ^ 31"
    and "\<forall>sid \<in> shadingId ` set (ls_getLines lineSetGeometry).
           createMaterialFromShader p (ls_getShaderName lineSetGeometry sid) True = Inr (material sid)"
  shows "\<exists>unit.
           createLineSetGeometry p lineSetGeometry =
             Inr (Some (if length (sorted_list_of_set (shadingId ` set (ls_getLines lineSetGeometry))) = 1
                        then unit (hd (sorted_list_of_set (shadingId ` set (ls_getLines lineSetGeometry))))
                        else QEntity [] []
                               (map unit (sorted_list_of_set (shadingId ` set (ls_getLines lineSetGeometry)))))) \<and>
           (\<forall>sid \<in> shadingId ` set (ls_getLines lineSetGeometry).
              unit sid =
                (let part = filter (\<lambda>l. shadingId l = sid) (ls_getLines lineSetGeometry)
                 in QEntity []
                   [GeometryRendererC
                      \<lparr>gr_geometry =
                         [\<lparr>attr_name = ''vertexPosition'',
                           attr_attributeType = VertexAttribute,
                           attr_vertexBaseType = Float,
                           attr_vertexSize = 3,
                           attr_buffer =
                             \<lparr>buf_type = VertexBuffer,
                              buf_data =
                                \<lparr>ba_size = 24 * length part,
                                 ba_floats =
                                   concat (map (\<lambda>line.
                                      case ls_getPosition lineSetGeometry (position1 line) of (x1, y1, z1) \<Rightarrow>
                                      case ls_getPosition lineSetGeometry (position2 line) of (x2, y2, z2) \<Rightarrow>
                                        [x1, y1, z1, x2, y2, z2]) part),
                                 ba_uints = []\<rparr>\<rparr>,
                           attr_byteOffset = 0,
                           attr_byteStride = 12,
                           attr_count = of_nat (2 * length part)\<rparr>,
                          \<lparr>attr_name = ''vertexColor'',
                           attr_attributeType = VertexAttribute,
                           attr_vertexBaseType = Float,
                           attr_vertexSize = 3,
                           attr_buffer =
                             \<lparr>buf_type = VertexBuffer,
                              buf_data =
                                \<lparr>ba_size = 24 * length part,
                                 ba_floats =
                                   concat (map (\<lambda>line.
                                      case ls_getDiffuseColor lineSetGeometry (diffuseColor1 line) of (r1, g1, b1, a1) \<Rightarrow>
                                      case ls_getDiffuseColor lineSetGeometry (diffuseColor2 line) of (r2, g2, b2, a2) \<Rightarrow>
                                        [r1, g1, b1, r2, g2, b2]) part),
                                 ba_uints = []\<rparr>\<rparr>,
                           attr_byteOffset = 0,
                           attr_byteStride = 12,
                           attr_count = of_nat (2 * length part)\<rparr>],
                       gr_primitiveRestartEnabled = False,
                       gr_primitiveType = Lines\<rparr>,
                    MaterialC (material sid)] []))"
proof -
  let ?lines = "ls_getLines lineSetGeometry"
  let ?ids = "sorted_list_of_set (shadingId ` set ?lines)"
  let ?part = "\<lambda>sid. filter (\<lambda>l. shadingId l = sid) ?lines"
  let ?unit = "\<lambda>sid. QEntity []
                   [GeometryRendererC
                      \<lparr>gr_geometry =
                         [\<lparr>attr_name = ''vertexPosition'',
                           attr_attributeType = VertexAttribute,
                           attr_vertexBaseType = Float,
                           attr_vertexSize = 3,
                           attr_buffer =
                             \<lparr>buf_type = VertexBuffer,
                              buf_data =
                                \<lparr>ba_size = 24 * length (?part sid),
                                 ba_floats =
                                   concat (map (\<lambda>line.
                                      case ls_getPosition lineSetGeometry (position1 line) of (x1, y1, z1) \<Rightarrow>
                                      case ls_getPosition lineSetGeometry (position2 line) of (x2, y2, z2) \<Rightarrow>
                                        [x1, y1, z1, x2, y2, z2]) (?part sid)),
                                 ba_uints = []\<rparr>\<rparr>,
                           attr_byteOffset = 0,
                           attr_byteStride = 12,
                           attr_count = of_nat (2 * length (?part sid))\<rparr>,
                          \<lparr>attr_name = ''vertexColor'',
                           attr_attributeType = VertexAttribute,
                           attr_vertexBaseType = Float,
                           attr_vertexSize = 3,
                           attr_buffer =
                             \<lparr>buf_type = VertexBuffer,
                              buf_data =
                                \<lparr>ba_size = 24 * length (?part sid),
                                 ba_floats =
                                   concat (map (\<lambda>line.
                                      case ls_getDiffuseColor lineSetGeometry (diffuseColor1 line) of (r1, g1, b1, a1) \<Rightarrow>
                                      case ls_getDiffuseColor lineSetGeometry (diffuseColor2 line) of (r2, g2, b2, a2) \<Rightarrow>
                                        [r1, g1, b1, r2, g2, b2]) (?part sid)),
                                 ba_uints = []\<rparr>\<rparr>,
                           attr_byteOffset = 0,
                           attr_byteStride = 12,
                           attr_count = of_nat (2 * length (?part sid))\<rparr>],
                       gr_primitiveRestartEnabled = False,
                       gr_primitiveType = Lines\<rparr>,
                    MaterialC (material sid)] []"
  have each: "lineEntity p lineSetGeometry sid (?part sid) = Inr (?unit sid)"
    if "sid \<in> shadingId ` set ?lines" for sid
  proof -
    have "24 * length (?part sid) < 2 ^ 31" using assms(3) that by blast
    moreover have "createMaterialFromShader p (ls_getShaderName lineSetGeometry sid) True = Inr (material sid)"
      using assms(4) that by blast
    ultimately show ?thesis by (rule lineEntity_fits)
  qed
  have built: "\<forall>sid \<in> set ?ids. lineEntity p lineSetGeometry sid (?part sid) = Inr (?unit sid)"
  proof
    fix sid assume "sid \<in> set ?ids"
    then have "sid \<in> shadingId ` set ?lines" by simp
    then show "lineEntity p lineSetGeometry sid (?part sid) = Inr (?unit sid)" by (rule each)
  qed
  have ents: "lineEntities p lineSetGeometry (shadingIdToLines ?lines []) [] = Inr (map ?unit ?ids)"
    unfolding shadingIdToLines_eq using lineEntities_all[OF built, of "[]"] by simp
  have solid: "createLineSetGeometry_Solid p lineSetGeometry =
                 Inr (Some (if length ?ids = 1 then ?unit (hd ?ids) else QEntity [] [] (map ?unit ?ids)))"
    unfolding createLineSetGeometry_Solid_def ents
    by (cases ?ids) simp_all
  have res: "createLineSetGeometry p lineSetGeometry = createLineSetGeometry_Solid p lineSetGeometry"
    using assms(1,2) by (auto simp add: createLineSetGeometry_def)
  have full: "createLineSetGeometry p lineSetGeometry =
                 Inr (Some (if length ?ids = 1 then ?unit (hd ?ids) else QEntity [] [] (map ?unit ?ids)))"
    using res solid by simp
  have units: "\<forall>sid \<in> shadingId ` set ?lines.
              ?unit sid =
                (let part = filter (\<lambda>l. shadingId l = sid) ?lines
                 in QEntity []
                   [GeometryRendererC
                      \<lparr>gr_geometry =
                         [\<lparr>attr_name = ''vertexPosition'',
                           attr_attributeType = VertexAttribute,
                           attr_vertexBaseType = Float,
                           attr_vertexSize = 3,
                           attr_buffer =
                             \<lparr>buf_type = VertexBuffer,
                              buf_data =
                                \<lparr>ba_size = 24 * length part,
                                 ba_floats =
                                   concat (map (\<lambda>line.
                                      case ls_getPosition lineSetGeometry (position1 line) of (x1, y1, z1) \<Rightarrow>
                                      case ls_getPosition lineSetGeometry (position2 line) of (x2, y2, z2) \<Rightarrow>
                                        [x1, y1, z1, x2, y2, z2]) part),
                                 ba_uints = []\<rparr>\<rparr>,
                           attr_byteOffset = 0,
                           attr_byteStride = 12,
                           attr_count = of_nat (2 * length part)\<rparr>,
                          \<lparr>attr_name = ''vertexColor'',
                           attr_attributeType = VertexAttribute,
                           attr_vertexBaseType = Float,
                           attr_vertexSize = 3,
                           attr_buffer =
                             \<lparr>buf_type = VertexBuffer,
                              buf_data =
                                \<lparr>ba_size = 24 * length part,
                                 ba_floats =
                                   concat (map (\<lambda>line.
                                      case ls_getDiffuseColor lineSetGeometry (diffuseColor1 line) of (r1, g1, b1, a1) \<Rightarrow>
                                      case ls_getDiffuseColor lineSetGeometry (diffuseColor2 line) of (r2, g2, b2, a2) \<Rightarrow>
                                        [r1, g1, b1, r2, g2, b2]) part),
                                 ba_uints = []\<rparr>\<rparr>,
                           attr_byteOffset = 0,
                           attr_byteStride = 12,
                           attr_count = of_nat (2 * length part)\<rparr>],
                       gr_primitiveRestartEnabled = False,
                       gr_primitiveType = Lines\<rparr>,
                    MaterialC (material sid)] [])"
    unfolding Let_def by (rule ballI) (rule refl)
  show ?thesis
    by (rule exI[of _ ?unit], rule conjI[OF full units])
qed

theorem createLineSetGeometry_Solid_partitions_witness:
  "\<not> ls_isEmpty ex_lines \<and>
   m_mode (ex_processor Solid) \<in> {ShadedWireframe, HiddenWireframe, SolidOutline, Transparent,
                                    TransparentWireframe, Solid, SolidWireframe} \<and>
   map shadingId (ls_getLines ex_lines) = [7, 3, 7] \<and>
   shadingId ` set (ls_getLines ex_lines) = {3, 7} \<and>
   24 * length (filter (\<lambda>l. shadingId l = 3) (ls_getLines ex_lines)) < 2 ^ 31 \<and>
   24 * length (filter (\<lambda>l. shadingId l = 7) (ls_getLines ex_lines)) < 2 ^ 31 \<and>
   (\<exists>material3 material7.
      createMaterialFromShader (ex_processor Solid) (ls_getShaderName ex_lines 3) True = Inr material3 \<and>
      createMaterialFromShader (ex_processor Solid) (ls_getShaderName ex_lines 7) True = Inr material7 \<and>
      createLineSetGeometry (ex_processor Solid) ex_lines =
        Inr (Some (QEntity [] []
                     [QEntity []
                   [GeometryRendererC
                      \<lparr>gr_geometry =
                         [\<lparr>attr_name = ''vertexPosition'',
                           attr_attributeType = VertexAttribute,
                           attr_vertexBaseType = Float,
                           attr_vertexSize = 3,
                           attr_buffer =
                             \<lparr>buf_type = VertexBuffer,
                              buf_data = \<lparr>ba_size = 24, ba_floats = [fl 1, fl 0, fl 0, fl 2, fl 0, fl 0], ba_uints = []\<rparr>\<rparr>,
                           attr_byteOffset = 0,
                           attr_byteStride = 12,
                           attr_count = 2\<rparr>,
                          \<lparr>attr_name = ''vertexColor'',
                           attr_attributeType = VertexAttribute,
                           attr_vertexBaseType = Float,
                           attr_vertexSize = 3,
                           attr_buffer =
                             \<lparr>buf_type = VertexBuffer,
                              buf_data = \<lparr>ba_size = 24, ba_floats = [fl 0, fl 1, fl 0, fl 0, fl 1, fl 0], ba_uints = []\<rparr>\<rparr>,
                           attr_byteOffset = 0,
                           attr_byteStride = 12,
                           attr_count = 2\<rparr>],
                       gr_primitiveRestartEnabled = False,
                       gr_primitiveType = Lines\<rparr>,
                    MaterialC material3] [],
                      QEntity []
                   [GeometryRendererC
                      \<lparr>gr_geometry =
                         [\<lparr>attr_name = ''vertexPosition'',
                           attr_attributeType = VertexAttribute,
                           attr_vertexBaseType = Float,
                           attr_vertexSize = 3,
                           attr_buffer =
                             \<lparr>buf_type = VertexBuffer,
                              buf_data = \<lparr>ba_size = 48, ba_floats = [fl 0, fl 0, fl 0, fl 1, fl 0, fl 0, fl 2, fl 0, fl 0, fl 0, fl 0, fl 0], ba_uints = []\<rparr>\<rparr>,
                           attr_byteOffset = 0,
                           attr_byteStride = 12,
                           attr_count = 4\<rparr>,
                          \<lparr>attr_name = ''vertexColor'',
                           attr_attributeType = VertexAttribute,
                           attr_vertexBaseType = Float,
                           attr_vertexSize = 3,
                           attr_buffer =
                             \<lparr>buf_type = VertexBuffer,
                              buf_data = \<lparr>ba_size = 48, ba_floats = [fl 0, fl 1, fl 0, fl 0, fl 1, fl 0, fl 0, fl 1, fl 0, fl 0, fl 1, fl 0], ba_uints = []\<rparr>\<rparr>,
                           attr_byteOffset = 0,
                           attr_byteStride = 12,
                           attr_count = 4\<rparr>],
                       gr_primitiveRestartEnabled = False,
                       gr_primitiveType = Lines\<rparr>,
                    MaterialC material7] []])))"
proof -
  let ?p = "ex_processor Solid"
  let ?m3 = "\<lparr>mat_kind = QPerVertexColorMaterial, mat_renderStates = [QAlphaTest GreaterOrEqual (1 / 2)]\<rparr>"
  let ?m7 = "\<lparr>mat_kind = QDiffuseSpecularMaterial transparent
                       (TextureValue \<lparr>tex_width = 2, tex_height = 1, tex_image = ex_image\<rparr>)
                       transparent True,
               mat_renderStates = [QAlphaTest GreaterOrEqual (1 / 2)]\<rparr>"
  let ?mat = "\<lambda>sid::uint. if sid = 3 then ?m3 else ?m7"
  have h1: "\<not> ls_isEmpty ex_lines" by (simp add: ex_lines_def)
  have h2: "m_mode ?p \<in> {ShadedWireframe, HiddenWireframe, SolidOutline, Transparent,
                          TransparentWireframe, Solid, SolidWireframe}"
    by (simp add: ex_processor_def)
  have sids: "map shadingId (ls_getLines ex_lines) = [7, 3, 7]"
    by (simp add: ex_lines_def ex_line_def)
  have h3: "\<forall>sid \<in> shadingId ` set (ls_getLines ex_lines).
      24 * length (filter (\<lambda>l. shadingId l = sid) (ls_getLines ex_lines)) < 2 ^ 31"
  proof
    fix sid
    have "length (filter (\<lambda>l. shadingId l = sid) (ls_getLines ex_lines)) \<le> length (ls_getLines ex_lines)"
      by (rule length_filter_le)
    also have "\<dots> = 3" by (simp add: ex_lines_def)
    finally show "24 * length (filter (\<lambda>l. shadingId l = sid) (ls_getLines ex_lines)) < 2 ^ 31"
      by simp
  qed
  have m: "createMaterialFromShader ?p (ls_getShaderName ex_lines sid) True = Inr (?mat sid)" for sid
    by (simp add: createMaterialFromShader_def ex_lines_def ex_processor_def ex_sceneData_def
        ex_shader_def ex_image_def Let_def)
  then have h4: "\<forall>sid \<in> shadingId ` set (ls_getLines ex_lines).
           createMaterialFromShader ?p (ls_getShaderName ex_lines sid) True = Inr (?mat sid)"
    by blast
  have img: "shadingId ` set (ls_getLines ex_lines) = set [3, 7]"
    using sids by (metis insert_commute list.set(2) list.set_map insert_absorb2)
  have "sorted [3, 7 :: uint]" "distinct [3, 7 :: uint]" by simp_all
  then have ids: "sorted_list_of_set (shadingId ` set (ls_getLines ex_lines)) = [3, 7]"
    unfolding img by (rule sorted_list_of_set.idem_if_sorted_distinct)
  have p3: "filter (\<lambda>l. shadingId l = 3) (ls_getLines ex_lines) = [ex_line 1 2 3]"
    and p7: "filter (\<lambda>l. shadingId l = 7) (ls_getLines ex_lines) = [ex_line 0 1 7, ex_line 2 0 7]"
    by (simp_all add: ex_lines_def ex_line_def)
  from createLineSetGeometry_Solid_partitions[OF h1 h2 h3 h4]
  obtain unit where
    r: "createLineSetGeometry ?p ex_lines =
             Inr (Some (if length (sorted_list_of_set (shadingId ` set (ls_getLines ex_lines))) = 1
                        then unit (hd (sorted_list_of_set (shadingId ` set (ls_getLines ex_lines))))
                        else QEntity [] []
                               (map unit (sorted_list_of_set (shadingId ` set (ls_getLines ex_lines))))))"
    and u: "\<forall>sid \<in> shadingId ` set (ls_getLines ex_lines).
              unit sid =
                (let part = filter (\<lambda>l. shadingId l = sid) (ls_getLines ex_lines)
                 in QEntity []
                   [GeometryRendererC
                      \<lparr>gr_geometry =
                         [\<lparr>attr_name = ''vertexPosition'',
                           attr_attributeType = VertexAttribute,
                           attr_vertexBaseType = Float,
                           attr_vertexSize = 3,
                           attr_buffer =
                             \<lparr>buf_type = VertexBuffer,
                              buf_data =
                                \<lparr>ba_size = 24 * length part,
                                 ba_floats =
                                   concat (map (\<lambda>line.
                                      case ls_getPosition ex_lines (position1 line) of (x1, y1, z1) \<Rightarrow>
                                      case ls_getPosition ex_lines (position2 line) of (x2, y2, z2) \<Rightarrow>
                                        [x1, y1, z1, x2, y2, z2]) part),
                                 ba_uints = []\<rparr>\<rparr>,
                           attr_byteOffset = 0,
                           attr_byteStride = 12,
                           attr_count = of_nat (2 * length part)\<rparr>,
                          \<lparr>attr_name = ''vertexColor'',
                           attr_attributeType = VertexAttribute,
                           attr_vertexBaseType = Float,
                           attr_vertexSize = 3,
                           attr_buffer =
                             \<lparr>buf_type = VertexBuffer,
                              buf_data =
                                \<lparr>ba_size = 24 * length part,
                                 ba_floats =
                                   concat (map (\<lambda>line.
                                      case ls_getDiffuseColor ex_lines (diffuseColor1 line) of (r1, g1, b1, a1) \<Rightarrow>
                                      case ls_getDiffuseColor ex_lines (diffuseColor2 line) of (r2, g2, b2, a2) \<Rightarrow>
                                        [r1, g1, b1, r2, g2, b2]) part),
                                 ba_uints = []\<rparr>\<rparr>,
                           attr_byteOffset = 0,
                           attr_byteStride = 12,
                           attr_count = of_nat (2 * length part)\<rparr>],
                       gr_primitiveRestartEnabled = False,
                       gr_primitiveType = Lines\<rparr>,
                    MaterialC (?mat sid)] [])"
    by blast
  have in3: "3 \<in> shadingId ` set (ls_getLines ex_lines)" and in7: "7 \<in> shadingId ` set (ls_getLines ex_lines)"
    unfolding img by simp_all
  have u3: "unit 3 = QEntity []
                   [GeometryRendererC
                      \<lparr>gr_geometry =
                         [\<lparr>attr_name = ''vertexPosition'',
                           attr_attributeType = VertexAttribute,
                           attr_vertexBaseType = Float,
                           attr_vertexSize = 3,
                           attr_buffer =
                             \<lparr>buf_type = VertexBuffer,
                              buf_data = \<lparr>ba_size = 24, ba_floats = [fl 1, fl 0, fl 0, fl 2, fl 0, fl 0], ba_uints = []\<rparr>\<rparr>,
                           attr_byteOffset = 0,
                           attr_byteStride = 12,
                           attr_count = 2\<rparr>,
                          \<lparr>attr_name = ''vertexColor'',
                           attr_attributeType = VertexAttribute,
                           attr_vertexBaseType = Float,
                           attr_vertexSize = 3,
                           attr_buffer =
                             \<lparr>buf_type = VertexBuffer,
                              buf_data = \<lparr>ba_size = 24, ba_floats = [fl 0, fl 1, fl 0, fl 0, fl 1, fl 0], ba_uints = []\<rparr>\<rparr>,
                           attr_byteOffset = 0,
                           attr_byteStride = 12,
                           attr_count = 2\<rparr>],
                       gr_primitiveRestartEnabled = False,
                       gr_primitiveType = Lines\<rparr>,
                    MaterialC ?m3] []"
    unfolding u[rule_format, OF in3] Let_def p3
    by (simp add: ex_lines_def ex_line_def)
  have u7: "unit 7 = QEntity []
                   [GeometryRendererC
                      \<lparr>gr_geometry =
                         [\<lparr>attr_name = ''vertexPosition'',
                           attr_attributeType = VertexAttribute,
                           attr_vertexBaseType = Float,
                           attr_vertexSize = 3,
                           attr_buffer =
                             \<lparr>buf_type = VertexBuffer,
                              buf_data = \<lparr>ba_size = 48, ba_floats = [fl 0, fl 0, fl 0, fl 1, fl 0, fl 0, fl 2, fl 0, fl 0, fl 0, fl 0, fl 0], ba_uints = []\<rparr>\<rparr>,
                           attr_byteOffset = 0,
                           attr_byteStride = 12,
                           attr_count = 4\<rparr>,
                          \<lparr>attr_name = ''vertexColor'',
                           attr_attributeType = VertexAttribute,
                           attr_vertexBaseType = Float,
                           attr_vertexSize = 3,
                           attr_buffer =
                             \<lparr>buf_type = VertexBuffer,
                              buf_data = \<lparr>ba_size = 48, ba_floats = [fl 0, fl 1, fl 0, fl 0, fl 1, fl 0, fl 0, fl 1, fl 0, fl 0, fl 1, fl 0], ba_uints = []\<rparr>\<rparr>,
                           attr_byteOffset = 0,
                           attr_byteStride = 12,
                           attr_count = 4\<rparr>],
                       gr_primitiveRestartEnabled = False,
                       gr_primitiveType = Lines\<rparr>,
                    MaterialC ?m7] []"
    unfolding u[rule_format, OF in7] Let_def p7
    by (simp add: ex_lines_def ex_line_def)
  have r': "createLineSetGeometry ?p ex_lines =
        Inr (Some (QEntity [] []
                     [QEntity []
                   [GeometryRendererC
                      \<lparr>gr_geometry =
                         [\<lparr>attr_name = ''vertexPosition'',
                           attr_attributeType = VertexAttribute,
                           attr_vertexBaseType = Float,
                           attr_vertexSize = 3,
                           attr_buffer =
                             \<lparr>buf_type = VertexBuffer,
                              buf_data = \<lparr>ba_size = 24, ba_floats = [fl 1, fl 0, fl 0, fl 2, fl 0, fl 0], ba_uints = []\<rparr>\<rparr>,
                           attr_byteOffset = 0,
                           attr_byteStride = 12,
                           attr_count = 2\<rparr>,
                          \<lparr>attr_name = ''vertexColor'',
                           attr_attributeType = VertexAttribute,
                           attr_vertexBaseType = Float,
                           attr_vertexSize = 3,
                           attr_buffer =
                             \<lparr>buf_type = VertexBuffer,
                              buf_data = \<lparr>ba_size = 24, ba_floats = [fl 0, fl 1, fl 0, fl 0, fl 1, fl 0], ba_uints = []\<rparr>\<rparr>,
                           attr_byteOffset = 0,
                           attr_byteStride = 12,
                           attr_count = 2\<rparr>],
                       gr_primitiveRestartEnabled = False,
                       gr_primitiveType = Lines\<rparr>,
                    MaterialC ?m3] [],
                      QEntity []
                   [GeometryRendererC
                      \<lparr>gr_geometry =
                         [\<lparr>attr_name = ''vertexPosition'',
                           attr_attributeType = VertexAttribute,
                           attr_vertexBaseType = Float,
                           attr_vertexSize = 3,
                           attr_buffer =
                             \<lparr>buf_type = VertexBuffer,
                              buf_data = \<lparr>ba_size = 48, ba_floats = [fl 0, fl 0, fl 0, fl 1, fl 0, fl 0, fl 2, fl 0, fl 0, fl 0, fl 0, fl 0], ba_uints = []\<rparr>\<rparr>,
                           attr_byteOffset = 0,
                           attr_byteStride = 12,
                           attr_count = 4\<rparr>,
                          \<lparr>attr_name = ''vertexColor'',
                           attr_attributeType = VertexAttribute,
                           attr_vertexBaseType = Float,
                           attr_vertexSize = 3,
                           attr_buffer =
                             \<lparr>buf_type = VertexBuffer,
                              buf_data = \<lparr>ba_size = 48, ba_floats = [fl 0, fl 1, fl 0, fl 0, fl 1, fl 0, fl 0, fl 1, fl 0, fl 0, fl 1, fl 0], ba_uints = []\<rparr>\<rparr>,
                           attr_byteOffset = 0,
                           attr_byteStride = 12,
                           attr_count = 4\<rparr>],
                       gr_primitiveRestartEnabled = False,
                       gr_primitiveType = Lines\<rparr>,
                    MaterialC ?m7] []]))"
    using r unfolding ids by (simp add: u3 u7)
  have m3: "createMaterialFromShader ?p (ls_getShaderName ex_lines 3) True = Inr ?m3"
    using m[of 3] by simp
  have m7: "createMaterialFromShader ?p (ls_getShaderName ex_lines 7) True = Inr ?m7"
    using m[of 7] by simp
  have "\<exists>material3 material7.
      createMaterialFromShader ?p (ls_getShaderName ex_lines 3) True = Inr material3 \<and>
      createMaterialFromShader ?p (ls_getShaderName ex_lines 7) True = Inr material7 \<and>
      createLineSetGeometry ?p ex_lines =
        Inr (Some (QEntity [] []
                     [QEntity []
                   [GeometryRendererC
                      \<lparr>gr_geometry =
                         [\<lparr>attr_name = ''vertexPosition'',
                           attr_attributeType = VertexAttribute,
                           attr_vertexBaseType = Float,
                           attr_vertexSize = 3,
                           attr_buffer =
                             \<lparr>buf_type = VertexBuffer,
                              buf_data = \<lparr>ba_size = 24, ba_floats = [fl 1, fl 0, fl 0, fl 2, fl 0, fl 0], ba_uints = []\<rparr>\<rparr>,
                           attr_byteOffset = 0,
                           attr_byteStride = 12,
                           attr_count = 2\<rparr>,
                          \<lparr>attr_name = ''vertexColor'',
                           attr_attributeType = VertexAttribute,
                           attr_vertexBaseType = Float,
                           attr_vertexSize = 3,
                           attr_buffer =
                             \<lparr>buf_type = VertexBuffer,
                              buf_data = \<lparr>ba_size = 24, ba_floats = [fl 0, fl 1, fl 0, fl 0, fl 1, fl 0], ba_uints = []\<rparr>\<rparr>,
                           attr_byteOffset = 0,
                           attr_byteStride = 12,
                           attr_count = 2\<rparr>],
                       gr_primitiveRestartEnabled = False,
                       gr_primitiveType = Lines\<rparr>,
                    MaterialC material3] [],
                      QEntity []
                   [GeometryRendererC
                      \<lparr>gr_geometry =
                         [\<lparr>attr_name = ''vertexPosition'',
                           attr_attributeType = VertexAttribute,
                           attr_vertexBaseType = Float,
                           attr_vertexSize = 3,
                           attr_buffer =
                             \<lparr>buf_type = VertexBuffer,
                              buf_data = \<lparr>ba_size = 48, ba_floats = [fl 0, fl 0, fl 0, fl 1, fl 0, fl 0, fl 2, fl 0, fl 0, fl 0, fl 0, fl 0], ba_uints = []\<rparr>\<rparr>,
                           attr_byteOffset = 0,
                           attr_byteStride = 12,
                           attr_count = 4\<rparr>,
                          \<lparr>attr_name = ''vertexColor'',
                           attr_attributeType = VertexAttribute,
                           attr_vertexBaseType = Float,
                           attr_vertexSize = 3,
                           attr_buffer =
                             \<lparr>buf_type = VertexBuffer,
                              buf_data = \<lparr>ba_size = 48, ba_floats = [fl 0, fl 1, fl 0, fl 0, fl 1, fl 0, fl 0, fl 1, fl 0, fl 0, fl 1, fl 0], ba_uints = []\<rparr>\<rparr>,
                           attr_byteOffset = 0,
                           attr_byteStride = 12,
                           attr_count = 4\<rparr>],
                       gr_primitiveRestartEnabled = False,
                       gr_primitiveType = Lines\<rparr>,
                    MaterialC material7] []]))"
    by (rule exI[of _ ?m3], rule exI[of _ ?m7], rule conjI[OF m3 conjI[OF m7 r']])
  moreover have "shadingId ` set (ls_getLines ex_lines) = {3, 7}"
    unfolding img by simp
  moreover have "24 * length (filter (\<lambda>l. shadingId l = 3) (ls_getLines ex_lines)) < 2 ^ 31"
    using h3 in3 by (rule bspec)
  moreover have "24 * length (filter (\<lambda>l. shadingId l = 7) (ls_getLines ex_lines)) < 2 ^ 31"
    using h3 in7 by (rule bspec)
  ultimately show ?thesis using h1 h2 sids by (intro conjI)
qed

text \<open>
  A line set of 89478486 lines of one shading id has \<open>2\<^sup>3\<^sup>1 + 16\<close> bytes of position data
  for that id, and the writes overrun the array; a line set whose shader names are not in the
  scene data has no material, and the null material is dereferenced. Neither gives an
  entity.
\<close>

theorem createLineSetGeometry_Solid_counterexample:
  "\<not> ls_isEmpty ex_line_limit \<and> length (ls_getLines ex_line_limit) = 89478486 \<and>
   createLineSetGeometry (ex_processor Solid) ex_line_limit = Inl BufferOverrun \<and>
   \<not> ls_isEmpty ex_lines_unknown_shader \<and> length (ls_getLines ex_lines_unknown_shader) = 3 \<and>
   createLineSetGeometry (ex_processor Solid) ex_lines_unknown_shader = Inl NullPointerDereference"
proof -
  let ?p = "ex_processor Solid"
  have h2: "m_mode ?p = Solid" by (simp add: ex_processor_def)
  have e1: "\<not> ls_isEmpty ex_line_limit"
    and n1: "length (ls_getLines ex_line_limit) = 89478486"
    and l1: "ls_getLines ex_line_limit = replicate 89478486 (ex_line 0 1 7)"
    by (simp_all add: ex_line_limit_def ex_lines_def)
  have s1: "shadingId ` set (ls_getLines ex_line_limit) = {7}"
    unfolding l1 by (simp add: ex_line_def)
  have f1: "filter (\<lambda>l. shadingId l = 7) (ls_getLines ex_line_limit) = ls_getLines ex_line_limit"
    unfolding l1 by (simp add: ex_line_def)
  have m1: "shadingIdToLines (ls_getLines ex_line_limit) [] = [(7, ls_getLines ex_line_limit)]"
    unfolding shadingIdToLines_eq s1 by (simp add: f1)
  have o1: "lineEntity ?p ex_line_limit 7 (ls_getLines ex_line_limit) = Inl BufferOverrun"
    by (rule lineEntity_overrun) (simp_all add: n1)
  have "createLineSetGeometry_Solid ?p ex_line_limit = Inl BufferOverrun"
    unfolding createLineSetGeometry_Solid_def m1 by (simp add: o1)
  then have r1: "createLineSetGeometry ?p ex_line_limit = Inl BufferOverrun"
    using e1 h2 by (simp add: createLineSetGeometry_def)
  have e2: "\<not> ls_isEmpty ex_lines_unknown_shader"
    and n2: "length (ls_getLines ex_lines_unknown_shader) = 3"
    and l2: "ls_getLines ex_lines_unknown_shader = [ex_line 0 1 7, ex_line 1 2 3, ex_line 2 0 7]"
    and sh2: "ls_getShaderName ex_lines_unknown_shader = (\<lambda>i. ''none'')"
    by (simp_all add: ex_lines_unknown_shader_def ex_lines_def)
  have nomat: "createMaterialFromShader ?p (ls_getShaderName ex_lines_unknown_shader 3) True
                 = Inl NullPointerDereference"
    unfolding sh2 by (simp add: createMaterialFromShader_def ex_processor_def ex_sceneData_def)
  have m2: "shadingIdToLines (ls_getLines ex_lines_unknown_shader) []
              = [(3, [ex_line 1 2 3]), (7, [ex_line 0 1 7, ex_line 2 0 7])]"
    unfolding l2 by (simp add: ex_line_def)
  have o2: "lineEntity ?p ex_lines_unknown_shader 3 [ex_line 1 2 3] = Inl NullPointerDereference"
    by (rule lineEntity_no_material[OF _ nomat]) simp
  have "createLineSetGeometry_Solid ?p ex_lines_unknown_shader = Inl NullPointerDereference"
    unfolding createLineSetGeometry_Solid_def m2 by (simp add: o2)
  then have r2: "createLineSetGeometry ?p ex_lines_unknown_shader = Inl NullPointerDereference"
    using e2 h2 by (simp add: createLineSetGeometry_def)
  show ?thesis using e1 n1 r1 e2 n2 r2 by (intro conjI)
qed

end
